theory Spec2Isabelle
  imports Complex_Main "HOL-Library.AList"
begin

section \<open>Unified robot model (UnifiedRobotModel.ts)\<close>

text \<open>
  The entity classes of the unified model. Render handles (\<open>threeObject\<close>) and the
  geometry lists are references to objects owned elsewhere and are kept as addresses.
  The three classes all have a field called \<open>name\<close>; the fields are prefixed here
  because record fields share one name space.
\<close>

record Link =
  link_name :: string
  link_visuals :: "nat list"
  link_collisions :: "nat list"
  link_inertial :: "nat option"
  link_threeObject :: "nat option"

record Joint =
  joint_name :: string
  joint_type :: string
  joint_parent :: "string option"
  joint_child :: "string option"
  joint_currentValue :: real
  joint_threeObject :: "nat option"

record Constraint =
  constraint_name :: string
  constraint_type :: string
  constraint_body1 :: "string option"
  constraint_body2 :: "string option"
  constraint_joint1 :: "string option"
  constraint_joint2 :: "string option"
  constraint_threeObject :: "nat option"

text \<open>
  A JavaScript \<open>Map\<close> keeps its entries in insertion order and \<open>set\<close> on a key that
  is present replaces the value in place. That is an association list updated with
  \<open>AList.update\<close>; \<open>get\<close> is \<open>map_of\<close>, with \<open>None\<close> for \<open>undefined\<close>.
\<close>

type_synonym ('k, 'v) js_map = "('k \<times> 'v) list"

definition map_set :: "'k \<Rightarrow> 'v \<Rightarrow> ('k, 'v) js_map \<Rightarrow> ('k, 'v) js_map" where
  "map_set k v m = AList.update k v m"

definition map_get :: "('k, 'v) js_map \<Rightarrow> 'k \<Rightarrow> 'v option" where
  "map_get m k = map_of m k"

definition map_keys :: "('k, 'v) js_map \<Rightarrow> 'k list" where
  "map_keys m = map fst m"

definition map_size :: "('k, 'v) js_map \<Rightarrow> nat" where
  "map_size m = length m"

record UnifiedRobotModel =
  model_name :: string
  links :: "(string, Link) js_map"
  joints :: "(string, Joint) js_map"
  constraints :: "(string, Constraint) js_map"
  rootLink :: "string option"
  model_threeObject :: "nat option"

definition new_UnifiedRobotModel :: UnifiedRobotModel where
  "new_UnifiedRobotModel =
     \<lparr>model_name = [], links = [], joints = [], constraints = [],
      rootLink = None, model_threeObject = None\<rparr>"

definition addLink :: "Link \<Rightarrow> UnifiedRobotModel \<Rightarrow> UnifiedRobotModel" where
  "addLink link m = m\<lparr>links := map_set (link_name link) link (links m)\<rparr>"

definition addJoint :: "Joint \<Rightarrow> UnifiedRobotModel \<Rightarrow> UnifiedRobotModel" where
  "addJoint joint m = m\<lparr>joints := map_set (joint_name joint) joint (joints m)\<rparr>"

definition addConstraint :: "Constraint \<Rightarrow> UnifiedRobotModel \<Rightarrow> UnifiedRobotModel" where
  "addConstraint c m = m\<lparr>constraints := map_set (constraint_name c) c (constraints m)\<rparr>"

definition getLink :: "UnifiedRobotModel \<Rightarrow> string \<Rightarrow> Link option" where
  "getLink m n = map_get (links m) n"

definition getJoint :: "UnifiedRobotModel \<Rightarrow> string \<Rightarrow> Joint option" where
  "getJoint m n = map_get (joints m) n"

definition getConstraint :: "UnifiedRobotModel \<Rightarrow> string \<Rightarrow> Constraint option" where
  "getConstraint m n = map_get (constraints m) n"

text \<open>The three mappings hold each key once.\<close>

definition unique_keys :: "UnifiedRobotModel \<Rightarrow> bool" where
  "unique_keys m \<longleftrightarrow>
     distinct (map_keys (links m)) \<and> distinct (map_keys (joints m)) \<and>
     distinct (map_keys (constraints m))"

section \<open>Coordinate conversion (MujocoSimulationManager.js)\<close>

record Vector3 =
  vec_x :: real
  vec_y :: real
  vec_z :: real

definition vec_set :: "real \<Rightarrow> real \<Rightarrow> real \<Rightarrow> Vector3" where
  "vec_set a b c = \<lparr>vec_x = a, vec_y = b, vec_z = c\<rparr>"

text \<open>
  A read of a typed array past its end gives \<open>undefined\<close> in JavaScript; the read is
  an option here and a vector with such a component is \<open>None\<close>.
\<close>

definition buf_read :: "real list \<Rightarrow> nat \<Rightarrow> real option" where
  "buf_read buffer i = (if i < length buffer then Some (buffer ! i) else None)"

definition getPosition :: "real list \<Rightarrow> nat \<Rightarrow> bool \<Rightarrow> Vector3 option" where
  "getPosition buffer index swizzle =
     (case (buf_read buffer (index * 3 + 0), buf_read buffer (index * 3 + 1),
            buf_read buffer (index * 3 + 2)) of
        (Some b0, Some b1, Some b2) \<Rightarrow>
          Some (if swizzle then vec_set b0 b2 (- b1) else vec_set b0 b1 b2)
      | _ \<Rightarrow> None)"

definition toMujocoPos :: "Vector3 \<Rightarrow> Vector3" where
  "toMujocoPos target = vec_set (vec_x target) (- vec_z target) (vec_y target)"

section \<open>JavaScript string operations\<close>

text \<open>
  JavaScript strings are modelled as \<open>string\<close>. The operations below are the ones the
  resolvers use, each with the behaviour of its JavaScript counterpart.
\<close>

definition startsWith :: "string \<Rightarrow> string \<Rightarrow> bool" where
  "startsWith s p \<longleftrightarrow> take (length p) s = p"

definition endsWith :: "string \<Rightarrow> string \<Rightarrow> bool" where
  "endsWith s p \<longleftrightarrow> length p \<le> length s \<and> drop (length s - length p) s = p"

text \<open>\<open>s.includes('/')\<close> and \<open>s.substring(s.indexOf('/') + 1)\<close>.\<close>

definition includes_slash :: "string \<Rightarrow> bool" where
  "includes_slash s \<longleftrightarrow> CHR ''/'' \<in> set s"

definition after_first_slash :: "string \<Rightarrow> string" where
  "after_first_slash s = drop (length (takeWhile (\<lambda>c. c \<noteq> CHR ''/'') s) + 1) s"

text \<open>\<open>s.split('/')\<close>: never empty; an empty string gives one empty part.\<close>

fun split_slash :: "string \<Rightarrow> string list" where
  "split_slash [] = [[]]"
| "split_slash (c # cs) =
     (if c = CHR ''/'' then [] # split_slash cs
      else (case split_slash cs of
              p # ps \<Rightarrow> (c # p) # ps
            | [] \<Rightarrow> [[c]]))"

text \<open>\<open>parts.join('/')\<close>.\<close>

fun join_slash :: "string list \<Rightarrow> string" where
  "join_slash [] = []"
| "join_slash [p] = p"
| "join_slash (p # q # ps) = p @ ''/'' @ join_slash (q # ps)"

text \<open>\<open>s.split('/').pop()\<close>: the part after the last slash.\<close>

definition split_pop :: "string \<Rightarrow> string" where
  "split_pop s = last (split_slash s)"

text \<open>\<open>s.replace(/^\.\//, '')\<close>, \<open>s.replace(/^\/+/, '')\<close> and \<open>s.replace(/^package:\/\//, '')\<close>.\<close>

definition strip_dot_slash :: "string \<Rightarrow> string" where
  "strip_dot_slash s = (if startsWith s ''./'' then drop 2 s else s)"

definition strip_leading_slashes :: "string \<Rightarrow> string" where
  "strip_leading_slashes s = dropWhile (\<lambda>c. c = CHR ''/'') s"

definition strip_package_scheme :: "string \<Rightarrow> string" where
  "strip_package_scheme s = (if startsWith s ''package://'' then drop 10 s else s)"

text \<open>
  \<open>s.replace(/^blob:[^\/]+\//, '')\<close>: after \<open>blob:\<close>, a non-empty run of characters other
  than a slash, then a slash. The run cannot contain a slash, so the greedy match is the
  only candidate.
\<close>

definition strip_blob_prefix :: "string \<Rightarrow> string" where
  "strip_blob_prefix s =
     (if startsWith s ''blob:'' then
        (let r = drop 5 s; run = takeWhile (\<lambda>c. c \<noteq> CHR ''/'') r; r' = drop (length run) r
         in if run \<noteq> [] \<and> startsWith r' ''/'' then drop 1 r' else s)
      else s)"

section \<open>Xacro adapter: lookups in the uploaded-file bundle (XacroAdapter.js)\<close>

text \<open>
  The bundle is a \<open>Map\<close> from path to \<open>File\<close>. A \<open>File\<close> is an object, so the tests
  \<open>if (file)\<close> of the source succeed exactly when the key is present.
\<close>

record File =
  file_name :: string
  file_text :: string

datatype adapter_error = CannotFindIncludedFile string

text \<open>The loop \<open>for (const tryPath of possiblePaths)\<close>.\<close>

fun try_paths :: "string list \<Rightarrow> (string, File) js_map \<Rightarrow> File option" where
  "try_paths [] fileMap = None"
| "try_paths (tryPath # rest) fileMap =
     (case map_get fileMap tryPath of
        Some file \<Rightarrow> Some file
      | None \<Rightarrow> try_paths rest fileMap)"

text \<open>The loop \<open>for (const [key, file] of fileMap.entries())\<close> with the file-name test.\<close>

fun filename_match :: "string \<Rightarrow> (string, File) js_map \<Rightarrow> File option" where
  "filename_match fileName [] = None"
| "filename_match fileName ((key, file) # rest) =
     (if split_pop key = fileName then Some file else filename_match fileName rest)"

definition cleanPath_of :: "string \<Rightarrow> string" where
  "cleanPath_of path = strip_dot_slash (if startsWith path ''/'' then drop 1 path else path)"

definition possiblePaths :: "string \<Rightarrow> string \<Rightarrow> string list" where
  "possiblePaths path workingPath =
     (let cleanPath = cleanPath_of path in
      [cleanPath,
       workingPath @ cleanPath,
       path,
       workingPath @ strip_leading_slashes path,
       if includes_slash cleanPath then after_first_slash cleanPath else cleanPath])"

definition loadFileFromMap ::
  "string \<Rightarrow> (string, File) js_map \<Rightarrow> string \<Rightarrow> adapter_error + string" where
  "loadFileFromMap path fileMap workingPath =
     (case try_paths (possiblePaths path workingPath) fileMap of
        Some file \<Rightarrow> Inr (file_text file)
      | None \<Rightarrow>
          (case filename_match (split_pop (cleanPath_of path)) fileMap of
             Some file \<Rightarrow> Inr (file_text file)
           | None \<Rightarrow> Inl (CannotFindIncludedFile path)))"

text \<open>
  The lookup order as the specification words it: the cleaned path, the path prefixed
  with the including document's directory, then the file-name-only fallback. It is
  compared with \<open>loadFileFromMap\<close> below.
\<close>

definition loadFileFromMap_as_specified ::
  "string \<Rightarrow> (string, File) js_map \<Rightarrow> string \<Rightarrow> adapter_error + string" where
  "loadFileFromMap_as_specified path fileMap workingPath =
     (let cleanPath = cleanPath_of path in
      case try_paths [cleanPath, workingPath @ cleanPath] fileMap of
        Some file \<Rightarrow> Inr (file_text file)
      | None \<Rightarrow>
          (case filename_match (split_pop cleanPath) fileMap of
             Some file \<Rightarrow> Inr (file_text file)
           | None \<Rightarrow> Inl (CannotFindIncludedFile path)))"

text \<open>
  The step shared by \<open>findFileInMapByPath\<close> and \<open>urlModifier\<close>: drop \<open>package://\<close> and,
  when a slash follows, the package name.
\<close>

definition remove_package_prefix :: "string \<Rightarrow> string" where
  "remove_package_prefix meshPath =
     (if startsWith meshPath ''package://'' then
        (let m = strip_package_scheme meshPath; parts = split_slash m
         in if length parts > 1 then join_slash (tl parts) else m)
      else meshPath)"

definition findFileInMapByPath ::
  "string \<Rightarrow> (string, File) js_map \<Rightarrow> string \<Rightarrow> File option" where
  "findFileInMapByPath path fileMap urdfDir =
     (let meshPath = strip_dot_slash (remove_package_prefix (strip_blob_prefix path));
          fullPath = urdfDir @ meshPath
      in case map_get fileMap fullPath of
           Some file \<Rightarrow> Some file
         | None \<Rightarrow>
             (case map_get fileMap meshPath of
                Some file \<Rightarrow> Some file
              | None \<Rightarrow> filename_match (split_pop meshPath) fileMap))"

text \<open>
  \<open>urlModifier\<close>, the URL rewriter installed on the loader. \<open>new URL(..).pathname\<close>
  belongs to the browser and is a parameter (\<open>None\<close> when the constructor throws);
  \<open>URL.createObjectURL(matchedFile)\<close> is the result \<open>ObjectURL matchedFile\<close>. The two
  constants \<open>isTextureFile\<close> and \<open>isMeshFile\<close> of the source are never read.
\<close>

datatype url_result = ObjectURL File | Url string

definition to_lower_ascii :: "char \<Rightarrow> char" where
  "to_lower_ascii c =
     (let n = (of_char c :: nat) in if 65 \<le> n \<and> n \<le> 90 then char_of (n + 32) else c)"

text \<open>\<open>/\.(jpg|jpeg|...|glb)$/i.test(fileName)\<close>.\<close>

definition asset_extensions :: "string list" where
  "asset_extensions =
     [''jpg'', ''jpeg'', ''png'', ''gif'', ''bmp'', ''tga'', ''tiff'', ''webp'',
      ''dae'', ''stl'', ''obj'', ''gltf'', ''glb'']"

definition has_asset_extension :: "string \<Rightarrow> bool" where
  "has_asset_extension fileName \<longleftrightarrow>
     list_ex (\<lambda>e. endsWith (map to_lower_ascii fileName) (''.'' @ e)) asset_extensions"

text \<open>
  \<open>url.match(/^blob:https?:\/\/[^\/]+\/(.+)$/)\<close>, giving the captured group. The dot
  does not match a line terminator.
\<close>

definition is_line_terminator :: "char \<Rightarrow> bool" where
  "is_line_terminator c \<longleftrightarrow> c = CHR 0x0A \<or> c = CHR 0x0D"

definition match_blob_url :: "string \<Rightarrow> string option" where
  "match_blob_url url =
     (if startsWith url ''blob:http'' then
        (let r1 = drop 9 url;
             r2 = (if startsWith r1 ''s'' then drop 1 r1 else r1)
         in if startsWith r2 ''://'' then
              (let r3 = drop 3 r2;
                   host = takeWhile (\<lambda>c. c \<noteq> CHR ''/'') r3;
                   r4 = drop (length host) r3
               in if host \<noteq> [] \<and> startsWith r4 ''/'' then
                    (let cap = drop 1 r4
                     in if cap \<noteq> [] \<and> \<not> list_ex is_line_terminator cap
                        then Some cap else None)
                  else None)
            else None)
      else None)"

text \<open>\<open>meshPath.includes('../')\<close>.\<close>

fun includes_str :: "string \<Rightarrow> string \<Rightarrow> bool" where
  "includes_str [] p = (p = [])"
| "includes_str (c # cs) p = (startsWith (c # cs) p \<or> includes_str cs p)"

text \<open>The loop that resolves \<open>..\<close> segments; \<open>pop\<close> on an empty array does nothing.\<close>

fun resolve_parts :: "string list \<Rightarrow> string list \<Rightarrow> string list" where
  "resolve_parts [] resolvedParts = resolvedParts"
| "resolve_parts (part # rest) resolvedParts =
     (if part = ''..'' then resolve_parts rest (butlast resolvedParts)
      else if part \<noteq> ''.'' \<and> part \<noteq> [] then resolve_parts rest (resolvedParts @ [part])
      else resolve_parts rest resolvedParts)"

definition urlModifier ::
  "(string \<Rightarrow> string option) \<Rightarrow> (string, File) js_map \<Rightarrow> string \<Rightarrow> string \<Rightarrow> url_result" where
  "urlModifier url_pathname fileMap urdfDir url0 =
     (case (if startsWith url0 ''blob:'' then
              (case match_blob_url url0 of
                 Some fileName \<Rightarrow> if has_asset_extension fileName then Inr fileName else Inl url0
               | None \<Rightarrow> Inl url0)
            else Inr url0) of
        Inl u \<Rightarrow> Url u
      | Inr url \<Rightarrow>
         (let meshPath0 =
                (if startsWith url ''http://'' \<or> startsWith url ''https://'' then
                   (case url_pathname url of
                      Some pathname \<Rightarrow> if startsWith pathname ''/'' then drop 1 pathname else pathname
                    | None \<Rightarrow> url)
                 else url);
              meshPath = strip_dot_slash (remove_package_prefix meshPath0);
              normalizedPath =
                (if includes_str meshPath ''../''
                 then join_slash (resolve_parts (split_slash meshPath) [])
                 else meshPath);
              fullPath = urdfDir @ normalizedPath;
              altPath = urdfDir @ meshPath;
              m1 = map_get fileMap fullPath;
              m2 = (if m1 = None \<and> altPath \<noteq> fullPath then map_get fileMap altPath else m1);
              m3 = (if m2 = None then map_get fileMap normalizedPath else m2);
              m4 = (if m3 = None then map_get fileMap meshPath else m3);
              m5 = (if m4 = None then
                      (let targetFileName =
                             (if split_pop normalizedPath \<noteq> [] then split_pop normalizedPath
                              else split_pop meshPath)
                       in filename_match targetFileName fileMap)
                    else m4)
          in case m5 of
               Some matchedFile \<Rightarrow> ObjectURL matchedFile
             | None \<Rightarrow> Url url))"

section \<open>Ground-plane injection (MujocoSimulationManager.addGroundPlane)\<close>

text \<open>
  A parsed XML document is its root element. An element has a tag, its attributes and
  its child nodes; \<open>Other\<close> is any node that is not an element (text, comment).
  Returning the input tree stands for \<open>return xmlContent\<close>, returning another tree for
  the serialised modified document.
\<close>

datatype xml_node =
    Element string "(string \<times> string) list" "xml_node list"
  | Other string

definition getAttribute :: "xml_node \<Rightarrow> string \<Rightarrow> string option" where
  "getAttribute n a = (case n of Element t as cs \<Rightarrow> map_of as a | Other s \<Rightarrow> None)"

text \<open>The selectors \<open>worldbody\<close> and \<open>geom[type="plane"]\<close>, and any \<open>geom\<close> element.\<close>

definition is_worldbody :: "xml_node \<Rightarrow> bool" where
  "is_worldbody n = (case n of Element t as cs \<Rightarrow> t = ''worldbody'' | Other s \<Rightarrow> False)"

definition is_geom :: "xml_node \<Rightarrow> bool" where
  "is_geom n = (case n of Element t as cs \<Rightarrow> t = ''geom'' | Other s \<Rightarrow> False)"

definition is_plane_geom :: "xml_node \<Rightarrow> bool" where
  "is_plane_geom n \<longleftrightarrow> is_geom n \<and> getAttribute n ''type'' = Some ''plane''"

text \<open>
  \<open>doc.querySelector(sel)\<close>: the first element in document order, the root included.
  \<open>element.querySelector(sel)\<close> looks at the descendants of the element only.
\<close>

fun querySelector :: "(xml_node \<Rightarrow> bool) \<Rightarrow> xml_node \<Rightarrow> xml_node option"
  and querySelector_list :: "(xml_node \<Rightarrow> bool) \<Rightarrow> xml_node list \<Rightarrow> xml_node option" where
  "querySelector P (Other s) = None"
| "querySelector P (Element t as cs) =
     (if P (Element t as cs) then Some (Element t as cs) else querySelector_list P cs)"
| "querySelector_list P [] = None"
| "querySelector_list P (c # cs) =
     (case querySelector P c of
        Some n \<Rightarrow> Some n
      | None \<Rightarrow> querySelector_list P cs)"

definition element_querySelector :: "(xml_node \<Rightarrow> bool) \<Rightarrow> xml_node \<Rightarrow> xml_node option" where
  "element_querySelector P n =
     (case n of Element t as cs \<Rightarrow> querySelector_list P cs | Other s \<Rightarrow> None)"

text \<open>
  The mutation of the element that \<open>querySelector\<close> returned: the new node becomes the
  first child of the first element in document order that matches. (With a first child
  the source calls \<open>insertBefore\<close> it, without one \<open>appendChild\<close>; both put the node
  first.)
\<close>

fun insert_first_child :: "(xml_node \<Rightarrow> bool) \<Rightarrow> xml_node \<Rightarrow> xml_node \<Rightarrow> xml_node option"
  and insert_first_child_list ::
    "(xml_node \<Rightarrow> bool) \<Rightarrow> xml_node \<Rightarrow> xml_node list \<Rightarrow> xml_node list option" where
  "insert_first_child P g (Other s) = None"
| "insert_first_child P g (Element t as cs) =
     (if P (Element t as cs) then Some (Element t as (g # cs))
      else (case insert_first_child_list P g cs of
              Some cs' \<Rightarrow> Some (Element t as cs')
            | None \<Rightarrow> None))"
| "insert_first_child_list P g [] = None"
| "insert_first_child_list P g (c # cs) =
     (case insert_first_child P g c of
        Some c' \<Rightarrow> Some (c' # cs)
      | None \<Rightarrow>
          (case insert_first_child_list P g cs of
             Some cs' \<Rightarrow> Some (c # cs')
           | None \<Rightarrow> None))"

text \<open>
  The scene manager's ground plane is known by its height \<open>position.y\<close>, if there is
  one. The template literal turns the number into text with JavaScript's number
  formatting, a parameter here.
\<close>

definition groundGeom :: "(real \<Rightarrow> string) \<Rightarrow> real option \<Rightarrow> xml_node" where
  "groundGeom show_number groundPlane =
     (let threeGroundY = (case groundPlane of Some y \<Rightarrow> y | None \<Rightarrow> 0) in
      Element ''geom''
        [(''name'', ''ground''),
         (''type'', ''plane''),
         (''size'', ''10 10 0.1''),
         (''rgba'', ''0.9 0.9 0.9 1''),
         (''pos'', ''0 0 '' @ show_number threeGroundY),
         (''contype'', ''1''),
         (''conaffinity'', ''1''),
         (''condim'', ''3''),
         (''friction'', ''1 0.005 0.0001'')]
        [])"

definition addGroundPlane :: "(real \<Rightarrow> string) \<Rightarrow> real option \<Rightarrow> xml_node \<Rightarrow> xml_node" where
  "addGroundPlane show_number groundPlane doc =
     (case querySelector is_worldbody doc of
        None \<Rightarrow> doc
      | Some worldbody \<Rightarrow>
          (case element_querySelector is_plane_geom worldbody of
             Some existingPlane \<Rightarrow> doc
           | None \<Rightarrow>
               (case insert_first_child is_worldbody (groundGeom show_number groundPlane) doc of
                  Some doc' \<Rightarrow> doc'
                | None \<Rightarrow> doc)))"

text \<open>The number of \<open>geom\<close> elements of a document.\<close>

fun count_geoms :: "xml_node \<Rightarrow> nat"
  and count_geoms_list :: "xml_node list \<Rightarrow> nat" where
  "count_geoms (Other s) = 0"
| "count_geoms (Element t as cs) = (if t = ''geom'' then 1 else 0) + count_geoms_list cs"
| "count_geoms_list [] = 0"
| "count_geoms_list (c # cs) = count_geoms c + count_geoms_list cs"

text \<open>Example documents: the scenario of the specification, and one that has a plane.\<close>

definition sphere_doc :: xml_node where
  "sphere_doc =
     Element ''mujoco'' []
       [Element ''worldbody'' []
          [Element ''body'' [(''name'', ''ball'')]
             [Element ''geom'' [(''type'', ''sphere''), (''size'', ''0.1'')] []]]]"

definition floor_doc :: xml_node where
  "floor_doc =
     Element ''mujoco'' []
       [Element ''worldbody'' []
          [Element ''body'' [(''name'', ''base'')]
             [Element ''geom'' [(''name'', ''floor''), (''type'', ''plane'')] []]]]"

text \<open>
  The names of the \<open>geom\<close> elements of a document, in document order. The engine
  compiles a document only when no two elements of one kind have the same name.
\<close>

fun geom_names :: "xml_node \<Rightarrow> string list"
  and geom_names_list :: "xml_node list \<Rightarrow> string list" where
  "geom_names (Other s) = []"
| "geom_names (Element t as cs) =
     (if t = ''geom'' then (case map_of as ''name'' of Some n \<Rightarrow> [n] | None \<Rightarrow> []) else [])
     @ geom_names_list cs"
| "geom_names_list [] = []"
| "geom_names_list (c # cs) = geom_names c @ geom_names_list cs"

text \<open>A document whose ground is a slab: a box named \<open>ground\<close>, and a ball above it.\<close>

definition ground_box_doc :: xml_node where
  "ground_box_doc =
     Element ''mujoco'' []
       [Element ''worldbody'' []
          [Element ''geom'' [(''name'', ''ground''), (''type'', ''box''), (''size'', ''5 5 0.05'')] [],
           Element ''body'' [(''name'', ''ball''), (''pos'', ''0 0 1'')]
             [Element ''geom'' [(''type'', ''sphere''), (''size'', ''0.1'')] []]]]"

section \<open>Xacro adapter: parse (XacroAdapter.parse)\<close>

text \<open>A thrown \<open>Error\<close> is known by its message.\<close>

datatype js_exn = Error (message: string)

definition error_of :: "adapter_error \<Rightarrow> js_exn" where
  "error_of e = (case e of CannotFindIncludedFile path \<Rightarrow> Error (''Cannot find included file: '' @ path))"

text \<open>\<open>s.indexOf(p)\<close>, and \<open>fileName.substring(0, fileName.lastIndexOf('/') + 1)\<close>.\<close>

fun indexOf :: "string \<Rightarrow> string \<Rightarrow> nat option" where
  "indexOf [] p = (if p = [] then Some 0 else None)"
| "indexOf (c # cs) p =
     (if startsWith (c # cs) p then Some 0 else map_option Suc (indexOf cs p))"

definition up_to_last_slash :: "string \<Rightarrow> string" where
  "up_to_last_slash s = rev (dropWhile (\<lambda>c. c \<noteq> CHR ''/'') (rev s))"

definition workingPath_of :: "string \<Rightarrow> string" where
  "workingPath_of fileName = (if includes_slash fileName then up_to_last_slash fileName else [])"

text \<open>
  \<open>injectBooleanConstants\<close>. The match of \<open>/(<robot[^>]*>)/\<close> is the first \<open><robot\<close>
  with a \<open>>\<close> somewhere after it, up to the first such \<open>>\<close>; when the first \<open><robot\<close>
  has no \<open>>\<close> after it, no later one has. The properties are inserted after the match.
\<close>

definition booleanProperties :: string where
  "booleanProperties =
     [CHR 0x0A] @ ''    <!-- Injected by XacroAdapter: Python-style boolean constants -->'' @
     [CHR 0x0A] @ ''    <xacro:property name='' @ [CHR 0x22] @ ''True'' @ [CHR 0x22] @
        '' value='' @ [CHR 0x22] @ ''True'' @ [CHR 0x22] @ ''/>'' @
     [CHR 0x0A] @ ''    <xacro:property name='' @ [CHR 0x22] @ ''False'' @ [CHR 0x22] @
        '' value='' @ [CHR 0x22] @ ''False'' @ [CHR 0x22] @ ''/>'' @
     [CHR 0x0A]"

definition injectBooleanConstants :: "string \<Rightarrow> string" where
  "injectBooleanConstants xacroContent =
     (case indexOf xacroContent ''<robot'' of
        None \<Rightarrow> xacroContent
      | Some i \<Rightarrow>
          (let rest = drop (i + 6) xacroContent;
               run = takeWhile (\<lambda>c. c \<noteq> CHR ''>'') rest
           in if length run < length rest then
                (let insertPosition = i + 6 + length run + 1
                 in take insertPosition xacroContent @ booleanProperties @
                    drop insertPosition xacroContent)
              else xacroContent))"

text \<open>
  \<open>extractXacroArguments\<close>: the matches of
  \<open>/<(?:xacro:)?arg\s+name=["']([^"']+)["'](?:\s+default=["']([^"']*)["'])?/g\<close> from left
  to right, each search starting where the last match ended. Every repetition of the
  pattern is followed by a character outside its class, so the greedy match is the only
  candidate. White space is the ASCII white space.
\<close>

definition is_space :: "char \<Rightarrow> bool" where
  "is_space c \<longleftrightarrow> c \<in> {CHR 0x09, CHR 0x0A, CHR 0x0B, CHR 0x0C, CHR 0x0D, CHR '' ''}"

definition is_quote :: "char \<Rightarrow> bool" where
  "is_quote c \<longleftrightarrow> c = CHR 0x22 \<or> c = CHR 0x27"

text \<open>
  A quoted value after \<open>key\<close> at the start of the text: the value and the number of
  characters matched. The value may be empty only when \<open>may_be_empty\<close>.
\<close>

definition match_quoted :: "string \<Rightarrow> bool \<Rightarrow> string \<Rightarrow> (string \<times> nat) option" where
  "match_quoted key may_be_empty s =
     (let ws = takeWhile is_space s; r1 = drop (length ws) s
      in if ws \<noteq> [] \<and> startsWith r1 key then
           (case drop (length key) r1 of
              q # r2 \<Rightarrow>
                (if is_quote q then
                   (let v = takeWhile (\<lambda>c. \<not> is_quote c) r2; r3 = drop (length v) r2
                    in if (v \<noteq> [] \<or> may_be_empty) \<and> r3 \<noteq> []
                       then Some (v, length ws + length key + 1 + length v + 1)
                       else None)
                 else None)
            | [] \<Rightarrow> None)
         else None)"

text \<open>A match at the start of the text: the name, the default if any, and the length.\<close>

definition match_arg :: "string \<Rightarrow> (string \<times> string option \<times> nat) option" where
  "match_arg s =
     (if startsWith s ''<'' then
        (let r0 = drop 1 s;
             prefix = (if startsWith r0 ''xacro:'' then 6 else 0);
             r1 = drop prefix r0
         in if startsWith r1 ''arg'' then
              (case match_quoted ''name='' False (drop 3 r1) of
                 Some (argName, n) \<Rightarrow>
                   (let len = 1 + prefix + 3 + n
                    in case match_quoted ''default='' True (drop len s) of
                         Some (d, k) \<Rightarrow> Some (argName, Some d, len + k)
                       | None \<Rightarrow> Some (argName, None, len))
               | None \<Rightarrow> None)
            else None)
      else None)"

text \<open>
  The loop over the matches; \<open>skip\<close> counts the characters of the last match still to
  pass. \<open>match[2] || 'false'\<close> is \<open>'false'\<close> for a missing and for an empty default.
\<close>

fun scan_args :: "nat \<Rightarrow> string \<Rightarrow> (string \<times> string) list" where
  "scan_args skip [] = []"
| "scan_args skip (c # cs) =
     (if skip > 0 then scan_args (skip - 1) cs
      else
        (case match_arg (c # cs) of
           Some (argName, d, len) \<Rightarrow>
             (argName, (case d of Some v \<Rightarrow> if v \<noteq> [] then v else ''false'' | None \<Rightarrow> ''false''))
               # scan_args (len - 1) cs
         | None \<Rightarrow> scan_args 0 cs))"

definition extractXacroArguments :: "string \<Rightarrow> (string \<rightharpoonup> string)" where
  "extractXacroArguments xacroContent =
     foldl (\<lambda>args (argName, defaultValue). args(argName \<mapsto> defaultValue)) Map.empty
       (scan_args 0 xacroContent)"

definition with_default :: "string \<Rightarrow> string \<Rightarrow> (string \<rightharpoonup> string) \<Rightarrow> (string \<rightharpoonup> string)" where
  "with_default k v args = (if args k = None then args(k \<mapsto> v) else args)"

text \<open>
  The parser of the package \<open>xacro-parser\<close> is outside the repository. What it does with
  a document is a tree: it ends with the expanded document, it throws, or it asks the
  callback \<open>getFileContents\<close> for an included file and goes on with the text it gets.
  A call of the callback that is rejected rejects the parse, with the error the parser
  makes of it (\<open>include_failed\<close>).
\<close>

datatype 'd expansion =
    Expanded 'd
  | Thrown js_exn
  | GetFileContents string "string \<Rightarrow> 'd expansion"

primrec run_expansion ::
  "(string \<Rightarrow> js_exn \<Rightarrow> js_exn) \<Rightarrow> (string \<Rightarrow> js_exn + string) \<Rightarrow> 'd expansion \<Rightarrow> js_exn + 'd" where
  "run_expansion failed getFileContents (Expanded urdfXML) = Inr urdfXML"
| "run_expansion failed getFileContents (Thrown e) = Inl e"
| "run_expansion failed getFileContents (GetFileContents path continue) =
     (case getFileContents path of
        Inl e \<Rightarrow> Inl (failed path e)
      | Inr content \<Rightarrow> run_expansion failed getFileContents (continue content))"

text \<open>
  What \<open>parse\<close> uses from outside: the parser, its default file loader (used when no
  bundle is given), the clean-up of the expanded document (serialised, parsed again,
  the elements the loader cannot handle removed; it throws on invalid XML), and the
  URDF loader with the conversion to the unified model, whose promise \<open>parse\<close> returns.
\<close>

record xacro_outside =
  parser_parse :: "string \<Rightarrow> (string \<rightharpoonup> string) \<Rightarrow> string \<Rightarrow> xml_node expansion"
  include_failed :: "string \<Rightarrow> js_exn \<Rightarrow> js_exn"
  default_getFileContents :: "string \<Rightarrow> js_exn + string"
  clean_urdf :: "xml_node \<Rightarrow> js_exn + string"
  load_urdf :: "string \<Rightarrow> string \<Rightarrow> (string, File) js_map option \<Rightarrow> js_exn + UnifiedRobotModel"

definition xacro_arguments :: "string \<Rightarrow> (string \<rightharpoonup> string)" where
  "xacro_arguments xacroContent =
     with_default ''SELF_COLLIDE'' ''false''
       (with_default ''DEBUG'' ''false'' (extractXacroArguments xacroContent))"

text \<open>The callback: the lookup in the bundle when there is one.\<close>

definition getFileContents_of ::
  "xacro_outside \<Rightarrow> (string, File) js_map option \<Rightarrow> string \<Rightarrow> string \<Rightarrow> js_exn + string" where
  "getFileContents_of out fileMap workingPath path =
     (case fileMap of
        Some fm \<Rightarrow>
          (case loadFileFromMap path fm workingPath of
             Inl e \<Rightarrow> Inl (error_of e)
           | Inr content \<Rightarrow> Inr content)
      | None \<Rightarrow> default_getFileContents out path)"

text \<open>\<open>await parser.parse(xacroContent)\<close> with the parser as \<open>parse\<close> has configured it.\<close>

definition expand_xacro ::
  "xacro_outside \<Rightarrow> string \<Rightarrow> string \<Rightarrow> (string, File) js_map option \<Rightarrow> js_exn + xml_node" where
  "expand_xacro out xacroContent0 fileName fileMap =
     (let workingPath = workingPath_of fileName;
          xacroContent = injectBooleanConstants xacroContent0;
          xacroArgs = xacro_arguments xacroContent
      in run_expansion (include_failed out) (getFileContents_of out fileMap workingPath)
           (parser_parse out workingPath xacroArgs xacroContent))"

text \<open>
  \<open>parse\<close>. What is thrown before the promise of the URDF loader is returned is caught
  and thrown again as \<open>Xacro parsing failed\<close>; the promise is returned as it is.
\<close>

definition parse ::
  "xacro_outside \<Rightarrow> string \<Rightarrow> string \<Rightarrow> (string, File) js_map option \<Rightarrow>
   js_exn + UnifiedRobotModel" where
  "parse out xacroContent fileName fileMap =
     (case expand_xacro out xacroContent fileName fileMap of
        Inl error \<Rightarrow> Inl (Error (''Xacro parsing failed: '' @ message error))
      | Inr urdfXML \<Rightarrow>
          (case clean_urdf out urdfXML of
             Inl error \<Rightarrow> Inl (Error (''Xacro parsing failed: '' @ message error))
           | Inr finalUrdfString \<Rightarrow>
               load_urdf out finalUrdfString (workingPath_of fileName) fileMap))"

text \<open>
  The first included file, in the order the parser asks, that the callback does not
  find.
\<close>

primrec first_missing :: "(string \<Rightarrow> js_exn + string) \<Rightarrow> 'd expansion \<Rightarrow> string option" where
  "first_missing getFileContents (Expanded urdfXML) = None"
| "first_missing getFileContents (Thrown e) = None"
| "first_missing getFileContents (GetFileContents path continue) =
     (case getFileContents path of
        Inl e \<Rightarrow> Some path
      | Inr content \<Rightarrow> first_missing getFileContents (continue content))"

text \<open>
  An example from outside: the parser asks for \<open>common.xacro\<close> and ends with an empty
  robot; the loader makes the empty model of it.
\<close>

definition example_outside :: xacro_outside where
  "example_outside =
     \<lparr>parser_parse = (\<lambda>workingPath args content.
         GetFileContents ''common.xacro'' (\<lambda>text. Expanded (Element ''robot'' [] []))),
      include_failed = (\<lambda>path e. e),
      default_getFileContents = (\<lambda>path. Inl (Error ''no loader'')),
      clean_urdf = (\<lambda>d. Inr ''<robot/>''),
      load_urdf = (\<lambda>urdf dir fileMap. Inr new_UnifiedRobotModel)\<rparr>"

section \<open>Geometry definitions and their copy (GeometryType.clone)\<close>

text \<open>
  \<open>clone\<close> is about which objects are shared, so objects live in a heap: a value is a
  primitive or a reference, and the heap maps an address (an index) to a plain object
  (its own properties in order) or an array. \<open>Null\<close> stands for \<open>null\<close> and
  \<open>undefined\<close>.
\<close>

datatype js_value = Null | Num real | Str string | Bool bool | Ref nat

datatype js_object = Obj "(string \<times> js_value) list" | Arr "js_value list"

type_synonym heap = "js_object list"

datatype js_error = TypeError | DanglingReference | BindingError | EngineError

definition heap_get :: "heap \<Rightarrow> nat \<Rightarrow> js_object option" where
  "heap_get h a = (if a < length h then Some (h ! a) else None)"

text \<open>Allocation of a new object: its address is the next free index.\<close>

definition alloc :: "heap \<Rightarrow> js_object \<Rightarrow> nat \<times> heap" where
  "alloc h ob = (length h, h @ [ob])"

text \<open>The truthiness of a value, as in \<open>this.size ? .. : null\<close>.\<close>

fun truthy :: "js_value \<Rightarrow> bool" where
  "truthy Null = False"
| "truthy (Num r) = (r \<noteq> 0)"
| "truthy (Str s) = (s \<noteq> [])"
| "truthy (Bool b) = b"
| "truthy (Ref a) = True"

text \<open>The decimal text of an array index, the property name it becomes in an object.\<close>

function string_of_nat :: "nat \<Rightarrow> string" where
  "string_of_nat n =
     (if n < 10 then [char_of (48 + n)]
      else string_of_nat (n div 10) @ [char_of (48 + n mod 10)])"
  by pat_completeness auto
termination
  by (relation "measure (\<lambda>n. n)") auto

text \<open>
  \<open>{ ...v }\<close>: the own enumerable properties of \<open>v\<close>, one level deep. An array and a
  string give their indices as property names; a number or a boolean gives none.
\<close>

definition spread_into_object :: "heap \<Rightarrow> js_value \<Rightarrow> js_error + (string \<times> js_value) list" where
  "spread_into_object h v =
     (case v of
        Ref a \<Rightarrow>
          (case heap_get h a of
             Some (Obj props) \<Rightarrow> Inr props
           | Some (Arr xs) \<Rightarrow> Inr (zip (map string_of_nat [0..<length xs]) xs)
           | None \<Rightarrow> Inl DanglingReference)
      | Str s \<Rightarrow> Inr (zip (map string_of_nat [0..<length s]) (map (\<lambda>c. Str [c]) s))
      | _ \<Rightarrow> Inr [])"

text \<open>\<open>[ ...a ]\<close> for a reference \<open>a\<close>: the elements of an array; a plain object is not iterable.\<close>

definition spread_into_array :: "heap \<Rightarrow> nat \<Rightarrow> js_error + js_value list" where
  "spread_into_array h a =
     (case heap_get h a of
        Some (Arr xs) \<Rightarrow> Inr xs
      | Some (Obj props) \<Rightarrow> Inl TypeError
      | None \<Rightarrow> Inl DanglingReference)"

text \<open>
  The props of \<open>GeometryType\<close> with their declared types: \<open>size\<close> and \<open>fromto\<close> are
  \<open>any\<close>, \<open>meshScale\<close> and \<open>inlineScale\<close> are \<open>number[] | null\<close> (the address of an
  array, or \<open>None\<close>).
\<close>

record GeometryType =
  g_type :: string
  g_size :: js_value
  g_filename :: "string option"
  g_meshScale :: "nat option"
  g_fromto :: js_value
  g_inlineVertices :: "bool option"
  g_inlineScale :: "nat option"

definition clone_size :: "heap \<Rightarrow> js_value \<Rightarrow> js_error + (js_value \<times> heap)" where
  "clone_size h v =
     (if truthy v then
        (case spread_into_object h v of
           Inl e \<Rightarrow> Inl e
         | Inr props \<Rightarrow> (case alloc h (Obj props) of (a, h') \<Rightarrow> Inr (Ref a, h')))
      else Inr (Null, h))"

definition clone_array :: "heap \<Rightarrow> nat option \<Rightarrow> js_error + (nat option \<times> heap)" where
  "clone_array h r =
     (case r of
        Some a \<Rightarrow>
          (case spread_into_array h a of
             Inl e \<Rightarrow> Inl e
           | Inr xs \<Rightarrow> (case alloc h (Arr xs) of (a', h') \<Rightarrow> Inr (Some a', h')))
      | None \<Rightarrow> Inr (None, h))"

definition clone :: "heap \<Rightarrow> GeometryType \<Rightarrow> js_error + (GeometryType \<times> heap)" where
  "clone h this =
     (case clone_size h (g_size this) of
        Inl e \<Rightarrow> Inl e
      | Inr (size', h1) \<Rightarrow>
     (case clone_array h1 (g_meshScale this) of
        Inl e \<Rightarrow> Inl e
      | Inr (meshScale', h2) \<Rightarrow>
     (case clone_array h2 (g_inlineScale this) of
        Inl e \<Rightarrow> Inl e
      | Inr (inlineScale', h3) \<Rightarrow>
          Inr (\<lparr>g_type = g_type this,
                g_size = size',
                g_filename = g_filename this,
                g_meshScale = meshScale',
                g_fromto = g_fromto this,
                g_inlineVertices = g_inlineVertices this,
                g_inlineScale = inlineScale'\<rparr>, h3))))"

text \<open>
  Mutation through a reference: \<open>ref[i] = v\<close> and \<open>ref.k = v\<close>. A write past the end
  of an array extends it.
\<close>

definition store_index :: "heap \<Rightarrow> nat \<Rightarrow> nat \<Rightarrow> js_value \<Rightarrow> heap" where
  "store_index h a i v =
     (case heap_get h a of
        Some (Arr xs) \<Rightarrow>
          h[a := Arr (if i < length xs then xs[i := v]
                      else xs @ replicate (i - length xs) Null @ [v])]
      | Some (Obj props) \<Rightarrow> h[a := Obj (AList.update (string_of_nat i) v props)]
      | None \<Rightarrow> h)"

definition store_property :: "heap \<Rightarrow> nat \<Rightarrow> string \<Rightarrow> js_value \<Rightarrow> heap" where
  "store_property h a k v =
     (case heap_get h a of
        Some (Obj props) \<Rightarrow> h[a := Obj (AList.update k v props)]
      | _ \<Rightarrow> h)"

text \<open>What a field refers to: the object behind a reference.\<close>

definition deref :: "heap \<Rightarrow> js_value \<Rightarrow> js_object option" where
  "deref h v = (case v of Ref a \<Rightarrow> heap_get h a | _ \<Rightarrow> None)"

text \<open>
  A capsule given by its two end points, as the physics format writes it:
  \<open>size = {radius: 0.05}\<close> at address 0 and \<open>fromto = [0, 0, 0, 0, 0, 1]\<close> at address 1.
\<close>

definition capsule_heap :: heap where
  "capsule_heap =
     [Obj [(''radius'', Num 0.05)],
      Arr [Num 0, Num 0, Num 0, Num 0, Num 0, Num 1]]"

definition capsule :: GeometryType where
  "capsule =
     \<lparr>g_type = ''capsule'', g_size = Ref 0, g_filename = None, g_meshScale = None,
      g_fromto = Ref 1, g_inlineVertices = None, g_inlineScale = None\<rparr>"

section \<open>JavaScript numbers\<close>

text \<open>
  A JavaScript number is an IEEE double. The doubles that are numbers are real numbers,
  and the result of an addition, subtraction or multiplication is the exact result
  rounded to the nearest double, a tie going to the even significand. The three
  operations are a parameter of the code that computes with numbers, so that what is
  proved of it holds for every way of rounding; \<open>double_ops\<close> is the arithmetic of the
  doubles. Negation and comparison are exact.
\<close>

record float_ops =
  fadd :: "real \<Rightarrow> real \<Rightarrow> real"
  fsub :: "real \<Rightarrow> real \<Rightarrow> real"
  fmul :: "real \<Rightarrow> real \<Rightarrow> real"

text \<open>The nearest integer, a tie going to the even one.\<close>

definition round_even :: "real \<Rightarrow> int" where
  "round_even q =
     (let f = \<lfloor>q\<rfloor>; r = q - of_int f
      in if r < 1 / 2 then f else if 1 / 2 < r then f + 1 else if even f then f else f + 1)"

text \<open>
  The binary exponent of a number above zero, \<open>k\<close> with \<open>2\<^sup>k \<le> x < 2\<^sup>k\<^sup>+\<^sup>1\<close>, found by
  doubling or halving at most \<open>n\<close> times.
\<close>

fun binade :: "nat \<Rightarrow> real \<Rightarrow> int" where
  "binade 0 x = 0"
| "binade (Suc n) x =
     (if x < 1 then binade n (2 * x) - 1
      else if 2 \<le> x then binade n (x / 2) + 1
      else 0)"

text \<open>
  The nearest double: 53 significant bits, with the exponent of the number or that of
  the subnormal numbers when the number is smaller. A result beyond the largest double
  (an infinity) is outside the model.
\<close>

definition round_double :: "real \<Rightarrow> real" where
  "round_double x =
     (if x = 0 then 0
      else (let e = max (binade 2200 \<bar>x\<bar>) (- 1022) - 52
            in of_int (round_even (x * 2 powi (- e))) * 2 powi e))"

definition double_ops :: float_ops where
  "double_ops =
     \<lparr>fadd = (\<lambda>a b. round_double (a + b)),
      fsub = (\<lambda>a b. round_double (a - b)),
      fmul = (\<lambda>a b. round_double (a * b))\<rparr>"

section \<open>Physics bridge: state of the simulation manager (MujocoSimulationManager.js)\<close>

record Quaternion =
  quat_x :: real
  quat_y :: real
  quat_z :: real
  quat_w :: real

definition quat_set :: "real \<Rightarrow> real \<Rightarrow> real \<Rightarrow> real \<Rightarrow> Quaternion" where
  "quat_set a b c d = \<lparr>quat_x = a, quat_y = b, quat_z = c, quat_w = d\<rparr>"

definition getQuaternion :: "real list \<Rightarrow> nat \<Rightarrow> bool \<Rightarrow> Quaternion option" where
  "getQuaternion buffer index swizzle =
     (case (buf_read buffer (index * 4 + 0), buf_read buffer (index * 4 + 1),
            buf_read buffer (index * 4 + 2), buf_read buffer (index * 4 + 3)) of
        (Some b0, Some b1, Some b2, Some b3) \<Rightarrow>
          Some (if swizzle then quat_set (- b1) (- b3) b2 (- b0) else quat_set b1 b2 b3 b0)
      | _ \<Rightarrow> None)"

text \<open>\<open>Vector3.sub\<close> and \<open>Vector3.multiplyScalar\<close>.\<close>

definition vec_sub :: "float_ops \<Rightarrow> Vector3 \<Rightarrow> Vector3 \<Rightarrow> Vector3" where
  "vec_sub ops a b =
     vec_set (fsub ops (vec_x a) (vec_x b)) (fsub ops (vec_y a) (vec_y b))
       (fsub ops (vec_z a) (vec_z b))"

definition multiplyScalar :: "float_ops \<Rightarrow> Vector3 \<Rightarrow> real \<Rightarrow> Vector3" where
  "multiplyScalar ops a s =
     vec_set (fmul ops (vec_x a) s) (fmul ops (vec_y a) s) (fmul ops (vec_z a) s)"

text \<open>
  The compiled model and the simulation data of the engine, by the fields the manager
  reads and writes. The typed array \<open>body_mass\<close> is read at the id of a body of the
  model. Native objects are known by a handle; \<open>delete\<close> and \<open>free\<close> release it.
\<close>

record mjModel =
  opt_timestep :: real
  nbody :: nat
  body_mass :: "nat \<Rightarrow> real"

record mjData =
  qfrc_applied :: "real list"
  xpos :: "real list"
  xquat :: "real list"

record BodyGroup =
  position :: "Vector3 option"
  quaternion :: "Quaternion option"

text \<open>
  The drag state manager is a class of another module; these are the fields the manager
  reads, and \<open>drag_enabled\<close> is what its \<open>enable()\<close> and \<open>disable()\<close> switch. The
  dragged \<open>physicsObject\<close> is known by its \<open>bodyID\<close>.
\<close>

record DragStateManager =
  drag_enabled :: bool
  active :: bool
  physicsObject :: "nat option"
  currentWorld :: Vector3
  worldHit :: Vector3
  arrow :: "nat option"

text \<open>The engine and the drag manager's \<open>update()\<close> are outside the repository: parameters.\<close>

record physics_api =
  mj_step :: "mjModel \<Rightarrow> mjData \<Rightarrow> mjData"
  simulation_step :: "mjData \<Rightarrow> mjData"
  mj_applyFT :: "mjModel \<Rightarrow> mjData \<Rightarrow> Vector3 \<Rightarrow> Vector3 \<Rightarrow> Vector3 \<Rightarrow> nat \<Rightarrow> real list \<Rightarrow> real list"
  mj_resetData :: "mjModel \<Rightarrow> mjData \<Rightarrow> mjData"
  mj_forward :: "mjModel \<Rightarrow> mjData \<Rightarrow> mjData"
  simulation_resetData :: "mjData \<Rightarrow> mjData"
  simulation_forward :: "mjData \<Rightarrow> mjData"
  drag_update :: "DragStateManager \<Rightarrow> DragStateManager"

text \<open>
  The virtual file system of the engine module, as the tree below \<open>/working\<close>. The module
  offers one of two loading interfaces, or neither.
\<close>

datatype fsnode = FsFile | FsDir "(string \<times> fsnode) list"

datatype api_kind = HasModel | HasMjModel | HasNeither

record mujoco_module =
  api :: api_kind
  working :: "(string \<times> fsnode) list"

record manager =
  mujoco :: "mujoco_module option"
  model :: "(nat \<times> mjModel) option"
  simulation :: "(nat \<times> mjData) option"
  state :: "nat option"
  data :: "(nat \<times> mjData) option"
  bodies :: "nat \<Rightarrow> BodyGroup option"
  mujocoRoot :: "nat option"
  dragStateManager :: "DragStateManager option"
  originalModel :: "UnifiedRobotModel option"
  paused :: bool
  mujoco_time :: real
  isLoaded :: bool
  isSimulating :: bool
  isOldAPI :: bool

definition new_manager :: manager where
  "new_manager =
     \<lparr>mujoco = None, model = None, simulation = None, state = None, data = None,
      bodies = (\<lambda>b. None), mujocoRoot = None, dragStateManager = None,
      originalModel = None, paused = True, mujoco_time = 0, isLoaded = False,
      isSimulating = False, isOldAPI = False\<rparr>"

section \<open>Physics bridge: the per-frame update\<close>

text \<open>\<open>this.isOldAPI ? this.data : this.simulation\<close>; a missing object is a \<open>TypeError\<close>.\<close>

definition engine_data :: "manager \<Rightarrow> mjData option" where
  "engine_data m = map_option snd (if isOldAPI m then data m else simulation m)"

text \<open>The loop \<open>for (let b = 0; b < this.model.nbody; b++)\<close> that copies the poses.\<close>

definition sync_body :: "mjData \<Rightarrow> nat \<Rightarrow> (nat \<Rightarrow> BodyGroup option) \<Rightarrow> (nat \<Rightarrow> BodyGroup option)" where
  "sync_body d b groups =
     (case groups b of
        Some bodyGroup \<Rightarrow>
          groups(b \<mapsto> bodyGroup\<lparr>position := getPosition (xpos d) b True,
                                 quaternion := getQuaternion (xquat d) b True\<rparr>)
      | None \<Rightarrow> groups)"

definition sync_bodies :: "manager \<Rightarrow> js_error + manager" where
  "sync_bodies m =
     (case (engine_data m, model m) of
        (Some d, Some (h, mdl)) \<Rightarrow> Inr (m\<lparr>bodies := fold (sync_body d) [0..<nbody mdl] (bodies m)\<rparr>)
      | _ \<Rightarrow> Inl TypeError)"

text \<open>First statement of the loop body: \<open>// Clear old applied forces\<close>.\<close>

definition clear_applied_forces :: "manager \<Rightarrow> js_error + manager" where
  "clear_applied_forces m =
     (if isOldAPI m then
        (case data m of
           Some (h, d) \<Rightarrow>
             Inr (m\<lparr>data := Some (h, d\<lparr>qfrc_applied := replicate (length (qfrc_applied d)) 0\<rparr>)\<rparr>)
         | None \<Rightarrow> Inl TypeError)
      else Inr m)"

text \<open>
  Second statement: \<open>// Apply drag force\<close>. The test \<open>dragged && dragged.bodyID\<close> fails
  for the body id 0.
\<close>

definition dragging :: "manager \<Rightarrow> nat option" where
  "dragging m =
     (case dragStateManager m of
        Some dsm \<Rightarrow>
          (if active dsm then
             (case physicsObject dsm of
                Some bodyID \<Rightarrow> if bodyID \<noteq> 0 then Some bodyID else None
              | None \<Rightarrow> None)
           else None)
      | None \<Rightarrow> None)"

definition apply_drag_force :: "float_ops \<Rightarrow> physics_api \<Rightarrow> manager \<Rightarrow> js_error + manager" where
  "apply_drag_force ops papi m =
     (case dragging m of
        None \<Rightarrow> Inr m
      | Some bodyID \<Rightarrow>
          (case (sync_bodies m, dragStateManager m, model m) of
             (Inr m1, Some dsm, Some (h, mdl)) \<Rightarrow>
               (let dsm' = drag_update papi dsm;
                    force = toMujocoPos
                              (multiplyScalar ops (vec_sub ops (currentWorld dsm') (worldHit dsm'))
                                 (fmul ops (body_mass mdl bodyID) 250));
                    point = toMujocoPos (worldHit dsm');
                    m2 = m1\<lparr>dragStateManager := Some dsm'\<rparr>
                in if isOldAPI m then
                     (case data m2 of
                        Some (hdl, d) \<Rightarrow>
                          Inr (m2\<lparr>data := Some (hdl, d\<lparr>qfrc_applied :=
                                 mj_applyFT papi mdl d force (vec_set 0 0 0) point bodyID
                                   (qfrc_applied d)\<rparr>)\<rparr>)
                      | None \<Rightarrow> Inl TypeError)
                   else Inr m2)
           | _ \<Rightarrow> Inl TypeError))"

text \<open>Third statement: the physics step, by the interface in use.\<close>

definition physics_step :: "physics_api \<Rightarrow> manager \<Rightarrow> js_error + manager" where
  "physics_step papi m =
     (if isOldAPI m then
        (case (model m, data m) of
           (Some (h, mdl), Some (hdl, d)) \<Rightarrow> Inr (m\<lparr>data := Some (hdl, mj_step papi mdl d)\<rparr>)
         | _ \<Rightarrow> Inl TypeError)
      else
        (case simulation m of
           Some (hs, s) \<Rightarrow> Inr (m\<lparr>simulation := Some (hs, simulation_step papi s)\<rparr>)
         | None \<Rightarrow> Inl TypeError))"

text \<open>Last statement: \<open>this.mujoco_time += timestep * 1000.0\<close>.\<close>

definition advance_time :: "float_ops \<Rightarrow> real \<Rightarrow> manager \<Rightarrow> manager" where
  "advance_time ops timestep m =
     m\<lparr>mujoco_time := fadd ops (mujoco_time m) (fmul ops timestep 1000)\<rparr>"

definition before_step :: "float_ops \<Rightarrow> physics_api \<Rightarrow> manager \<Rightarrow> js_error + manager" where
  "before_step ops papi m =
     (case clear_applied_forces m of
        Inl e \<Rightarrow> Inl e
      | Inr m1 \<Rightarrow> apply_drag_force ops papi m1)"

definition loop_body ::
  "float_ops \<Rightarrow> physics_api \<Rightarrow> real \<Rightarrow> manager \<Rightarrow> js_error + manager" where
  "loop_body ops papi timestep m =
     (case before_step ops papi m of
        Inl e \<Rightarrow> Inl e
      | Inr m1 \<Rightarrow>
          (case physics_step papi m1 of
             Inl e \<Rightarrow> Inl e
           | Inr m2 \<Rightarrow> Inr (advance_time ops timestep m2)))"

text \<open>
  The loop \<open>while (this.mujoco_time < timeMS)\<close>. It need not end (a time step of zero,
  or one so small that the sum is rounded back to \<open>mujoco_time\<close>), so it runs on fuel:
  one unit for each iteration, \<open>None\<close> when the fuel is used up and the loop would go
  on.
\<close>

fun stepping_loop ::
  "nat \<Rightarrow> float_ops \<Rightarrow> physics_api \<Rightarrow> real \<Rightarrow> real \<Rightarrow> manager \<Rightarrow>
   (js_error + manager) option" where
  "stepping_loop 0 ops papi timestep timeMS m =
     (if mujoco_time m < timeMS then None else Some (Inr m))"
| "stepping_loop (Suc fuel) ops papi timestep timeMS m =
     (if mujoco_time m < timeMS then
        (case loop_body ops papi timestep m of
           Inl e \<Rightarrow> Some (Inl e)
         | Inr m' \<Rightarrow> stepping_loop fuel ops papi timestep timeMS m')
      else Some (Inr m))"

definition update ::
  "nat \<Rightarrow> float_ops \<Rightarrow> physics_api \<Rightarrow> real \<Rightarrow> manager \<Rightarrow> (js_error + manager) option" where
  "update fuel ops papi timeMS m =
     (if \<not> isLoaded m \<or> model m = None then Some (Inr m)
      else
        (case (if \<not> paused m then
                 (case model m of
                    Some (h, mdl) \<Rightarrow>
                      (let timestep = opt_timestep mdl;
                           m1 = (if fsub ops timeMS (mujoco_time m) > 35
                                 then m\<lparr>mujoco_time := timeMS\<rparr> else m)
                       in stepping_loop fuel ops papi timestep timeMS m1)
                  | None \<Rightarrow> Some (Inl TypeError))
               else Some (Inr m)) of
           None \<Rightarrow> None
         | Some (Inl e) \<Rightarrow> Some (Inl e)
         | Some (Inr m2) \<Rightarrow> Some (sync_bodies m2)))"

text \<open>
  An engine for the examples: a step moves the first body by one along \<open>x\<close> (so the
  first entry of \<open>xpos\<close> counts the steps) and a force on a body is added to that
  body's entry.
\<close>

definition example_step :: "mjData \<Rightarrow> mjData" where
  "example_step d = d\<lparr>xpos := (xpos d)[0 := xpos d ! 0 + 1]\<rparr>"

definition example_api :: physics_api where
  "example_api =
     \<lparr>mj_step = (\<lambda>mdl d. example_step d),
      simulation_step = example_step,
      mj_applyFT = (\<lambda>mdl d force torque point bodyID q. q[bodyID := q ! bodyID + vec_x force]),
      mj_resetData = (\<lambda>mdl d. d\<lparr>qfrc_applied := replicate (length (qfrc_applied d)) 0\<rparr>),
      mj_forward = (\<lambda>mdl d. d),
      simulation_resetData = (\<lambda>d. d\<lparr>qfrc_applied := replicate (length (qfrc_applied d)) 0\<rparr>),
      simulation_forward = (\<lambda>d. d),
      drag_update = (\<lambda>dsm. dsm)\<rparr>"

text \<open>A model of two bodies with the time step 0.002, that is, the double nearest to it.\<close>

definition example_model :: mjModel where
  "example_model =
     \<lparr>opt_timestep = 1152921504606847 / 2 ^ 59, nbody = 2, body_mass = (\<lambda>b. 1)\<rparr>"

definition example_data :: mjData where
  "example_data =
     \<lparr>qfrc_applied = [0, 3],
      xpos = [0, 0, 0, 1, 2, 3],
      xquat = [1, 0, 0, 0, 1, 0, 0, 0]\<rparr>"

text \<open>
  A manager that simulates the model, on either interface. On the interface with
  \<open>MjData\<close> the array holds the force of a drag that has ended; on the other interface
  nothing writes the array and it is as \<open>resetData\<close> left it.
\<close>

definition rest_data :: mjData where
  "rest_data = example_data\<lparr>qfrc_applied := [0, 0]\<rparr>"

definition running_manager :: "bool \<Rightarrow> manager" where
  "running_manager old =
     new_manager\<lparr>mujoco := Some \<lparr>api = (if old then HasMjModel else HasModel), working = []\<rparr>,
       model := Some (1, example_model),
       data := (if old then Some (2, example_data) else None),
       simulation := (if old then None else Some (2, rest_data)),
       state := (if old then None else Some 3),
       paused := False, isLoaded := True, isSimulating := True, isOldAPI := old\<rparr>"

text \<open>
  The engine objects the loop uses are there: the model, and the simulation data of the
  interface in use. \<open>loadScene\<close> sets \<open>isLoaded\<close> only after it has created them.
\<close>

definition engine_ok :: "manager \<Rightarrow> bool" where
  "engine_ok m \<longleftrightarrow>
     model m \<noteq> None \<and> (if isOldAPI m then data m \<noteq> None else simulation m \<noteq> None)"





text \<open>
  The applied-force array holds no force. On the interface with a simulation object the
  manager never writes the array; it is the engine that fills it with zeros at
  \<open>resetData\<close>, and \<open>step\<close> and \<open>forward\<close> read it (\<open>engine_keeps_forces\<close>).
\<close>

definition no_force :: "real list \<Rightarrow> bool" where
  "no_force q \<longleftrightarrow> q = replicate (length q) 0"

definition engine_keeps_forces :: "physics_api \<Rightarrow> bool" where
  "engine_keeps_forces papi \<longleftrightarrow>
     (\<forall>s. no_force (qfrc_applied (simulation_resetData papi s))) \<and>
     (\<forall>s. qfrc_applied (simulation_forward papi s) = qfrc_applied s) \<and>
     (\<forall>s. qfrc_applied (simulation_step papi s) = qfrc_applied s)"

definition forces_clear :: "manager \<Rightarrow> bool" where
  "forces_clear m \<longleftrightarrow>
     (\<not> isOldAPI m \<longrightarrow>
        (case simulation m of Some (hs, s) \<Rightarrow> no_force (qfrc_applied s) | None \<Rightarrow> True))"

section \<open>Physics bridge: scene, start and pause, load and unload\<close>

text \<open>
  The objects of the render scene are known by an id; of an object the bridge touches
  \<open>visible\<close> and \<open>parent\<close>. The world around the manager: the scene objects, the
  native engine objects that have not been released (\<open>delete()\<close> and \<open>free()\<close> on a
  released object throw), the scene manager and the application state. The model the
  scene manager or the application holds is known by its \<open>threeObject\<close>.
\<close>

record Object3D =
  visible :: bool
  parent :: "nat option"

record world =
  mgr :: manager
  objs :: "nat \<Rightarrow> Object3D"
  next_obj :: nat
  live :: "nat set"
  next_handle :: nat
  scene :: nat
  sm_currentModel :: "nat option option"
  sm_dragControls :: "bool option"
  sm_groundPlane :: "real option"
  app_currentModel :: "nat option option"
  app_currentMJCFFile :: "File option"
  app_currentMJCFModel :: "UnifiedRobotModel option"

definition set_visible :: "nat \<Rightarrow> bool \<Rightarrow> world \<Rightarrow> world" where
  "set_visible i v w = w\<lparr>objs := (objs w)(i := (objs w i)\<lparr>visible := v\<rparr>)\<rparr>"

definition set_parent :: "nat \<Rightarrow> nat option \<Rightarrow> world \<Rightarrow> world" where
  "set_parent i p w = w\<lparr>objs := (objs w)(i := (objs w i)\<lparr>parent := p\<rparr>)\<rparr>"

definition is_visible :: "world \<Rightarrow> nat \<Rightarrow> bool" where
  "is_visible w i = visible (objs w i)"

text \<open>\<open>model && model.threeObject\<close>: the render handle of a model, if both are there.\<close>

definition threeObject_of :: "nat option option \<Rightarrow> nat option" where
  "threeObject_of cm = (case cm of Some (Some t) \<Rightarrow> Some t | _ \<Rightarrow> None)"

text \<open>The statements of \<open>startSimulation\<close> and \<open>pauseSimulation\<close>, one definition each.\<close>

definition set_running :: "bool \<Rightarrow> world \<Rightarrow> world" where
  "set_running b w = w\<lparr>mgr := (mgr w)\<lparr>paused := \<not> b, isSimulating := b\<rparr>\<rparr>"

definition show_mujoco_root :: "world \<Rightarrow> world" where
  "show_mujoco_root w =
     (case mujocoRoot (mgr w) of
        Some r \<Rightarrow>
          set_visible r True
            (if parent (objs w r) = None then set_parent r (Some (scene w)) w else w)
      | None \<Rightarrow> w)"

definition hide_mujoco_root :: "world \<Rightarrow> world" where
  "hide_mujoco_root w =
     (case mujocoRoot (mgr w) of
        Some r \<Rightarrow> set_visible r False w
      | None \<Rightarrow> w)"

definition hide_original_model :: "world \<Rightarrow> world" where
  "hide_original_model w =
     (case threeObject_of (sm_currentModel w) of
        Some t \<Rightarrow> set_visible t False w
      | None \<Rightarrow> w)"

definition set_drag_enabled :: "bool \<Rightarrow> world \<Rightarrow> world" where
  "set_drag_enabled b w =
     (case dragStateManager (mgr w) of
        Some dsm \<Rightarrow> w\<lparr>mgr := (mgr w)\<lparr>dragStateManager := Some (dsm\<lparr>drag_enabled := b\<rparr>)\<rparr>\<rparr>
      | None \<Rightarrow> w)"

definition set_dragControls :: "bool \<Rightarrow> world \<Rightarrow> world" where
  "set_dragControls b w =
     (case sm_dragControls w of
        Some enabled \<Rightarrow> w\<lparr>sm_dragControls := Some b\<rparr>
      | None \<Rightarrow> w)"

definition startSimulation :: "world \<Rightarrow> world" where
  "startSimulation w =
     set_dragControls False
       (set_drag_enabled True
         (hide_original_model
           (show_mujoco_root
             (set_running True w))))"

definition pauseSimulation :: "world \<Rightarrow> world" where
  "pauseSimulation w =
     set_dragControls True
       (hide_mujoco_root
         (set_drag_enabled False
           (set_running False w)))"

definition toggleSimulation :: "world \<Rightarrow> world \<times> bool" where
  "toggleSimulation w =
     (let w' = (if paused (mgr w) then startSimulation w else pauseSimulation w)
      in (w', \<not> paused (mgr w')))"

text \<open>
  Release of a native object. The loops of \<open>clearScene\<close> and \<open>removeDirectory\<close> over a
  directory: a file is unlinked, a directory is emptied and then removed (\<open>rmdir\<close> fails
  on a directory that is not empty; the failure is caught and the directory stays).
  The entries \<open>.\<close> and \<open>..\<close> that \<open>readdir\<close> lists are no entries of the tree.
\<close>

definition release :: "nat \<Rightarrow> world \<Rightarrow> (js_error \<times> world) + world" where
  "release h w = (if h \<in> live w then Inr (w\<lparr>live := live w - {h}\<rparr>) else Inl (BindingError, w))"

fun removeDirectory :: "fsnode \<Rightarrow> fsnode option"
  and remove_entries :: "(string \<times> fsnode) list \<Rightarrow> (string \<times> fsnode) list" where
  "removeDirectory FsFile = Some FsFile"
| "removeDirectory (FsDir entries) =
     (case remove_entries entries of
        [] \<Rightarrow> None
      | rest \<Rightarrow> Some (FsDir rest))"
| "remove_entries [] = []"
| "remove_entries ((file, FsFile) # others) = remove_entries others"
| "remove_entries ((file, FsDir entries) # others) =
     (case removeDirectory (FsDir entries) of
        None \<Rightarrow> remove_entries others
      | Some left \<Rightarrow> (file, left) # remove_entries others)"

definition release_engine :: "world \<Rightarrow> (js_error \<times> world) + world" where
  "release_engine w =
     (if isOldAPI (mgr w) then
        (case (case data (mgr w) of
                 Some (h, d) \<Rightarrow>
                   (case release h w of
                      Inl e \<Rightarrow> Inl e
                    | Inr w1 \<Rightarrow> Inr (w1\<lparr>mgr := (mgr w1)\<lparr>data := None\<rparr>\<rparr>))
               | None \<Rightarrow> Inr w) of
           Inl e \<Rightarrow> Inl e
         | Inr w2 \<Rightarrow>
             (case model (mgr w2) of
                Some (h, mdl) \<Rightarrow>
                  (case release h w2 of
                     Inl e \<Rightarrow> Inl e
                   | Inr w3 \<Rightarrow> Inr (w3\<lparr>mgr := (mgr w3)\<lparr>model := None\<rparr>\<rparr>))
              | None \<Rightarrow> Inr w2))
      else
        (case (case simulation (mgr w) of
                 Some (h, s) \<Rightarrow>
                   (case release h w of
                      Inl e \<Rightarrow> Inl e
                    | Inr w1 \<Rightarrow> Inr (w1\<lparr>mgr := (mgr w1)\<lparr>simulation := None\<rparr>\<rparr>))
               | None \<Rightarrow> Inr w) of
           Inl e \<Rightarrow> Inl e
         | Inr w2 \<Rightarrow> Inr (w2\<lparr>mgr := (mgr w2)\<lparr>state := None, model := None\<rparr>\<rparr>)))"

definition clear_vfs :: "world \<Rightarrow> world" where
  "clear_vfs w =
     (case mujoco (mgr w) of
        Some md \<Rightarrow> w\<lparr>mgr := (mgr w)\<lparr>mujoco := Some (md\<lparr>working := remove_entries (working md)\<rparr>)\<rparr>\<rparr>
      | None \<Rightarrow> w)"

definition clear_three :: "world \<Rightarrow> world" where
  "clear_three w =
     (case mujocoRoot (mgr w) of
        Some r \<Rightarrow>
          (let w1 = (if parent (objs w r) \<noteq> None then set_parent r None w else w)
           in w1\<lparr>mgr := (mgr w1)\<lparr>mujocoRoot := None\<rparr>\<rparr>)
      | None \<Rightarrow> w)"

definition clear_drag :: "world \<Rightarrow> world" where
  "clear_drag w =
     (case dragStateManager (mgr w) of
        Some dsm \<Rightarrow>
          (let w1 = (case arrow dsm of
                       Some a \<Rightarrow> if parent (objs w a) \<noteq> None then set_parent a None w else w
                     | None \<Rightarrow> w)
           in w1\<lparr>mgr := (mgr w1)\<lparr>dragStateManager := None\<rparr>\<rparr>)
      | None \<Rightarrow> w)"

definition clearScene :: "world \<Rightarrow> (js_error \<times> world) + world" where
  "clearScene w =
     (case release_engine w of
        Inl e \<Rightarrow> Inl e
      | Inr w1 \<Rightarrow>
          (let w2 = clear_drag (clear_three (clear_vfs w1))
           in Inr (w2\<lparr>mgr := (mgr w2)\<lparr>originalModel := None, bodies := (\<lambda>b. None),
                                       isLoaded := False, isSimulating := False,
                                       paused := True\<rparr>\<rparr>)))"

text \<open>
  \<open>loadScene\<close> calls the engine, the file system and the scene builder. What they answer
  is the environment of a load: the interface the module has when it is initialised
  (\<open>None\<close> when \<open>init()\<close> throws), the step at which an outside call throws, if any, the
  content of \<open>/working\<close> after the document and the assets are written, the compiled
  model with its initial data, and the drag manager the constructor returns.
\<close>

datatype load_step =
    AtWriteXml | AtCompile | AtState | AtSimulation | AtData | AtCreateScene | AtReset
  | AtDragManager

record load_env =
  env_init :: "api_kind option"
  env_throws :: "load_step option"
  env_staged :: "(string \<times> fsnode) list"
  env_compiled :: mjModel
  env_data :: mjData
  env_drag :: DragStateManager

definition new_native :: "world \<Rightarrow> nat \<times> world" where
  "new_native w = (next_handle w, w\<lparr>live := insert (next_handle w) (live w),
                                     next_handle := Suc (next_handle w)\<rparr>)"

definition new_Group :: "world \<Rightarrow> nat \<times> world" where
  "new_Group w =
     (next_obj w, w\<lparr>objs := (objs w)(next_obj w := \<lparr>visible = True, parent = None\<rparr>),
                    next_obj := Suc (next_obj w)\<rparr>)"

text \<open>Loading the compiled model and its data through the interface of the module.\<close>

definition load_model :: "load_env \<Rightarrow> world \<Rightarrow> (js_error \<times> world) + world" where
  "load_model env w =
     (case map_option api (mujoco (mgr w)) of
        Some HasModel \<Rightarrow>
          (if env_throws env = Some AtCompile then Inl (EngineError, w)
           else
             (case new_native w of (hm, w1) \<Rightarrow>
              let w2 = w1\<lparr>mgr := (mgr w1)\<lparr>model := Some (hm, env_compiled env)\<rparr>\<rparr> in
              if env_throws env = Some AtState then Inl (EngineError, w2)
              else
                (case new_native w2 of (hs, w3) \<Rightarrow>
                 let w4 = w3\<lparr>mgr := (mgr w3)\<lparr>state := Some hs\<rparr>\<rparr> in
                 if env_throws env = Some AtSimulation then Inl (EngineError, w4)
                 else
                   (case new_native w4 of (hsim, w5) \<Rightarrow>
                    Inr (w5\<lparr>mgr := (mgr w5)\<lparr>simulation := Some (hsim, env_data env)\<rparr>\<rparr>)))))
      | Some HasMjModel \<Rightarrow>
          (if env_throws env = Some AtCompile then Inl (EngineError, w)
           else
             (case new_native w of (hm, w1) \<Rightarrow>
              let w2 = w1\<lparr>mgr := (mgr w1)\<lparr>model := Some (hm, env_compiled env)\<rparr>\<rparr> in
              if env_throws env = Some AtData then Inl (EngineError, w2)
              else
                (case new_native w2 of (hdl, w3) \<Rightarrow>
                 Inr (w3\<lparr>mgr := (mgr w3)\<lparr>data := Some (hdl, env_data env), isOldAPI := True\<rparr>\<rparr>))))
      | _ \<Rightarrow> Inl (EngineError, w))"

text \<open>
  \<open>createThreeScene\<close>: the root group is created first, invisible and without parent,
  then a group for every body of the model.
\<close>

definition new_root :: "world \<Rightarrow> world" where
  "new_root w =
     (case new_Group w of (r, w1) \<Rightarrow>
        set_visible r False (w1\<lparr>mgr := (mgr w1)\<lparr>mujocoRoot := Some r, bodies := (\<lambda>b. None)\<rparr>\<rparr>))"

definition body_groups :: "mjModel \<Rightarrow> nat \<Rightarrow> BodyGroup option" where
  "body_groups mdl =
     (\<lambda>b. if b < nbody mdl
          then Some \<lparr>position = Some (vec_set 0 0 0), quaternion = Some (quat_set 0 0 0 1)\<rparr>
          else None)"

definition createThreeScene :: "load_env \<Rightarrow> world \<Rightarrow> (js_error \<times> world) + world" where
  "createThreeScene env w =
     (let w1 = new_root w in
      if env_throws env = Some AtCreateScene then Inl (EngineError, w1)
      else
        (case model (mgr w1) of
           Some (h, mdl) \<Rightarrow> Inr (w1\<lparr>mgr := (mgr w1)\<lparr>bodies := body_groups mdl\<rparr>\<rparr>)
         | None \<Rightarrow> Inl (TypeError, w1)))"

definition reset_data :: "physics_api \<Rightarrow> manager \<Rightarrow> js_error + manager" where
  "reset_data papi m =
     (if isOldAPI m then
        (case (model m, data m) of
           (Some (h, mdl), Some (hdl, d)) \<Rightarrow>
             Inr (m\<lparr>data := Some (hdl, mj_forward papi mdl (mj_resetData papi mdl d))\<rparr>)
         | _ \<Rightarrow> Inl TypeError)
      else
        (case simulation m of
           Some (hs, s) \<Rightarrow>
             Inr (m\<lparr>simulation := Some (hs, simulation_forward papi (simulation_resetData papi s))\<rparr>)
         | None \<Rightarrow> Inl TypeError))"

text \<open>Sequencing of steps that may throw: the first exception ends the sequence.\<close>

definition then_do :: "'e + 'a \<Rightarrow> ('a \<Rightarrow> 'e + 'b) \<Rightarrow> 'e + 'b" where
  "then_do r f = (case r of Inl e \<Rightarrow> Inl e | Inr x \<Rightarrow> f x)"

text \<open>\<open>if (!this.mujoco) await this.init()\<close>.\<close>

definition init_module :: "load_env \<Rightarrow> world \<Rightarrow> (js_error \<times> world) + world" where
  "init_module env w =
     (case mujoco (mgr w) of
        Some md \<Rightarrow> Inr w
      | None \<Rightarrow>
          (case env_init env of
             Some k \<Rightarrow> Inr (w\<lparr>mgr := (mgr w)\<lparr>mujoco := Some \<lparr>api = k, working = []\<rparr>\<rparr>\<rparr>)
           | None \<Rightarrow> Inl (EngineError, w)))"

text \<open>
  The original model is kept, then the document (with its ground plane) and the assets
  are written below \<open>/working\<close>.
\<close>

definition stage_files ::
  "load_env \<Rightarrow> UnifiedRobotModel \<Rightarrow> world \<Rightarrow> (js_error \<times> world) + world" where
  "stage_files env original w =
     (let w1 = w\<lparr>mgr := (mgr w)\<lparr>originalModel := Some original\<rparr>\<rparr> in
      if env_throws env = Some AtWriteXml then Inl (EngineError, w1)
      else
        (case mujoco (mgr w1) of
           Some md \<Rightarrow> Inr (w1\<lparr>mgr := (mgr w1)\<lparr>mujoco := Some (md\<lparr>working := env_staged env\<rparr>)\<rparr>\<rparr>)
         | None \<Rightarrow> Inl (TypeError, w1)))"

text \<open>
  The end of \<open>loadScene\<close>: the data are reset, the flags are set, and the drag manager is
  created when there is none.
\<close>

definition finish_load :: "physics_api \<Rightarrow> load_env \<Rightarrow> world \<Rightarrow> (js_error \<times> world) + world" where
  "finish_load papi env w =
     (if env_throws env = Some AtReset then Inl (EngineError, w)
      else
        (case reset_data papi (mgr w) of
           Inl e \<Rightarrow> Inl (e, w)
         | Inr m1 \<Rightarrow>
             (let w2 = w\<lparr>mgr := m1\<lparr>isLoaded := True, paused := True\<rparr>\<rparr> in
              case dragStateManager (mgr w2) of
                Some dsm \<Rightarrow> Inr w2
              | None \<Rightarrow>
                  if env_throws env = Some AtDragManager then Inl (EngineError, w2)
                  else Inr (w2\<lparr>mgr := (mgr w2)\<lparr>dragStateManager := Some (env_drag env)\<rparr>\<rparr>))))"

definition loadScene ::
  "physics_api \<Rightarrow> load_env \<Rightarrow> UnifiedRobotModel \<Rightarrow> world \<Rightarrow> (js_error \<times> world) + world" where
  "loadScene papi env original w =
     then_do (init_module env w) (\<lambda>w0.
     then_do (clearScene w0) (\<lambda>w1.
     then_do (stage_files env original w1) (\<lambda>w2.
     then_do (load_model env w2) (\<lambda>w3.
     then_do (createThreeScene env w3) (\<lambda>w4.
     finish_load papi env w4)))))"

text \<open>\<open>reset()\<close>: the engine data are reset and the simulated time is zero again.\<close>

definition reset :: "physics_api \<Rightarrow> manager \<Rightarrow> js_error + manager" where
  "reset papi m =
     (if model m \<noteq> None then
        (case reset_data papi m of
           Inl e \<Rightarrow> Inl e
         | Inr m' \<Rightarrow> Inr (m'\<lparr>mujoco_time := 0\<rparr>))
      else Inr m)"

text \<open>
  \<open>SimulationHandler.handleMujocoToggleSimulate\<close>. A failed load is caught and answered
  with \<open>false\<close>; what the load had changed until then stays.
\<close>

definition set_original_visible :: "bool \<Rightarrow> world \<Rightarrow> world" where
  "set_original_visible v w =
     (case threeObject_of (app_currentModel w) of
        Some t \<Rightarrow> set_visible t v w
      | None \<Rightarrow> w)"

definition handleMujocoToggleSimulate ::
  "physics_api \<Rightarrow> load_env \<Rightarrow> world \<Rightarrow> world \<times> bool" where
  "handleMujocoToggleSimulate papi env w =
     (case (isLoaded (mgr w), app_currentMJCFFile w, app_currentMJCFModel w) of
        (False, Some file, Some mjcf) \<Rightarrow>
          (case loadScene papi env mjcf w of
             Inl (e, w') \<Rightarrow> (w', False)
           | Inr w1 \<Rightarrow> (startSimulation (set_original_visible False w1), True))
      | _ \<Rightarrow>
          (case toggleSimulation w of
             (w1, isSim) \<Rightarrow> (set_original_visible (\<not> isSim) w1, isSim)))"

text \<open>The world when the manager has been constructed and nothing is loaded.\<close>

definition world_ok_at_start :: "world \<Rightarrow> bool" where
  "world_ok_at_start w \<longleftrightarrow> mgr w = new_manager \<and> live w \<subseteq> {..<next_handle w}"

text \<open>
  One operation on the manager: a load (one that fails included), an unload, start,
  pause and toggle, a frame update that returns, a reset, and the toggle handler. The
  states the program can be in are the start and what the operations make of it.
\<close>

inductive operation :: "world \<Rightarrow> world \<Rightarrow> bool" where
  op_load: "loadScene papi env original w = Inr w' \<Longrightarrow> operation w w'"
| op_load_failed: "loadScene papi env original w = Inl (e, w') \<Longrightarrow> operation w w'"
| op_clear: "clearScene w = Inr w' \<Longrightarrow> operation w w'"
| op_start: "operation w (startSimulation w)"
| op_pause: "operation w (pauseSimulation w)"
| op_toggle: "operation w (fst (toggleSimulation w))"
| op_update:
    "update fuel ops papi timeMS (mgr w) = Some (Inr m') \<Longrightarrow> operation w (w\<lparr>mgr := m'\<rparr>)"
| op_reset: "reset papi (mgr w) = Inr m' \<Longrightarrow> operation w (w\<lparr>mgr := m'\<rparr>)"
| op_handler: "operation w (fst (handleMujocoToggleSimulate papi env w))"

definition reachable :: "world \<Rightarrow> bool" where
  "reachable w \<longleftrightarrow> (\<exists>w0. world_ok_at_start w0 \<and> operation\<^sup>*\<^sup>* w0 w)"

text \<open>The unloaded state.\<close>

definition unloaded :: "world \<Rightarrow> bool" where
  "unloaded w \<longleftrightarrow>
     model (mgr w) = None \<and> data (mgr w) = None \<and> simulation (mgr w) = None \<and>
     mujocoRoot (mgr w) = None \<and> dragStateManager (mgr w) = None \<and>
     (case mujoco (mgr w) of Some md \<Rightarrow> working md = [] | None \<Rightarrow> True) \<and>
     \<not> isLoaded (mgr w) \<and> \<not> isSimulating (mgr w) \<and> paused (mgr w)"

text \<open>
  What the invariant of the manager looks at: the interface flag, the interface of the
  module, and the handles of the native objects held.
\<close>

definition shape ::
  "manager \<Rightarrow> bool \<times> api_kind option \<times> nat option \<times> nat option \<times> nat option" where
  "shape m =
     (isOldAPI m, map_option api (mujoco m), map_option fst (data m),
      map_option fst (model m), map_option fst (simulation m))"

text \<open>
  The invariant: the flag \<open>isOldAPI\<close> is set only with a module of the \<open>MjModel\<close>
  interface, a simulation object exists only with a module of the \<open>Model\<close> interface,
  data exist only under the flag; the data, the simulation object and (under the flag)
  the model have not been released, data and model are different objects, and the
  handles in use are below the next one.
\<close>

definition inv :: "world \<Rightarrow> bool" where
  "inv w \<longleftrightarrow>
     (case shape (mgr w) of (old, k, d, mo, s) \<Rightarrow>
        (old \<longrightarrow> k = Some HasMjModel) \<and>
        (s \<noteq> None \<longrightarrow> k = Some HasModel) \<and>
        (d \<noteq> None \<longrightarrow> old) \<and>
        (\<forall>h. d = Some h \<longrightarrow> h \<in> live w) \<and>
        (\<forall>h. old \<longrightarrow> mo = Some h \<longrightarrow> h \<in> live w) \<and>
        (\<forall>h. s = Some h \<longrightarrow> h \<in> live w) \<and>
        (\<forall>h. d = Some h \<longrightarrow> mo \<noteq> Some h) \<and>
        live w \<subseteq> {..<next_handle w})"

text \<open>
  A step that may throw: from a state with \<open>P\<close> it ends in a state with \<open>Q\<close>, or throws
  in a state with \<open>E\<close>.
\<close>

definition step_valid ::
  "(world \<Rightarrow> bool) \<Rightarrow> (world \<Rightarrow> bool) \<Rightarrow> (world \<Rightarrow> (js_error \<times> world) + world) \<Rightarrow>
   (world \<Rightarrow> bool) \<Rightarrow> bool" where
  "step_valid E P f Q \<longleftrightarrow>
     (\<forall>w. P w \<longrightarrow> (case f w of Inr w' \<Rightarrow> Q w' | Inl (e, w') \<Rightarrow> E w'))"

text \<open>After the release: nothing of the engine is held, the rest is as before.\<close>

definition engine_released :: "world \<Rightarrow> world \<Rightarrow> bool" where
  "engine_released w w' \<longleftrightarrow>
     model (mgr w') = None \<and> data (mgr w') = None \<and> simulation (mgr w') = None \<and>
     objs w' = objs w \<and> mujoco (mgr w') = mujoco (mgr w) \<and>
     mujocoRoot (mgr w') = mujocoRoot (mgr w) \<and>
     dragStateManager (mgr w') = dragStateManager (mgr w) \<and>
     isOldAPI (mgr w') = isOldAPI (mgr w) \<and> live w' \<subseteq> live w \<and>
     next_handle w' = next_handle w"

text \<open>
  A world for the examples: the scene is object 0, the static model of the application
  and of the scene manager is object 1, a physics document is loaded in the application,
  and the manager has just been constructed. The environment of a load in which the
  module has the interface with \<open>MjData\<close> and nothing throws.
\<close>

definition start_world :: world where
  "start_world =
     \<lparr>mgr = new_manager,
      objs = (\<lambda>i. \<lparr>visible = True, parent = (if i = 0 then None else Some 0)\<rparr>),
      next_obj = 2, live = {}, next_handle = 0, scene = 0,
      sm_currentModel = Some (Some 1), sm_dragControls = Some True, sm_groundPlane = Some 0,
      app_currentModel = Some (Some 1),
      app_currentMJCFFile = Some \<lparr>file_name = ''scene.xml'', file_text = ''<mujoco/>''\<rparr>,
      app_currentMJCFModel = Some new_UnifiedRobotModel\<rparr>"

definition example_env :: load_env where
  "example_env =
     \<lparr>env_init = Some HasMjModel, env_throws = None,
      env_staged = [(''scene.xml'', FsFile), (''assets'', FsDir [(''base.obj'', FsFile)])],
      env_compiled = example_model, env_data = example_data,
      env_drag = \<lparr>drag_enabled = False, active = False, physicsObject = None,
                  currentWorld = vec_set 0 0 0, worldHit = vec_set 0 0 0, arrow = None\<rparr>\<rparr>"

text \<open>
  The render handle of the static model the application shows, and what must never be:
  the physics root and the static model visible together.
\<close>

definition static_handle :: "world \<Rightarrow> nat option" where
  "static_handle w = threeObject_of (app_currentModel w)"

definition both_visible :: "world \<Rightarrow> bool" where
  "both_visible w \<longleftrightarrow>
     (case (mujocoRoot (mgr w), static_handle w) of
        (Some r, Some t) \<Rightarrow> is_visible w r \<and> is_visible w t
      | _ \<Rightarrow> False)"

text \<open>
  The scene as the application sets it up and the operations keep it: the scene manager
  shows the model of the application; the static model is an object that exists; a
  loaded manager has a root; the root is an object that exists, it is not the static
  model, and when it is visible the static model is not.
\<close>

definition scene_ok :: "world \<Rightarrow> bool" where
  "scene_ok w \<longleftrightarrow>
     sm_currentModel w = app_currentModel w \<and>
     (case static_handle w of Some t \<Rightarrow> t < next_obj w | None \<Rightarrow> True) \<and>
     (isLoaded (mgr w) \<longrightarrow> mujocoRoot (mgr w) \<noteq> None) \<and>
     (case mujocoRoot (mgr w) of
        Some r \<Rightarrow>
          r < next_obj w \<and> static_handle w \<noteq> Some r \<and>
          (is_visible w r \<longrightarrow>
             (case static_handle w of Some t \<Rightarrow> \<not> is_visible w t | None \<Rightarrow> True))
      | None \<Rightarrow> True)"

text \<open>What \<open>scene_ok\<close> looks at, and the drag controller of the scene manager.\<close>

definition view ::
  "world \<Rightarrow>
     (nat option option \<times> nat option option \<times> bool option) \<times> nat \<times> bool \<times> nat option \<times>
     (nat \<Rightarrow> bool)" where
  "view w =
     ((app_currentModel w, sm_currentModel w, sm_dragControls w), next_obj w, isLoaded (mgr w),
      mujocoRoot (mgr w), (\<lambda>i. visible (objs w i)))"

text \<open>
  The application has set up its scene (the scene manager shows the model of the
  application, an object that exists) and the manager has just been constructed.
\<close>

definition scene_at_start :: "world \<Rightarrow> bool" where
  "scene_at_start w \<longleftrightarrow>
     world_ok_at_start w \<and> sm_currentModel w = app_currentModel w \<and>
     (case static_handle w of Some t \<Rightarrow> t < next_obj w | None \<Rightarrow> True)"

text \<open>
  What happens while the simulation runs: a frame update that returns, and a mouse event
  that changes the state of the drag manager.
\<close>

inductive frame :: "world \<Rightarrow> world \<Rightarrow> bool" where
  frame_update:
    "update fuel ops papi timeMS (mgr w) = Some (Inr m') \<Longrightarrow> frame w (w\<lparr>mgr := m'\<rparr>)"
| frame_drag:
    "dragStateManager (mgr w) = Some dsm \<Longrightarrow>
     frame w (w\<lparr>mgr := (mgr w)\<lparr>dragStateManager := Some dsm'\<rparr>\<rparr>)"

text \<open>Between the unload and the load of the model: no engine object is held.\<close>

definition engine_empty :: "world \<Rightarrow> bool" where
  "engine_empty w \<longleftrightarrow>
     inv w \<and> model (mgr w) = None \<and> data (mgr w) = None \<and> simulation (mgr w) = None"

section \<open>Properties of the unified model\<close>

lemma map_get_set: "map_get (map_set k v m) k = Some v"
  by (simp add: map_get_def map_set_def update_conv')

lemma map_keys_set_distinct:
  "distinct (map_keys m) \<Longrightarrow> distinct (map_keys (map_set k v m))"
  by (simp add: map_keys_def map_set_def distinct_update)

lemma map_keys_overwrite:
  "k \<in> set (map_keys m) \<Longrightarrow> map_keys (map_set k v m) = map_keys m"
  by (simp add: map_keys_def map_set_def update_keys)

lemma unique_keys_new: "unique_keys new_UnifiedRobotModel"
  by (simp add: unique_keys_def new_UnifiedRobotModel_def map_keys_def)

lemma unique_keys_add:
  assumes "unique_keys m"
  shows "unique_keys (addLink l m)" and "unique_keys (addJoint j m)"
    and "unique_keys (addConstraint c m)"
  using assms
  by (simp_all add: unique_keys_def addLink_def addJoint_def addConstraint_def
      map_keys_set_distinct)

text \<open>
  C10. For every model \<open>m\<close>, whatever its name, root link and render handle, and every
  link \<open>l\<close>: after \<open>addLink l\<close>, \<open>getLink\<close> at \<open>l\<close>'s name returns \<open>l\<close>; adding under a
  name that is already a key leaves the key list as it was (the entry is replaced, no
  second entry appears). The same holds for \<open>addJoint\<close>/\<open>getJoint\<close> and
  \<open>addConstraint\<close>/\<open>getConstraint\<close>. The keys of the three mappings are unique in the
  constructor's model, every add keeps them unique, and an assignment to \<open>name\<close>,
  \<open>rootLink\<close> or \<open>threeObject\<close> does not touch them: they are unique always.
\<close>

theorem add_get_overwrite:
  "getLink (addLink l m) (link_name l) = Some l \<and>
   getJoint (addJoint j m) (joint_name j) = Some j \<and>
   getConstraint (addConstraint c m) (constraint_name c) = Some c \<and>
   (link_name l \<in> set (map_keys (links m)) \<longrightarrow>
      map_keys (links (addLink l m)) = map_keys (links m)) \<and>
   (joint_name j \<in> set (map_keys (joints m)) \<longrightarrow>
      map_keys (joints (addJoint j m)) = map_keys (joints m)) \<and>
   (constraint_name c \<in> set (map_keys (constraints m)) \<longrightarrow>
      map_keys (constraints (addConstraint c m)) = map_keys (constraints m)) \<and>
   unique_keys new_UnifiedRobotModel \<and>
   (unique_keys m \<longrightarrow>
      unique_keys (addLink l m) \<and> unique_keys (addJoint j m) \<and>
      unique_keys (addConstraint c m)) \<and>
   unique_keys (m\<lparr>model_name := n, rootLink := r, model_threeObject := t\<rparr>) = unique_keys m"
proof -
  have g1: "getLink (addLink l m) (link_name l) = Some l"
    by (simp add: getLink_def addLink_def map_get_set)
  have g2: "getJoint (addJoint j m) (joint_name j) = Some j"
    by (simp add: getJoint_def addJoint_def map_get_set)
  have g3: "getConstraint (addConstraint c m) (constraint_name c) = Some c"
    by (simp add: getConstraint_def addConstraint_def map_get_set)
  have k1: "link_name l \<in> set (map_keys (links m)) \<longrightarrow>
           map_keys (links (addLink l m)) = map_keys (links m)"
    by (simp add: addLink_def map_keys_overwrite)
  have k2: "joint_name j \<in> set (map_keys (joints m)) \<longrightarrow>
           map_keys (joints (addJoint j m)) = map_keys (joints m)"
    by (simp add: addJoint_def map_keys_overwrite)
  have k3: "constraint_name c \<in> set (map_keys (constraints m)) \<longrightarrow>
           map_keys (constraints (addConstraint c m)) = map_keys (constraints m)"
    by (simp add: addConstraint_def map_keys_overwrite)
  have u: "unique_keys m \<longrightarrow>
      unique_keys (addLink l m) \<and> unique_keys (addJoint j m) \<and>
      unique_keys (addConstraint c m)"
    by (simp add: unique_keys_add)
  have f: "unique_keys (m\<lparr>model_name := n, rootLink := r, model_threeObject := t\<rparr>) =
      unique_keys m"
    by (simp add: unique_keys_def)
  from g1 g2 g3 k1 k2 k3 unique_keys_new u f show ?thesis by blast
qed

theorem add_get_overwrite_witness:
  "unique_keys
     ((addConstraint \<lparr>constraint_name = ''c'', constraint_type = ''weld'',
             constraint_body1 = None, constraint_body2 = None, constraint_joint1 = None,
             constraint_joint2 = None, constraint_threeObject = None\<rparr>
          (addJoint \<lparr>joint_name = ''j'', joint_type = ''fixed'', joint_parent = None,
             joint_child = None, joint_currentValue = 0, joint_threeObject = None\<rparr>
          (addLink \<lparr>link_name = ''base'', link_visuals = [], link_collisions = [],
             link_inertial = None, link_threeObject = None\<rparr> new_UnifiedRobotModel)))
        \<lparr>model_name := ''robot'', rootLink := Some ''base'', model_threeObject := Some 5\<rparr>) \<and>
   getLink (addLink \<lparr>link_name = ''base'', link_visuals = [7], link_collisions = [],
             link_inertial = None, link_threeObject = Some 1\<rparr>
      ((addConstraint \<lparr>constraint_name = ''c'', constraint_type = ''weld'',
             constraint_body1 = None, constraint_body2 = None, constraint_joint1 = None,
             constraint_joint2 = None, constraint_threeObject = None\<rparr>
          (addJoint \<lparr>joint_name = ''j'', joint_type = ''fixed'', joint_parent = None,
             joint_child = None, joint_currentValue = 0, joint_threeObject = None\<rparr>
          (addLink \<lparr>link_name = ''base'', link_visuals = [], link_collisions = [],
             link_inertial = None, link_threeObject = None\<rparr> new_UnifiedRobotModel)))
        \<lparr>model_name := ''robot'', rootLink := Some ''base'', model_threeObject := Some 5\<rparr>))
      ''base''
    = Some \<lparr>link_name = ''base'', link_visuals = [7], link_collisions = [],
             link_inertial = None, link_threeObject = Some 1\<rparr> \<and>
   map_keys (links (addLink \<lparr>link_name = ''base'', link_visuals = [7],
             link_collisions = [], link_inertial = None, link_threeObject = Some 1\<rparr>
      ((addConstraint \<lparr>constraint_name = ''c'', constraint_type = ''weld'',
             constraint_body1 = None, constraint_body2 = None, constraint_joint1 = None,
             constraint_joint2 = None, constraint_threeObject = None\<rparr>
          (addJoint \<lparr>joint_name = ''j'', joint_type = ''fixed'', joint_parent = None,
             joint_child = None, joint_currentValue = 0, joint_threeObject = None\<rparr>
          (addLink \<lparr>link_name = ''base'', link_visuals = [], link_collisions = [],
             link_inertial = None, link_threeObject = None\<rparr> new_UnifiedRobotModel)))
        \<lparr>model_name := ''robot'', rootLink := Some ''base'', model_threeObject := Some 5\<rparr>)))
    = [''base''] \<and>
   unique_keys (addLink \<lparr>link_name = ''base'', link_visuals = [7],
             link_collisions = [], link_inertial = None, link_threeObject = Some 1\<rparr>
      ((addConstraint \<lparr>constraint_name = ''c'', constraint_type = ''weld'',
             constraint_body1 = None, constraint_body2 = None, constraint_joint1 = None,
             constraint_joint2 = None, constraint_threeObject = None\<rparr>
          (addJoint \<lparr>joint_name = ''j'', joint_type = ''fixed'', joint_parent = None,
             joint_child = None, joint_currentValue = 0, joint_threeObject = None\<rparr>
          (addLink \<lparr>link_name = ''base'', link_visuals = [], link_collisions = [],
             link_inertial = None, link_threeObject = None\<rparr> new_UnifiedRobotModel)))
        \<lparr>model_name := ''robot'', rootLink := Some ''base'', model_threeObject := Some 5\<rparr>))"
proof -
  let ?l0 = "\<lparr>link_name = ''base'', link_visuals = [], link_collisions = [],
             link_inertial = None, link_threeObject = None\<rparr>"
  let ?j0 = "\<lparr>joint_name = ''j'', joint_type = ''fixed'', joint_parent = None,
             joint_child = None, joint_currentValue = 0, joint_threeObject = None\<rparr>"
  let ?c0 = "\<lparr>constraint_name = ''c'', constraint_type = ''weld'',
             constraint_body1 = None, constraint_body2 = None, constraint_joint1 = None,
             constraint_joint2 = None, constraint_threeObject = None\<rparr>"
  let ?l1 = "\<lparr>link_name = ''base'', link_visuals = [7], link_collisions = [],
             link_inertial = None, link_threeObject = Some 1\<rparr>"
  let ?m = "(addConstraint ?c0 (addJoint ?j0 (addLink ?l0 new_UnifiedRobotModel)))
        \<lparr>model_name := ''robot'', rootLink := Some ''base'', model_threeObject := Some 5\<rparr>"
  have u: "unique_keys ?m"
    by (simp add: unique_keys_def addConstraint_def addJoint_def addLink_def
        new_UnifiedRobotModel_def map_keys_def map_set_def)
  have keys: "map_keys (links ?m) = [''base'']"
    by (simp add: addConstraint_def addJoint_def addLink_def new_UnifiedRobotModel_def
        map_keys_def map_set_def)
  have mem: "link_name ?l1 \<in> set (map_keys (links ?m))"
    unfolding keys by simp
  from add_get_overwrite [of ?l1 ?m ?j0 ?c0] mem keys u show ?thesis
    by simp
qed

section \<open>Properties of the coordinate conversion\<close>

text \<open>
  C2. For every position vector \<open>v\<close>: when the three entries of an engine buffer at
  body \<open>index\<close> hold \<open>toMujocoPos v\<close> (render to engine, \<open>(x, y, z)\<close> to
  \<open>(x, -z, y)\<close>), reading the body back with \<open>getPosition\<close> and its swizzle (engine to
  render, \<open>(a, b, c)\<close> to \<open>(a, c, -b)\<close>) returns \<open>v\<close> exactly. Numbers are real numbers
  here; the only arithmetic on the way is negation, which is exact on IEEE doubles too.
\<close>

theorem position_round_trip:
  "index * 3 + 2 < length buffer \<Longrightarrow>
   buffer ! (index * 3 + 0) = vec_x (toMujocoPos v) \<Longrightarrow>
   buffer ! (index * 3 + 1) = vec_y (toMujocoPos v) \<Longrightarrow>
   buffer ! (index * 3 + 2) = vec_z (toMujocoPos v) \<Longrightarrow>
   getPosition buffer index True = Some v"
  by (simp add: getPosition_def buf_read_def toMujocoPos_def vec_set_def)

theorem position_round_trip_witness:
  "getPosition [9, 9, 9, 1, -3, 2] 1 True = Some \<lparr>vec_x = 1, vec_y = 2, vec_z = 3\<rparr>"
  using position_round_trip [of 1 "[9, 9, 9, 1, -3, 2]" "\<lparr>vec_x = 1, vec_y = 2, vec_z = 3\<rparr>"]
  by (simp add: toMujocoPos_def vec_set_def)


section \<open>Properties of the ground-plane injection\<close>


lemma count_geoms_insert:
  "insert_first_child P g n = Some n' \<Longrightarrow> count_geoms n' = count_geoms n + count_geoms g"
  "insert_first_child_list P g ns = Some ns' \<Longrightarrow>
     count_geoms_list ns' = count_geoms_list ns + count_geoms g"
  by (induction P g n and P g ns arbitrary: n' and ns'
      rule: insert_first_child_insert_first_child_list.induct)
     (auto split: if_splits option.splits)

lemma insert_none:
  "querySelector P n = None \<Longrightarrow> insert_first_child P g n = None"
  "querySelector_list P ns = None \<Longrightarrow> insert_first_child_list P g ns = None"
  by (induction P n and P ns rule: querySelector_querySelector_list.induct)
     (auto split: if_splits option.splits)

lemma insert_follows_query:
  "querySelector is_worldbody n = Some (Element t as cs) \<Longrightarrow>
     \<exists>n'. insert_first_child is_worldbody g n = Some n' \<and>
          querySelector is_worldbody n' = Some (Element t as (g # cs))"
  "querySelector_list is_worldbody ns = Some (Element t as cs) \<Longrightarrow>
     \<exists>ns'. insert_first_child_list is_worldbody g ns = Some ns' \<and>
          querySelector_list is_worldbody ns' = Some (Element t as (g # cs))"
proof (induction "is_worldbody" n and "is_worldbody" ns
       rule: querySelector_querySelector_list.induct)
  case (1 s)
  then show ?case by simp
next
  case (2 t' as' cs')
  then show ?case by (auto simp: is_worldbody_def split: if_splits)
next
  case 3
  then show ?case by simp
next
  case (4 c cs')
  show ?case
  proof (cases "querySelector is_worldbody c")
    case None
    have ins_none: "insert_first_child is_worldbody g c = None"
      using None by (rule insert_none)
    with 4 None show ?thesis by (auto split: option.splits)
  next
    case (Some w)
    with 4 show ?thesis by (auto split: option.splits)
  qed
qed


lemma querySelector_element:
  "querySelector P n = Some w \<Longrightarrow> \<exists>t as cs. w = Element t as cs"
  "querySelector_list P ns = Some w \<Longrightarrow> \<exists>t as cs. w = Element t as cs"
  by (induction P n and P ns rule: querySelector_querySelector_list.induct)
     (auto split: if_splits option.splits)

lemma count_geoms_groundGeom: "count_geoms (groundGeom show_number groundPlane) = 1"
  by (simp add: groundGeom_def Let_def)

text \<open>
  The document that \<open>addGroundPlane\<close> returns. When the first \<open>worldbody\<close> of the
  document has no \<open>geom\<close> of type \<open>plane\<close> below it, the result has exactly one more
  \<open>geom\<close> element: a plane named \<open>ground\<close>, first child of that \<open>worldbody\<close>, whose
  \<open>pos\<close> is \<open>0 0 y\<close> for the height \<open>y\<close> of the rendered ground (0 without one). When
  such a plane exists, or the document has no \<open>worldbody\<close>, the document is returned
  unchanged.
\<close>

lemma addGroundPlane_document:
  "(querySelector is_worldbody doc = None \<longrightarrow>
      addGroundPlane show_number groundPlane doc = doc) \<and>
   (\<forall>t as cs. querySelector is_worldbody doc = Some (Element t as cs) \<longrightarrow>
      (element_querySelector is_plane_geom (Element t as cs) \<noteq> None \<longrightarrow>
         addGroundPlane show_number groundPlane doc = doc) \<and>
      (element_querySelector is_plane_geom (Element t as cs) = None \<longrightarrow>
         count_geoms (addGroundPlane show_number groundPlane doc) = count_geoms doc + 1 \<and>
         querySelector is_worldbody (addGroundPlane show_number groundPlane doc) =
           Some (Element t as (groundGeom show_number groundPlane # cs)) \<and>
         is_plane_geom (groundGeom show_number groundPlane) \<and>
         getAttribute (groundGeom show_number groundPlane) ''name'' = Some ''ground'' \<and>
         getAttribute (groundGeom show_number groundPlane) ''pos'' =
           Some (''0 0 '' @ show_number (case groundPlane of Some y \<Rightarrow> y | None \<Rightarrow> 0))))"
proof (intro conjI allI impI)
  assume "querySelector is_worldbody doc = None"
  then show "addGroundPlane show_number groundPlane doc = doc"
    by (simp add: addGroundPlane_def)
next
  fix t as cs
  assume "querySelector is_worldbody doc = Some (Element t as cs)"
    and "element_querySelector is_plane_geom (Element t as cs) \<noteq> None"
  then show "addGroundPlane show_number groundPlane doc = doc"
    by (auto simp: addGroundPlane_def)
next
  fix t as cs
  let ?g = "groundGeom show_number groundPlane"
  assume q: "querySelector is_worldbody doc = Some (Element t as cs)"
    and np: "element_querySelector is_plane_geom (Element t as cs) = None"
  from insert_follows_query(1) [OF q, of ?g] obtain doc'
    where ins: "insert_first_child is_worldbody ?g doc = Some doc'"
      and q': "querySelector is_worldbody doc' = Some (Element t as (?g # cs))"
    by blast
  have res: "addGroundPlane show_number groundPlane doc = doc'"
    using q np ins by (simp add: addGroundPlane_def)
  show "count_geoms (addGroundPlane show_number groundPlane doc) = count_geoms doc + 1"
    using count_geoms_insert(1) [OF ins] by (simp add: res count_geoms_groundGeom)
  show "querySelector is_worldbody (addGroundPlane show_number groundPlane doc) =
           Some (Element t as (?g # cs))"
    using q' by (simp add: res)
next
  show "is_plane_geom (groundGeom show_number groundPlane)"
    by (simp add: is_plane_geom_def is_geom_def getAttribute_def groundGeom_def Let_def)
next
  show "getAttribute (groundGeom show_number groundPlane) ''name'' = Some ''ground''"
    by (simp add: getAttribute_def groundGeom_def Let_def)
next
  show "getAttribute (groundGeom show_number groundPlane) ''pos'' =
           Some (''0 0 '' @ show_number (case groundPlane of Some y \<Rightarrow> y | None \<Rightarrow> 0))"
    by (simp add: getAttribute_def groundGeom_def Let_def)
qed

lemma addGroundPlane_document_examples:
  "count_geoms (addGroundPlane (\<lambda>y. ''0'') None sphere_doc) = count_geoms sphere_doc + 1 \<and>
   count_geoms (addGroundPlane (\<lambda>y. ''0'') None sphere_doc) = 2 \<and>
   addGroundPlane (\<lambda>y. ''0'') None floor_doc = floor_doc \<and>
   addGroundPlane (\<lambda>y. ''0'') None (Element ''mujoco'' [] []) = Element ''mujoco'' [] []"
  using addGroundPlane_document [of sphere_doc "\<lambda>y. ''0''" None]
    addGroundPlane_document [of floor_doc "\<lambda>y. ''0''" None]
    addGroundPlane_document [of "Element ''mujoco'' [] []" "\<lambda>y. ''0''" None]
  by (simp add: sphere_doc_def floor_doc_def is_worldbody_def is_plane_geom_def is_geom_def
      getAttribute_def element_querySelector_def)

text \<open>
  C1. The claim holds of the document for every input (lemma
  \<open>addGroundPlane_document\<close>), but the plane is always named \<open>ground\<close> and only a
  plane counts as an existing ground. For a source whose ground is a box named
  \<open>ground\<close>: the first \<open>worldbody\<close> has no plane below it and the names of the source
  are distinct; the document that is returned has the injected plane as first child of
  \<open>worldbody\<close>, three \<open>geom\<close> elements instead of two, and two of them named
  \<open>ground\<close>. The engine refuses a repeated name, so the load of this source has no
  compiled model.
\<close>

theorem addGroundPlane_repeats_name:
  "querySelector is_worldbody ground_box_doc =
     Some (Element ''worldbody'' []
          [Element ''geom'' [(''name'', ''ground''), (''type'', ''box''), (''size'', ''5 5 0.05'')] [],
           Element ''body'' [(''name'', ''ball''), (''pos'', ''0 0 1'')]
             [Element ''geom'' [(''type'', ''sphere''), (''size'', ''0.1'')] []]]) \<and>
   element_querySelector is_plane_geom
     (Element ''worldbody'' []
          [Element ''geom'' [(''name'', ''ground''), (''type'', ''box''), (''size'', ''5 5 0.05'')] [],
           Element ''body'' [(''name'', ''ball''), (''pos'', ''0 0 1'')]
             [Element ''geom'' [(''type'', ''sphere''), (''size'', ''0.1'')] []]]) = None \<and>
   geom_names ground_box_doc = [''ground''] \<and>
   distinct (geom_names ground_box_doc) \<and>
   count_geoms ground_box_doc = 2 \<and>
   addGroundPlane (\<lambda>y. ''0'') (Some 0) ground_box_doc =
     Element ''mujoco'' []
       [Element ''worldbody'' []
          [groundGeom (\<lambda>y. ''0'') (Some 0),
           Element ''geom'' [(''name'', ''ground''), (''type'', ''box''), (''size'', ''5 5 0.05'')] [],
           Element ''body'' [(''name'', ''ball''), (''pos'', ''0 0 1'')]
             [Element ''geom'' [(''type'', ''sphere''), (''size'', ''0.1'')] []]]] \<and>
   count_geoms (addGroundPlane (\<lambda>y. ''0'') (Some 0) ground_box_doc) = 3 \<and>
   geom_names (addGroundPlane (\<lambda>y. ''0'') (Some 0) ground_box_doc) = [''ground'', ''ground''] \<and>
   \<not> distinct (geom_names (addGroundPlane (\<lambda>y. ''0'') (Some 0) ground_box_doc))"
  by (simp add: ground_box_doc_def addGroundPlane_def element_querySelector_def
      is_worldbody_def is_plane_geom_def is_geom_def getAttribute_def groundGeom_def)

section \<open>Properties of the bundle lookups\<close>

lemma split_slash_nonempty: "split_slash s \<noteq> []"
  by (induction s) (auto split: list.splits)

lemma join_split_slash: "join_slash (split_slash s) = s"
proof (induction s)
  case Nil
  show ?case by simp
next
  case (Cons c cs)
  obtain p ps where sp: "split_slash cs = p # ps"
    using split_slash_nonempty [of cs] by (cases "split_slash cs") auto
  show ?case
  proof (cases "c = CHR ''/''")
    case True
    with Cons sp show ?thesis by simp
  next
    case False
    with Cons sp show ?thesis by (cases ps) auto
  qed
qed

lemma split_slash_append:
  "CHR ''/'' \<notin> set pkg \<Longrightarrow> split_slash (pkg @ CHR ''/'' # rest) = pkg # split_slash rest"
  by (induction pkg) auto

lemma startsWith_append: "startsWith (p @ s) p"
  by (simp add: startsWith_def)

text \<open>
  For every package name (a name has no slash) and every rest of the path, the package
  scheme and the package name are removed.
\<close>

lemma remove_package_prefix_strips:
  assumes "CHR ''/'' \<notin> set pkg"
  shows "remove_package_prefix (''package://'' @ pkg @ ''/'' @ rest) = rest"
proof -
  have sw: "startsWith (''package://'' @ pkg @ ''/'' @ rest) ''package://''"
    by (rule startsWith_append)
  have sp: "strip_package_scheme (''package://'' @ pkg @ ''/'' @ rest) = pkg @ ''/'' @ rest"
    unfolding strip_package_scheme_def using sw by simp
  have parts: "split_slash (pkg @ ''/'' @ rest) = pkg # split_slash rest"
    using split_slash_append [OF assms] by simp
  have len: "length (pkg # split_slash rest) > 1"
    using split_slash_nonempty [of rest] by (cases "split_slash rest") auto
  show ?thesis
    unfolding remove_package_prefix_def using sw
    by (simp only: sp parts Let_def len if_True list.sel join_split_slash)
qed

lemma try_paths_find:
  "try_paths ps m =
     (case List.find (\<lambda>p. map_get m p \<noteq> None) ps of
        Some p \<Rightarrow> map_get m p | None \<Rightarrow> None)"
  by (induction ps) (auto split: option.splits)

lemma filename_match_find:
  "filename_match fn m =
     (case List.find (\<lambda>(key, file). split_pop key = fn) m of
        Some (key, file) \<Rightarrow> Some file | None \<Rightarrow> None)"
  by (induction m) (auto split: option.splits)

text \<open>
  C6, as the specification words it, fails: the code tries three more candidates before
  the file-name fallback. With the bundle keys \<open>x/c.xacro\<close> and \<open>b/c.xacro\<close> (in this
  order) and the inclusion \<open>a/b/c.xacro\<close>, the code returns the second file (found as
  the path without its first directory), where the three steps of the specification
  give the first (found by file name).
\<close>

theorem loadFileFromMap_counterexample:
  "loadFileFromMap ''a/b/c.xacro''
      [(''x/c.xacro'', \<lparr>file_name = ''c.xacro'', file_text = ''from x''\<rparr>),
       (''b/c.xacro'', \<lparr>file_name = ''c.xacro'', file_text = ''from b''\<rparr>)] []
     = Inr ''from b'' \<and>
   loadFileFromMap_as_specified ''a/b/c.xacro''
      [(''x/c.xacro'', \<lparr>file_name = ''c.xacro'', file_text = ''from x''\<rparr>),
       (''b/c.xacro'', \<lparr>file_name = ''c.xacro'', file_text = ''from b''\<rparr>)] []
     = Inr ''from x'' \<and>
   loadFileFromMap ''a/b/c.xacro''
      [(''x/c.xacro'', \<lparr>file_name = ''c.xacro'', file_text = ''from x''\<rparr>),
       (''b/c.xacro'', \<lparr>file_name = ''c.xacro'', file_text = ''from b''\<rparr>)] []
     \<noteq> loadFileFromMap_as_specified ''a/b/c.xacro''
      [(''x/c.xacro'', \<lparr>file_name = ''c.xacro'', file_text = ''from x''\<rparr>),
       (''b/c.xacro'', \<lparr>file_name = ''c.xacro'', file_text = ''from b''\<rparr>)] []"
  by (simp add: loadFileFromMap_def loadFileFromMap_as_specified_def possiblePaths_def
      cleanPath_of_def strip_dot_slash_def strip_leading_slashes_def startsWith_def
      includes_slash_def after_first_slash_def map_get_def split_pop_def Let_def)

lemma loadFileFromMap_error:
  "loadFileFromMap path fileMap workingPath = Inl e \<Longrightarrow> e = CannotFindIncludedFile path"
  by (auto simp: loadFileFromMap_def split: option.splits)

lemma getFileContents_of_error:
  "getFileContents_of out (Some fileMap) workingPath path = Inl e \<Longrightarrow>
   e = Error (''Cannot find included file: '' @ path)"
  by (auto simp: getFileContents_of_def error_of_def dest: loadFileFromMap_error
      split: sum.splits)

lemma first_missing_run:
  "first_missing g t = Some p \<Longrightarrow> \<exists>e. g p = Inl e \<and> run_expansion failed g t = Inl (failed p e)"
proof (induction t)
  case (Expanded d)
  then show ?case by simp
next
  case (Thrown e)
  then show ?case by simp
next
  case (GetFileContents path continue)
  show ?case
  proof (cases "g path")
    case (Inl e)
    with GetFileContents.prems show ?thesis by simp
  next
    case (Inr content)
    with GetFileContents.prems have "first_missing g (continue content) = Some p" by simp
    from GetFileContents.IH [OF rangeI this] Inr show ?thesis by simp
  qed
qed

text \<open>
  C6, amended. \<open>loadFileFromMap\<close> returns the text of the first of these that is in
  the bundle: the cleaned path; the working path followed by the cleaned path; the path
  as given; the working path followed by the path without its leading slashes; the
  cleaned path without its first directory. When none is a key, it returns the text of
  the first bundle entry, in the bundle's order, whose key ends in the same file name as
  the cleaned path. When there is none either, it fails with
  \<open>Cannot find included file\<close>, and this is fatal to the load: when an included file
  that the parser asks for is not found in the bundle, \<open>parse\<close> throws
  \<open>Xacro parsing failed\<close> with the message of that failure and returns no model.
\<close>

theorem loadFileFromMap_order:
  "loadFileFromMap path fileMap workingPath =
     (case List.find (\<lambda>p. map_get fileMap p \<noteq> None)
             [cleanPath_of path,
              workingPath @ cleanPath_of path,
              path,
              workingPath @ strip_leading_slashes path,
              if includes_slash (cleanPath_of path) then after_first_slash (cleanPath_of path)
              else cleanPath_of path] of
        Some p \<Rightarrow> Inr (file_text (the (map_get fileMap p)))
      | None \<Rightarrow>
          (case List.find (\<lambda>(key, file). split_pop key = split_pop (cleanPath_of path)) fileMap of
             Some (key, file) \<Rightarrow> Inr (file_text file)
           | None \<Rightarrow> Inl (CannotFindIncludedFile path))) \<and>
   (first_missing (getFileContents_of out (Some fileMap) (workingPath_of fileName))
       (parser_parse out (workingPath_of fileName)
          (xacro_arguments (injectBooleanConstants xacroContent))
          (injectBooleanConstants xacroContent)) = Some missing \<longrightarrow>
    loadFileFromMap missing fileMap (workingPath_of fileName) =
      Inl (CannotFindIncludedFile missing) \<and>
    parse out xacroContent fileName (Some fileMap) =
      Inl (Error (''Xacro parsing failed: '' @
             message (include_failed out missing
                        (Error (''Cannot find included file: '' @ missing))))))"
proof (intro conjI impI)
  let ?cands = "possiblePaths path workingPath"
  have tp: "try_paths ?cands fileMap =
     (case List.find (\<lambda>p. map_get fileMap p \<noteq> None) ?cands of
        Some p \<Rightarrow> map_get fileMap p | None \<Rightarrow> None)"
    by (rule try_paths_find)
  have found: "List.find (\<lambda>p. map_get fileMap p \<noteq> None) ?cands = Some p \<Longrightarrow>
      map_get fileMap p \<noteq> None" for p
    by (auto simp: find_Some_iff)
  have cands: "?cands = [cleanPath_of path,
              workingPath @ cleanPath_of path,
              path,
              workingPath @ strip_leading_slashes path,
              if includes_slash (cleanPath_of path) then after_first_slash (cleanPath_of path)
              else cleanPath_of path]"
    by (simp add: possiblePaths_def Let_def)
  show "loadFileFromMap path fileMap workingPath =
     (case List.find (\<lambda>p. map_get fileMap p \<noteq> None)
             [cleanPath_of path,
              workingPath @ cleanPath_of path,
              path,
              workingPath @ strip_leading_slashes path,
              if includes_slash (cleanPath_of path) then after_first_slash (cleanPath_of path)
              else cleanPath_of path] of
        Some p \<Rightarrow> Inr (file_text (the (map_get fileMap p)))
      | None \<Rightarrow>
          (case List.find (\<lambda>(key, file). split_pop key = split_pop (cleanPath_of path)) fileMap of
             Some (key, file) \<Rightarrow> Inr (file_text file)
           | None \<Rightarrow> Inl (CannotFindIncludedFile path)))"
    unfolding loadFileFromMap_def tp filename_match_find cands [symmetric]
    using found
    by (auto split: option.splits prod.splits)
next
  let ?wp = "workingPath_of fileName"
  let ?g = "getFileContents_of out (Some fileMap) ?wp"
  let ?t = "parser_parse out ?wp (xacro_arguments (injectBooleanConstants xacroContent))
          (injectBooleanConstants xacroContent)"
  assume fm: "first_missing ?g ?t = Some missing"
  from first_missing_run [OF fm, of "include_failed out"] obtain e where
    e: "?g missing = Inl e" and
    r: "run_expansion (include_failed out) ?g ?t = Inl (include_failed out missing e)"
    by blast
  from getFileContents_of_error [OF e]
  have e': "e = Error (''Cannot find included file: '' @ missing)" .
  from e show "loadFileFromMap missing fileMap ?wp = Inl (CannotFindIncludedFile missing)"
    by (auto simp: getFileContents_of_def dest: loadFileFromMap_error split: sum.splits)
  have "expand_xacro out xacroContent fileName (Some fileMap) =
      Inl (include_failed out missing e)"
    using r by (simp add: expand_xacro_def Let_def)
  then show "parse out xacroContent fileName (Some fileMap) =
      Inl (Error (''Xacro parsing failed: '' @
             message (include_failed out missing
                        (Error (''Cannot find included file: '' @ missing)))))"
    by (simp add: parse_def e')
qed

theorem loadFileFromMap_order_witness:
  "first_missing
     (getFileContents_of example_outside
        (Some [(''urdf/robot.xacro'', \<lparr>file_name = ''robot.xacro'', file_text = ''<robot/>''\<rparr>)])
        (workingPath_of ''urdf/robot.xacro''))
     (parser_parse example_outside (workingPath_of ''urdf/robot.xacro'')
        (xacro_arguments (injectBooleanConstants ''<robot/>''))
        (injectBooleanConstants ''<robot/>'')) = Some ''common.xacro'' \<and>
   parse example_outside ''<robot/>'' ''urdf/robot.xacro''
     (Some [(''urdf/robot.xacro'', \<lparr>file_name = ''robot.xacro'', file_text = ''<robot/>''\<rparr>)]) =
     Inl (Error ''Xacro parsing failed: Cannot find included file: common.xacro'') \<and>
   parse example_outside ''<robot/>'' ''urdf/robot.xacro''
     (Some [(''urdf/robot.xacro'', \<lparr>file_name = ''robot.xacro'', file_text = ''<robot/>''\<rparr>),
            (''lib/common.xacro'', \<lparr>file_name = ''common.xacro'', file_text = ''<robot/>''\<rparr>)]) =
     Inr new_UnifiedRobotModel"
proof -
  let ?fm = "[(''urdf/robot.xacro'', \<lparr>file_name = ''robot.xacro'', file_text = ''<robot/>''\<rparr>)]"
  have l: "loadFileFromMap ''common.xacro'' ?fm ''urdf/'' = Inl (CannotFindIncludedFile ''common.xacro'')"
    by (simp add: loadFileFromMap_def possiblePaths_def cleanPath_of_def strip_dot_slash_def
        strip_leading_slashes_def startsWith_def includes_slash_def after_first_slash_def
        map_get_def split_pop_def Let_def)
  have wp: "workingPath_of ''urdf/robot.xacro'' = ''urdf/''"
    by (simp add: workingPath_of_def up_to_last_slash_def includes_slash_def)
  have m: "first_missing (getFileContents_of example_outside (Some ?fm) (workingPath_of ''urdf/robot.xacro''))
     (parser_parse example_outside (workingPath_of ''urdf/robot.xacro'')
        (xacro_arguments (injectBooleanConstants ''<robot/>''))
        (injectBooleanConstants ''<robot/>'')) = Some ''common.xacro''"
    unfolding wp by (simp add: example_outside_def getFileContents_of_def l)
  have inc: "include_failed example_outside = (\<lambda>path e. e)"
    by (simp add: example_outside_def)
  let ?fm2 = "[(''urdf/robot.xacro'', \<lparr>file_name = ''robot.xacro'', file_text = ''<robot/>''\<rparr>),
            (''lib/common.xacro'', \<lparr>file_name = ''common.xacro'', file_text = ''<robot/>''\<rparr>)]"
  have l2: "loadFileFromMap ''common.xacro'' ?fm2 ''urdf/'' = Inr ''<robot/>''"
    by (simp add: loadFileFromMap_def possiblePaths_def cleanPath_of_def strip_dot_slash_def
        strip_leading_slashes_def startsWith_def includes_slash_def after_first_slash_def
        map_get_def split_pop_def Let_def)
  have p2: "parse example_outside ''<robot/>'' ''urdf/robot.xacro'' (Some ?fm2) =
     Inr new_UnifiedRobotModel"
    unfolding parse_def expand_xacro_def Let_def wp
    by (simp add: example_outside_def getFileContents_of_def l2)
  from loadFileFromMap_order [of "''common.xacro''" ?fm "''urdf/''" example_outside
      "''urdf/robot.xacro''" "''<robot/>''" "''common.xacro''"] m p2
  show ?thesis
    by (simp add: inc)
qed

text \<open>
  C9, as stated, fails when the bundle also has the key made of the document's directory
  and the stripped path: that key is tried first. With the directory \<open>robot/\<close> and the
  keys \<open>robot/meshes/bar.stl\<close> and \<open>meshes/bar.stl\<close>, the reference
  \<open>package://foo/meshes/bar.stl\<close> resolves to the first entry, not to the entry of
  \<open>meshes/bar.stl\<close>.
\<close>

theorem resolve_package_counterexample:
  "map_get [(''robot/meshes/bar.stl'', \<lparr>file_name = ''bar.stl'', file_text = ''solid other''\<rparr>),
            (''meshes/bar.stl'', \<lparr>file_name = ''bar.stl'', file_text = ''solid bar''\<rparr>)]
      ''meshes/bar.stl'' = Some \<lparr>file_name = ''bar.stl'', file_text = ''solid bar''\<rparr> \<and>
   findFileInMapByPath ''package://foo/meshes/bar.stl''
      [(''robot/meshes/bar.stl'', \<lparr>file_name = ''bar.stl'', file_text = ''solid other''\<rparr>),
       (''meshes/bar.stl'', \<lparr>file_name = ''bar.stl'', file_text = ''solid bar''\<rparr>)] ''robot/''
     = Some \<lparr>file_name = ''bar.stl'', file_text = ''solid other''\<rparr> \<and>
   findFileInMapByPath ''package://foo/meshes/bar.stl''
      [(''robot/meshes/bar.stl'', \<lparr>file_name = ''bar.stl'', file_text = ''solid other''\<rparr>),
       (''meshes/bar.stl'', \<lparr>file_name = ''bar.stl'', file_text = ''solid bar''\<rparr>)] ''robot/''
     \<noteq> Some \<lparr>file_name = ''bar.stl'', file_text = ''solid bar''\<rparr>"
  by (simp add: findFileInMapByPath_def strip_blob_prefix_def remove_package_prefix_def
      strip_package_scheme_def strip_dot_slash_def startsWith_def map_get_def Let_def)

text \<open>
  C9, amended. Against a bundle that has the key \<open>meshes/bar.stl\<close>, the reference
  \<open>package://foo/meshes/bar.stl\<close> resolves to the entry of that key, unless the bundle
  also has the key made of the document's directory followed by \<open>meshes/bar.stl\<close>,
  which is tried first and then is the result: the scheme and the package name are
  stripped before the lookup and the first match in the order of the tried paths wins.
  \<open>findFileInMapByPath\<close> and \<open>urlModifier\<close> agree on this. The result is a function of
  the bundle, the directory and the reference.
\<close>

theorem resolve_package_reference:
  "map_get fileMap ''meshes/bar.stl'' = Some entry \<Longrightarrow>
   findFileInMapByPath ''package://foo/meshes/bar.stl'' fileMap urdfDir =
     (case map_get fileMap (urdfDir @ ''meshes/bar.stl'') of
        Some shadowing \<Rightarrow> Some shadowing
      | None \<Rightarrow> Some entry) \<and>
   urlModifier url_pathname fileMap urdfDir ''package://foo/meshes/bar.stl'' =
     ObjectURL (case map_get fileMap (urdfDir @ ''meshes/bar.stl'') of
        Some shadowing \<Rightarrow> shadowing
      | None \<Rightarrow> entry)"
proof -
  assume e: "map_get fileMap ''meshes/bar.stl'' = Some entry"
  have rp: "remove_package_prefix ''package://foo/meshes/bar.stl'' = ''meshes/bar.stl''"
    using remove_package_prefix_strips [of "''foo''" "''meshes/bar.stl''"] by simp
  have sb: "strip_blob_prefix ''package://foo/meshes/bar.stl'' = ''package://foo/meshes/bar.stl''"
    by (simp add: strip_blob_prefix_def startsWith_def)
  have sd: "strip_dot_slash ''meshes/bar.stl'' = ''meshes/bar.stl''"
    by (simp add: strip_dot_slash_def startsWith_def)
  have f: "findFileInMapByPath ''package://foo/meshes/bar.stl'' fileMap urdfDir =
     (case map_get fileMap (urdfDir @ ''meshes/bar.stl'') of
        Some shadowing \<Rightarrow> Some shadowing
      | None \<Rightarrow> Some entry)"
    unfolding findFileInMapByPath_def sb rp sd Let_def using e
    by (simp split: option.splits)
  have nb: "\<not> startsWith ''package://foo/meshes/bar.stl'' ''blob:''"
    "\<not> startsWith ''package://foo/meshes/bar.stl'' ''http://''"
    "\<not> startsWith ''package://foo/meshes/bar.stl'' ''https://''"
    by (simp_all add: startsWith_def)
  have ni: "\<not> includes_str ''meshes/bar.stl'' ''../''"
    by (simp add: startsWith_def)
  have u: "urlModifier url_pathname fileMap urdfDir ''package://foo/meshes/bar.stl'' =
     ObjectURL (case map_get fileMap (urdfDir @ ''meshes/bar.stl'') of
        Some shadowing \<Rightarrow> shadowing
      | None \<Rightarrow> entry)"
    unfolding urlModifier_def using e nb ni
    by (simp add: rp sd Let_def split: option.splits)
  from f u show ?thesis by simp
qed

theorem resolve_package_reference_witness:
  "map_get [(''urdf/robot.urdf'', \<lparr>file_name = ''robot.urdf'', file_text = ''<robot/>''\<rparr>),
            (''meshes/bar.stl'', \<lparr>file_name = ''bar.stl'', file_text = ''solid bar''\<rparr>)]
      ''meshes/bar.stl'' = Some \<lparr>file_name = ''bar.stl'', file_text = ''solid bar''\<rparr> \<and>
   findFileInMapByPath ''package://foo/meshes/bar.stl''
      [(''urdf/robot.urdf'', \<lparr>file_name = ''robot.urdf'', file_text = ''<robot/>''\<rparr>),
       (''meshes/bar.stl'', \<lparr>file_name = ''bar.stl'', file_text = ''solid bar''\<rparr>)] ''urdf/''
     = Some \<lparr>file_name = ''bar.stl'', file_text = ''solid bar''\<rparr>"
  using resolve_package_reference [of
      "[(''urdf/robot.urdf'', \<lparr>file_name = ''robot.urdf'', file_text = ''<robot/>''\<rparr>),
        (''meshes/bar.stl'', \<lparr>file_name = ''bar.stl'', file_text = ''solid bar''\<rparr>)]"
      "\<lparr>file_name = ''bar.stl'', file_text = ''solid bar''\<rparr>" "''urdf/''"]
  by (simp add: map_get_def)

section \<open>Properties of the geometry copy\<close>

lemma clone_size_fresh:
  "clone_size h v = Inr (v', h') \<Longrightarrow>
     (v' = Null \<and> h' = h) \<or> (\<exists>props. v' = Ref (length h) \<and> h' = h @ [Obj props])"
  by (auto simp: clone_size_def alloc_def split: if_splits sum.splits)

lemma clone_array_fresh:
  "clone_array h r = Inr (r', h') \<Longrightarrow>
     (r' = None \<and> r = None \<and> h' = h) \<or>
     (\<exists>a xs. r = Some a \<and> heap_get h a = Some (Arr xs) \<and> r' = Some (length h) \<and> h' = h @ [Arr xs])"
  by (auto simp: clone_array_def alloc_def spread_into_array_def
      split: option.splits sum.splits js_object.splits)

lemma heap_get_append: "a < length h \<Longrightarrow> heap_get (h @ h') a = heap_get h a"
  by (simp add: heap_get_def nth_append)

text \<open>
  What \<open>clone\<close> does copy: the objects that were in the heap are left as they were, and
  the \<open>size\<close>, \<open>meshScale\<close> and \<open>inlineScale\<close> of the copy are \<open>null\<close> or new objects.
  The \<open>fromto\<close> of the copy is the value of the original, the same reference when it is
  one.
\<close>

lemma clone_fresh_copies:
  assumes "clone h this = Inr (cloned, h')"
  shows "(\<forall>a < length h. heap_get h' a = heap_get h a) \<and>
         (g_size cloned = Null \<or> (\<exists>a \<ge> length h. g_size cloned = Ref a)) \<and>
         (\<forall>a. g_meshScale cloned = Some a \<longrightarrow> length h \<le> a) \<and>
         (\<forall>a. g_inlineScale cloned = Some a \<longrightarrow> length h \<le> a) \<and>
         g_fromto cloned = g_fromto this"
proof -
  from assms obtain s1 h1 m2 h2 i3 where
    c1: "clone_size h (g_size this) = Inr (s1, h1)" and
    c2: "clone_array h1 (g_meshScale this) = Inr (m2, h2)" and
    c3: "clone_array h2 (g_inlineScale this) = Inr (i3, h')" and
    cl: "cloned = \<lparr>g_type = g_type this, g_size = s1, g_filename = g_filename this,
                g_meshScale = m2, g_fromto = g_fromto this,
                g_inlineVertices = g_inlineVertices this, g_inlineScale = i3\<rparr>"
    by (auto simp: clone_def split: sum.splits prod.splits)
  from clone_size_fresh [OF c1] clone_array_fresh [OF c2] clone_array_fresh [OF c3]
  show ?thesis
    unfolding cl by (auto simp: heap_get_append)
qed

text \<open>
  C5. The claim asks that a copy shares no mutable object with the original, and that a
  change of the copy's \<open>fromto\<close> leaves the original's alone. The code copies \<open>size\<close>,
  \<open>meshScale\<close> and \<open>inlineScale\<close> but assigns \<open>fromto\<close> as it is. For the capsule whose
  \<open>fromto\<close> is the array \<open>[0, 0, 0, 0, 0, 1]\<close>: the copy's \<open>fromto\<close> is the reference of
  the original; after \<open>cloned.fromto[0] = 9\<close> the original's \<open>fromto\<close> reads
  \<open>[9, 0, 0, 0, 0, 1]\<close>. The \<open>size\<close> was copied: after \<open>cloned.size.radius = 9\<close> the
  original's \<open>size\<close> still reads \<open>{radius: 0.05}\<close>.
\<close>

theorem clone_shares_fromto:
  "clone capsule_heap capsule =
     Inr (\<lparr>g_type = ''capsule'', g_size = Ref 2, g_filename = None, g_meshScale = None,
            g_fromto = Ref 1, g_inlineVertices = None, g_inlineScale = None\<rparr>,
          capsule_heap @ [Obj [(''radius'', Num 0.05)]]) \<and>
   g_fromto capsule = Ref 1 \<and>
   deref (capsule_heap @ [Obj [(''radius'', Num 0.05)]]) (g_fromto capsule) =
     Some (Arr [Num 0, Num 0, Num 0, Num 0, Num 0, Num 1]) \<and>
   deref (store_index (capsule_heap @ [Obj [(''radius'', Num 0.05)]]) 1 0 (Num 9))
      (g_fromto capsule) =
     Some (Arr [Num 9, Num 0, Num 0, Num 0, Num 0, Num 1]) \<and>
   deref (store_property (capsule_heap @ [Obj [(''radius'', Num 0.05)]]) 2 ''radius'' (Num 9))
      (g_size capsule) =
     Some (Obj [(''radius'', Num 0.05)])"
  by (simp add: clone_def clone_size_def clone_array_def spread_into_object_def alloc_def
      capsule_def capsule_heap_def heap_get_def deref_def store_index_def store_property_def)

section \<open>Properties of the per-frame update\<close>

lemma sync_bodies_ok:
  "engine_ok m \<Longrightarrow> \<exists>g. sync_bodies m = Inr (m\<lparr>bodies := g\<rparr>)"
  by (auto simp: engine_ok_def sync_bodies_def engine_data_def split: if_splits)

lemma clear_applied_forces_ok:
  assumes "engine_ok m"
  shows "\<exists>m'. clear_applied_forces m = Inr m' \<and> engine_ok m' \<and> mujoco_time m' = mujoco_time m \<and>
          isOldAPI m' = isOldAPI m \<and> model m' = model m \<and> simulation m' = simulation m"
proof (cases "isOldAPI m")
  case True
  with assms obtain h d where d: "data m = Some (h, d)" by (auto simp: engine_ok_def)
  let ?m' = "m\<lparr>data := Some (h, d\<lparr>qfrc_applied := replicate (length (qfrc_applied d)) 0\<rparr>)\<rparr>"
  have "clear_applied_forces m = Inr ?m'" using True d by (simp add: clear_applied_forces_def)
  moreover have "engine_ok ?m'" using assms True by (simp add: engine_ok_def)
  ultimately show ?thesis by (intro exI [of _ ?m']) simp
next
  case False
  with assms show ?thesis by (simp add: clear_applied_forces_def)
qed

lemma apply_drag_force_ok:
  assumes "engine_ok m"
  shows "\<exists>m'. apply_drag_force ops papi m = Inr m' \<and> engine_ok m' \<and>
          mujoco_time m' = mujoco_time m \<and> isOldAPI m' = isOldAPI m \<and> model m' = model m \<and>
          simulation m' = simulation m"
proof (cases "dragging m")
  case None
  with assms show ?thesis by (simp add: apply_drag_force_def)
next
  case (Some bodyID)
  then obtain dsm where dsm: "dragStateManager m = Some dsm"
    by (auto simp: dragging_def split: option.splits)
  from assms obtain h mdl where mdl: "model m = Some (h, mdl)"
    by (auto simp: engine_ok_def)
  from sync_bodies_ok [OF assms] obtain g where g: "sync_bodies m = Inr (m\<lparr>bodies := g\<rparr>)" ..
  let ?dsm = "drag_update papi dsm"
  let ?m2 = "m\<lparr>bodies := g, dragStateManager := Some ?dsm\<rparr>"
  show ?thesis
  proof (cases "isOldAPI m")
    case True
    with assms obtain hdl d where d: "data m = Some (hdl, d)" by (auto simp: engine_ok_def)
    obtain q where r: "apply_drag_force ops papi m = Inr (?m2\<lparr>data := Some (hdl, d\<lparr>qfrc_applied := q\<rparr>)\<rparr>)"
      using Some dsm mdl g True d by (simp add: apply_drag_force_def Let_def)
    have "engine_ok (?m2\<lparr>data := Some (hdl, d\<lparr>qfrc_applied := q\<rparr>)\<rparr>)"
      using assms True by (simp add: engine_ok_def)
    with r show ?thesis by (intro exI [of _ "?m2\<lparr>data := Some (hdl, d\<lparr>qfrc_applied := q\<rparr>)\<rparr>"]) simp
  next
    case False
    have r: "apply_drag_force ops papi m = Inr ?m2"
      using Some dsm mdl g False by (simp add: apply_drag_force_def Let_def)
    have "engine_ok ?m2" using assms False by (simp add: engine_ok_def)
    with r show ?thesis by (intro exI [of _ ?m2]) simp
  qed
qed

lemma before_step_ok:
  assumes "engine_ok m"
  shows "\<exists>m'. before_step ops papi m = Inr m' \<and> engine_ok m' \<and>
          mujoco_time m' = mujoco_time m \<and> isOldAPI m' = isOldAPI m \<and> model m' = model m \<and>
          simulation m' = simulation m"
proof -
  from clear_applied_forces_ok [OF assms] obtain m1 where
    1: "clear_applied_forces m = Inr m1" "engine_ok m1" "mujoco_time m1 = mujoco_time m"
       "isOldAPI m1 = isOldAPI m" "model m1 = model m" "simulation m1 = simulation m" by blast
  from apply_drag_force_ok [OF 1(2), of ops papi] obtain m2 where
    2: "apply_drag_force ops papi m1 = Inr m2" "engine_ok m2" "mujoco_time m2 = mujoco_time m1"
       "isOldAPI m2 = isOldAPI m1" "model m2 = model m1" "simulation m2 = simulation m1" by blast
  have "before_step ops papi m = Inr m2" using 1(1) 2(1) by (simp add: before_step_def)
  with 1 2 show ?thesis by (intro exI [of _ m2]) simp
qed

text \<open>
  One iteration: what comes before the step, then one step of the engine on the data of
  the interface in use, then the addition to \<open>mujoco_time\<close>.
\<close>

lemma loop_body_steps:
  assumes ok: "engine_ok m"
  shows "\<exists>m1. before_step ops papi m = Inr m1 \<and> engine_ok m1 \<and>
     mujoco_time m1 = mujoco_time m \<and> simulation m1 = simulation m \<and>
     (isOldAPI m \<longrightarrow>
        (\<exists>h mdl hdl d1. model m1 = Some (h, mdl) \<and> data m1 = Some (hdl, d1) \<and>
           loop_body ops papi timestep m =
             Inr (advance_time ops timestep (m1\<lparr>data := Some (hdl, mj_step papi mdl d1)\<rparr>)))) \<and>
     (\<not> isOldAPI m \<longrightarrow>
        (\<exists>hs s1. simulation m1 = Some (hs, s1) \<and>
           loop_body ops papi timestep m =
             Inr (advance_time ops timestep
                    (m1\<lparr>simulation := Some (hs, simulation_step papi s1)\<rparr>))))"
proof -
  from before_step_ok [OF ok, of ops papi] obtain m1 where
    b: "before_step ops papi m = Inr m1" "engine_ok m1" "mujoco_time m1 = mujoco_time m"
       "isOldAPI m1 = isOldAPI m" "model m1 = model m" "simulation m1 = simulation m" by blast
  have old: "\<exists>h mdl hdl d1. model m1 = Some (h, mdl) \<and> data m1 = Some (hdl, d1) \<and>
           loop_body ops papi timestep m =
             Inr (advance_time ops timestep (m1\<lparr>data := Some (hdl, mj_step papi mdl d1)\<rparr>))"
    if o: "isOldAPI m"
  proof -
    from b(2,4) o obtain h mdl hdl d1 where
      d: "model m1 = Some (h, mdl)" "data m1 = Some (hdl, d1)"
      by (auto simp: engine_ok_def)
    have "physics_step papi m1 = Inr (m1\<lparr>data := Some (hdl, mj_step papi mdl d1)\<rparr>)"
      using o b(4) d by (simp add: physics_step_def)
    then have "loop_body ops papi timestep m =
             Inr (advance_time ops timestep (m1\<lparr>data := Some (hdl, mj_step papi mdl d1)\<rparr>))"
      using b(1) by (simp add: loop_body_def)
    with d show ?thesis by blast
  qed
  have new: "\<exists>hs s1. simulation m1 = Some (hs, s1) \<and>
           loop_body ops papi timestep m =
             Inr (advance_time ops timestep
                    (m1\<lparr>simulation := Some (hs, simulation_step papi s1)\<rparr>))"
    if n: "\<not> isOldAPI m"
  proof -
    from b(2,4) n obtain hs s1 where d: "simulation m1 = Some (hs, s1)"
      by (auto simp: engine_ok_def)
    have "physics_step papi m1 = Inr (m1\<lparr>simulation := Some (hs, simulation_step papi s1)\<rparr>)"
      using n b(4) d by (simp add: physics_step_def)
    then have "loop_body ops papi timestep m =
             Inr (advance_time ops timestep
                    (m1\<lparr>simulation := Some (hs, simulation_step papi s1)\<rparr>))"
      using b(1) by (simp add: loop_body_def)
    with d show ?thesis by blast
  qed
  from b(1,2,3,6) old new show ?thesis by blast
qed

lemma loop_body_ok:
  assumes "engine_ok m"
  shows "\<exists>m'. loop_body ops papi timestep m = Inr m' \<and> engine_ok m' \<and>
          mujoco_time m' = fadd ops (mujoco_time m) (fmul ops timestep 1000)"
proof -
  from loop_body_steps [OF assms, of ops papi timestep] obtain m1 where
    b: "engine_ok m1" "mujoco_time m1 = mujoco_time m"
    and o: "isOldAPI m \<longrightarrow>
        (\<exists>h mdl hdl d1. model m1 = Some (h, mdl) \<and> data m1 = Some (hdl, d1) \<and>
           loop_body ops papi timestep m =
             Inr (advance_time ops timestep (m1\<lparr>data := Some (hdl, mj_step papi mdl d1)\<rparr>)))"
    and n: "\<not> isOldAPI m \<longrightarrow>
        (\<exists>hs s1. simulation m1 = Some (hs, s1) \<and>
           loop_body ops papi timestep m =
             Inr (advance_time ops timestep
                    (m1\<lparr>simulation := Some (hs, simulation_step papi s1)\<rparr>)))"
    by blast
  show ?thesis
  proof (cases "isOldAPI m")
    case True
    with o obtain hdl d' where
      r: "loop_body ops papi timestep m = Inr (advance_time ops timestep (m1\<lparr>data := Some (hdl, d')\<rparr>))"
      by blast
    have "engine_ok (advance_time ops timestep (m1\<lparr>data := Some (hdl, d')\<rparr>))"
      using b(1) by (auto simp: engine_ok_def advance_time_def)
    moreover have "mujoco_time (advance_time ops timestep (m1\<lparr>data := Some (hdl, d')\<rparr>)) =
        fadd ops (mujoco_time m) (fmul ops timestep 1000)"
      using b(2) by (simp add: advance_time_def)
    ultimately show ?thesis using r by simp
  next
    case False
    with n obtain hs s' where
      r: "loop_body ops papi timestep m =
            Inr (advance_time ops timestep (m1\<lparr>simulation := Some (hs, s')\<rparr>))"
      by blast
    have "engine_ok (advance_time ops timestep (m1\<lparr>simulation := Some (hs, s')\<rparr>))"
      using b(1) by (auto simp: engine_ok_def advance_time_def)
    moreover have "mujoco_time (advance_time ops timestep (m1\<lparr>simulation := Some (hs, s')\<rparr>)) =
        fadd ops (mujoco_time m) (fmul ops timestep 1000)"
      using b(2) by (simp add: advance_time_def)
    ultimately show ?thesis using r by simp
  qed
qed



text \<open>
  When the sum is rounded back to \<open>mujoco_time\<close>, the loop never ends: no amount of
  fuel is enough.
\<close>

lemma stepping_loop_stuck:
  "engine_ok m \<Longrightarrow> mujoco_time m < timeMS \<Longrightarrow>
   fadd ops (mujoco_time m) (fmul ops timestep 1000) = mujoco_time m \<Longrightarrow>
   stepping_loop fuel ops papi timestep timeMS m = None"
proof (induction fuel arbitrary: m)
  case 0
  then show ?case by simp
next
  case (Suc fuel)
  from loop_body_ok [OF Suc.prems(1), of ops papi timestep] obtain m1 where
    b: "loop_body ops papi timestep m = Inr m1" "engine_ok m1"
       "mujoco_time m1 = fadd ops (mujoco_time m) (fmul ops timestep 1000)" by blast
  have t: "mujoco_time m1 = mujoco_time m" using b(3) Suc.prems(3) by simp
  have "stepping_loop fuel ops papi timestep timeMS m1 = None"
    using Suc.IH [OF b(2)] t Suc.prems(2,3) by simp
  with b(1) Suc.prems(2) show ?case by simp
qed

lemma binade_eq:
  "2 powi k \<le> x \<Longrightarrow> x < 2 powi (k + 1) \<Longrightarrow> nat \<bar>k\<bar> \<le> n \<Longrightarrow> binade n x = k"
proof (induction n arbitrary: x k)
  case 0
  then show ?case by simp
next
  case (Suc n)
  consider "k = 0" | "k < 0" | "0 < k" by linarith
  then show ?case
  proof cases
    case 1
    with Suc.prems show ?thesis by simp
  next
    case 2
    then have "(2::real) powi (k + 1) \<le> 2 powi 0"
      by (intro power_int_increasing) simp_all
    with Suc.prems(2) have x1: "x < 1" by simp
    have a: "2 powi (k + 1) \<le> 2 * x"
      using Suc.prems(1) by (simp add: power_int_add)
    have b: "2 * x < 2 powi (k + 1 + 1)"
      using Suc.prems(2) by (simp add: power_int_add)
    have c: "nat \<bar>k + 1\<bar> \<le> n" using 2 Suc.prems(3) by simp
    from Suc.IH [OF a b c] x1 show ?thesis by simp
  next
    case 3
    then have "(2::real) powi 1 \<le> 2 powi k"
      by (intro power_int_increasing) simp_all
    with Suc.prems(1) have x2: "2 \<le> x" by simp
    have a: "2 powi (k - 1) \<le> x / 2"
      using Suc.prems(1) by (simp add: power_int_diff)
    have b: "x / 2 < 2 powi (k - 1 + 1)"
      using Suc.prems(2) by (simp add: power_int_add)
    have c: "nat \<bar>k - 1\<bar> \<le> n" using 3 Suc.prems(3) by simp
    from Suc.IH [OF a b c] x2 show ?thesis by simp
  qed
qed

text \<open>
  The rounding, computed: for a number with \<open>2\<^sup>5\<^sup>2 \<le> \<bar>x\<bar> * 2\<^sup>n < 2\<^sup>5\<^sup>3\<close> the double is
  the nearest multiple of \<open>2\<^sup>-\<^sup>n\<close>.
\<close>

lemma round_double_eval:
  fixes x :: real and n :: nat
  assumes n: "n \<le> 1074" and lo: "2 ^ 52 \<le> \<bar>x\<bar> * 2 ^ n" and hi: "\<bar>x\<bar> * 2 ^ n < 2 ^ 53"
  shows "round_double x = real_of_int (round_even (x * 2 ^ n)) / 2 ^ n"
proof -
  have x0: "x \<noteq> 0" using lo by auto
  then have pos: "0 < \<bar>x\<bar>" by simp
  let ?k = "52 - int n"
  have pw: "(2::real) powi (52 - int n) = 2 ^ 52 / 2 ^ n"
    by (simp add: power_int_diff)
  have pw1: "(2::real) powi (52 - int n + 1) = 2 ^ 53 / 2 ^ n"
    by (simp add: power_int_diff power_int_add)
  have l: "2 powi ?k \<le> \<bar>x\<bar>"
    unfolding pw using lo by (simp add: field_simps)
  have h: "\<bar>x\<bar> < 2 powi (?k + 1)"
    unfolding pw1 using hi by (simp add: field_simps)
  have "nat \<bar>?k\<bar> \<le> 2200" using n by simp
  from binade_eq [OF l h this] have fl: "binade 2200 \<bar>x\<bar> = ?k" .
  have e: "max (binade 2200 \<bar>x\<bar>) (- 1022) - 52 = - int n"
    unfolding fl using n by simp
  have p2: "(2::real) powi (- int n) = 1 / 2 ^ n" by (simp add: power_int_minus_divide)
  show ?thesis
    unfolding round_double_def using x0 by (simp add: e Let_def p2)
qed































text \<open>
  A time step above zero whose product with 1000 is lost in the sum: with
  \<open>mujoco_time = 1000\<close> and the time step \<open>2\<^sup>-\<^sup>6\<^sup>0\<close> the sum is 1000 again, and the loop
  does not end.
\<close>

lemma tiny_step_never_ends:
  "stepping_loop fuel double_ops example_api (1 / 2 ^ 60) 1001
     ((running_manager True)\<lparr>mujoco_time := 1000\<rparr>) = None"
proof (rule stepping_loop_stuck)
  show "engine_ok ((running_manager True)\<lparr>mujoco_time := 1000\<rparr>)"
    by (simp add: engine_ok_def running_manager_def new_manager_def)
  show "mujoco_time ((running_manager True)\<lparr>mujoco_time := 1000\<rparr>) < 1001"
    by simp
  have p: "fmul double_ops (1 / 2 ^ 60) 1000 = 1000 / 2 ^ 60"
    unfolding double_ops_def float_ops.simps
    by (subst round_double_eval [where n = 103]) (simp_all add: round_even_def Let_def)
  have s: "fadd double_ops 1000 (1000 / 2 ^ 60) = 1000"
    unfolding double_ops_def float_ops.simps
    by (subst round_double_eval [where n = 43]) (simp_all add: round_even_def Let_def)
  have t: "mujoco_time ((running_manager True)\<lparr>mujoco_time := 1000\<rparr>) = 1000"
    by simp
  show "fadd double_ops (mujoco_time ((running_manager True)\<lparr>mujoco_time := 1000\<rparr>))
          (fmul double_ops (1 / 2 ^ 60) 1000) =
        mujoco_time ((running_manager True)\<lparr>mujoco_time := 1000\<rparr>)"
    unfolding t p by (rule s)
qed










lemma reset_data_forces_clear:
  assumes e: "engine_keeps_forces papi" and r: "reset_data papi m = Inr m'"
  shows "forces_clear m'"
proof (cases "isOldAPI m")
  case True
  with r have "isOldAPI m'"
    by (auto simp: reset_data_def split: option.splits prod.splits)
  then show ?thesis by (simp add: forces_clear_def)
next
  case False
  with r obtain hs s where
    m': "m' = m\<lparr>simulation := Some (hs, simulation_forward papi (simulation_resetData papi s))\<rparr>"
    by (auto simp: reset_data_def split: option.splits)
  from e have "no_force (qfrc_applied (simulation_forward papi (simulation_resetData papi s)))"
    by (simp add: engine_keeps_forces_def)
  then show ?thesis by (simp add: forces_clear_def m')
qed


lemma then_do_Inr: "then_do r f = Inr y \<Longrightarrow> \<exists>x. r = Inr x \<and> f x = Inr y"
  by (cases r) (simp_all add: then_do_def)

lemma finish_load_forces_clear:
  assumes e: "engine_keeps_forces papi" and r: "finish_load papi env w = Inr w'"
  shows "forces_clear (mgr w')"
proof -
  from r obtain m1 where d: "reset_data papi (mgr w) = Inr m1"
    and w': "mgr w' = m1\<lparr>isLoaded := True, paused := True\<rparr> \<or>
             mgr w' = m1\<lparr>isLoaded := True, paused := True,
                          dragStateManager := Some (env_drag env)\<rparr>"
    by (auto simp: finish_load_def Let_def split: if_splits sum.splits option.splits)
  from reset_data_forces_clear [OF e d] w' show ?thesis
    by (auto simp: forces_clear_def)
qed

lemma loadScene_forces_clear:
  assumes e: "engine_keeps_forces papi" and r: "loadScene papi env original w = Inr w'"
  shows "forces_clear (mgr w')"
proof -
  from r obtain w0 where "then_do (clearScene w0) (\<lambda>w1.
     then_do (stage_files env original w1) (\<lambda>w2.
     then_do (load_model env w2) (\<lambda>w3.
     then_do (createThreeScene env w3) (\<lambda>w4.
     finish_load papi env w4)))) = Inr w'"
    unfolding loadScene_def by (blast dest: then_do_Inr)
  then obtain w1 where "then_do (stage_files env original w1) (\<lambda>w2.
     then_do (load_model env w2) (\<lambda>w3.
     then_do (createThreeScene env w3) (\<lambda>w4.
     finish_load papi env w4))) = Inr w'"
    by (blast dest: then_do_Inr)
  then obtain w2 where "then_do (load_model env w2) (\<lambda>w3.
     then_do (createThreeScene env w3) (\<lambda>w4.
     finish_load papi env w4)) = Inr w'"
    by (blast dest: then_do_Inr)
  then obtain w3 where "then_do (createThreeScene env w3) (\<lambda>w4.
     finish_load papi env w4) = Inr w'"
    by (blast dest: then_do_Inr)
  then obtain w4 where "finish_load papi env w4 = Inr w'"
    by (blast dest: then_do_Inr)
  from finish_load_forces_clear [OF e this] show ?thesis .
qed




section \<open>Properties of load and unload\<close>

lemma remove_entries_empty:
  "removeDirectory n = (case n of FsFile \<Rightarrow> Some FsFile | FsDir es \<Rightarrow> None)"
  "remove_entries es = []"
  by (induction n and es rule: removeDirectory_remove_entries.induct) auto

lemma inv_cong:
  "shape (mgr w') = shape (mgr w) \<Longrightarrow> live w' = live w \<Longrightarrow> next_handle w' = next_handle w \<Longrightarrow>
   inv w' = inv w"
  by (simp add: inv_def)

lemma invD:
  assumes "inv w"
  shows "isOldAPI (mgr w) \<Longrightarrow> simulation (mgr w) = None"
    and "\<not> isOldAPI (mgr w) \<Longrightarrow> data (mgr w) = None"
    and "data (mgr w) = Some (h, d) \<Longrightarrow> h \<in> live w"
    and "isOldAPI (mgr w) \<Longrightarrow> model (mgr w) = Some (h, mdl) \<Longrightarrow> h \<in> live w"
    and "simulation (mgr w) = Some (h, s) \<Longrightarrow> h \<in> live w"
    and "data (mgr w) = Some (h, d) \<Longrightarrow> model (mgr w) = Some (h', mdl) \<Longrightarrow> h \<noteq> h'"
proof -
  show "isOldAPI (mgr w) \<Longrightarrow> simulation (mgr w) = None"
    using assms by (cases "simulation (mgr w)") (auto simp: inv_def shape_def)
  show "\<not> isOldAPI (mgr w) \<Longrightarrow> data (mgr w) = None"
    using assms by (cases "data (mgr w)") (auto simp: inv_def shape_def)
  show "data (mgr w) = Some (h, d) \<Longrightarrow> h \<in> live w"
    using assms by (auto simp: inv_def shape_def)
  show "isOldAPI (mgr w) \<Longrightarrow> model (mgr w) = Some (h, mdl) \<Longrightarrow> h \<in> live w"
    using assms by (auto simp: inv_def shape_def)
  show "simulation (mgr w) = Some (h, s) \<Longrightarrow> h \<in> live w"
    using assms by (auto simp: inv_def shape_def)
  show "data (mgr w) = Some (h, d) \<Longrightarrow> model (mgr w) = Some (h', mdl) \<Longrightarrow> h \<noteq> h'"
    using assms by (auto simp: inv_def shape_def)
qed

lemma inv_released:
  assumes "inv w" "isOldAPI (mgr w') = isOldAPI (mgr w)" "mujoco (mgr w') = mujoco (mgr w)"
    "model (mgr w') = None" "data (mgr w') = None" "simulation (mgr w') = None"
    "live w' \<subseteq> live w" "next_handle w' = next_handle w"
  shows "inv w'"
  using assms by (auto simp: inv_def shape_def)

lemma release_engine_ok:
  assumes "inv w"
  shows "\<exists>w'. release_engine w = Inr w' \<and> inv w' \<and> engine_released w w'"
proof -
  have "\<exists>w'. release_engine w = Inr w' \<and> engine_released w w'"
  proof (cases "isOldAPI (mgr w)")
    case True
    note s = invD(1) [OF assms True]
    show ?thesis
    proof (cases "data (mgr w)")
      case None
      show ?thesis
      proof (cases "model (mgr w)")
        case None
        with True \<open>data (mgr w) = None\<close> s show ?thesis
          by (simp add: release_engine_def engine_released_def)
      next
        case (Some hm)
        obtain h mdl where hm: "hm = (h, mdl)" by (cases hm)
        with Some True assms have l: "h \<in> live w" by (auto dest: invD(4))
        show ?thesis
          using True None Some hm l s
          by (simp add: release_engine_def release_def engine_released_def)
      qed
    next
      case (Some hd)
      obtain h d where hd: "hd = (h, d)" by (cases hd)
      with Some assms have l: "h \<in> live w" by (auto dest: invD(3))
      show ?thesis
      proof (cases "model (mgr w)")
        case None
        show ?thesis
          using True None Some hd l s
          by (simp add: release_engine_def release_def engine_released_def)
      next
        case Some2: (Some hm)
        obtain h' mdl where hm: "hm = (h', mdl)" by (cases hm)
        with Some2 True assms have l': "h' \<in> live w" by (auto dest: invD(4))
        from Some2 hm Some hd assms have ne: "h \<noteq> h'" by (auto dest: invD(6))
        show ?thesis
          using True Some2 hm Some hd l l' ne s
          by (auto simp: release_engine_def release_def engine_released_def)
      qed
    qed
  next
    case False
    note d = invD(2) [OF assms False]
    show ?thesis
    proof (cases "simulation (mgr w)")
      case None
      show ?thesis
        using False None d by (simp add: release_engine_def engine_released_def)
    next
      case (Some hs)
      obtain h s where hs: "hs = (h, s)" by (cases hs)
      with Some assms have l: "h \<in> live w" by (auto dest: invD(5))
      show ?thesis
        using False Some hs l d
        by (auto simp: release_engine_def release_def engine_released_def)
    qed
  qed
  then obtain w' where r: "release_engine w = Inr w'" "engine_released w w'" by blast
  from r(2) have "inv w'"
    by (intro inv_released [OF assms]) (simp_all add: engine_released_def)
  with r show ?thesis by blast
qed


lemma clear_tail_shape:
  "shape (mgr (clear_drag (clear_three (clear_vfs w)))) = shape (mgr w)"
  "live (clear_drag (clear_three (clear_vfs w))) = live w"
  "next_handle (clear_drag (clear_three (clear_vfs w))) = next_handle w"
  by (auto simp: clear_drag_def clear_three_def clear_vfs_def shape_def set_parent_def Let_def
      split: option.splits)

lemma clear_tail_fields:
  "mujocoRoot (mgr (clear_drag (clear_three (clear_vfs w)))) = None"
  "dragStateManager (mgr (clear_drag (clear_three (clear_vfs w)))) = None"
  "(case mujoco (mgr (clear_drag (clear_three (clear_vfs w)))) of
      Some md \<Rightarrow> working md = [] | None \<Rightarrow> True)"
  by (auto simp: clear_drag_def clear_three_def clear_vfs_def set_parent_def Let_def
      remove_entries_empty split: option.splits)

lemma clearScene_ok:
  assumes "inv w"
  shows "\<exists>w'. clearScene w = Inr w' \<and> unloaded w' \<and> inv w' \<and>
           isOldAPI (mgr w') = isOldAPI (mgr w) \<and>
           map_option api (mujoco (mgr w')) = map_option api (mujoco (mgr w))"
proof -
  from release_engine_ok [OF assms] obtain w1 where
    r: "release_engine w = Inr w1" "inv w1" "engine_released w w1" by blast
  let ?w2 = "clear_drag (clear_three (clear_vfs w1))"
  let ?w' = "?w2\<lparr>mgr := (mgr ?w2)\<lparr>originalModel := None, bodies := (\<lambda>b. None),
                 isLoaded := False, isSimulating := False, paused := True\<rparr>\<rparr>"
  have c: "clearScene w = Inr ?w'"
    using r(1) by (simp add: clearScene_def Let_def)
  have sh: "shape (mgr ?w') = shape (mgr w1)"
    using clear_tail_shape(1) [of w1] by (simp add: shape_def)
  have i: "inv ?w'"
    using r(2) sh clear_tail_shape(2,3) [of w1] by (simp add: inv_def)
  have e: "model (mgr ?w') = None" "data (mgr ?w') = None" "simulation (mgr ?w') = None"
    using sh r(3) by (auto simp: shape_def engine_released_def)
  have u: "unloaded ?w'"
    using e clear_tail_fields [of w1] by (simp add: unloaded_def)
  have k: "isOldAPI (mgr ?w') = isOldAPI (mgr w)"
    "map_option api (mujoco (mgr ?w')) = map_option api (mujoco (mgr w))"
    using sh r(3) by (auto simp: shape_def engine_released_def)
  from c u i k show ?thesis by blast
qed


lemma set_visible_obs:
  "mgr (set_visible j v w) = mgr w" "live (set_visible j v w) = live w"
  "next_handle (set_visible j v w) = next_handle w" "next_obj (set_visible j v w) = next_obj w"
  "app_currentModel (set_visible j v w) = app_currentModel w"
  "app_currentMJCFFile (set_visible j v w) = app_currentMJCFFile w"
  "app_currentMJCFModel (set_visible j v w) = app_currentMJCFModel w"
  "sm_currentModel (set_visible j v w) = sm_currentModel w"
  "sm_dragControls (set_visible j v w) = sm_dragControls w"
  "is_visible (set_visible j v w) i = (if i = j then v else is_visible w i)"
  by (simp_all add: set_visible_def is_visible_def)

lemma set_parent_obs:
  "mgr (set_parent j p w) = mgr w" "live (set_parent j p w) = live w"
  "next_handle (set_parent j p w) = next_handle w" "next_obj (set_parent j p w) = next_obj w"
  "app_currentModel (set_parent j p w) = app_currentModel w"
  "app_currentMJCFFile (set_parent j p w) = app_currentMJCFFile w"
  "app_currentMJCFModel (set_parent j p w) = app_currentMJCFModel w"
  "sm_currentModel (set_parent j p w) = sm_currentModel w"
  "sm_dragControls (set_parent j p w) = sm_dragControls w"
  "is_visible (set_parent j p w) i = is_visible w i"
  by (simp_all add: set_parent_def is_visible_def)

lemma set_running_obs:
  "shape (mgr (set_running b w)) = shape (mgr w)" "live (set_running b w) = live w"
  "next_handle (set_running b w) = next_handle w" "next_obj (set_running b w) = next_obj w"
  "paused (mgr (set_running b w)) = (\<not> b)"
  "isLoaded (mgr (set_running b w)) = isLoaded (mgr w)"
  "mujocoRoot (mgr (set_running b w)) = mujocoRoot (mgr w)"
  "app_currentModel (set_running b w) = app_currentModel w"
  "app_currentMJCFFile (set_running b w) = app_currentMJCFFile w"
  "app_currentMJCFModel (set_running b w) = app_currentMJCFModel w"
  "sm_currentModel (set_running b w) = sm_currentModel w"
  "sm_dragControls (set_running b w) = sm_dragControls w"
  "is_visible (set_running b w) i = is_visible w i"
  by (simp_all add: set_running_def shape_def is_visible_def)

lemma show_mujoco_root_obs:
  "mgr (show_mujoco_root w) = mgr w" "live (show_mujoco_root w) = live w"
  "next_handle (show_mujoco_root w) = next_handle w"
  "next_obj (show_mujoco_root w) = next_obj w"
  "app_currentModel (show_mujoco_root w) = app_currentModel w"
  "app_currentMJCFFile (show_mujoco_root w) = app_currentMJCFFile w"
  "app_currentMJCFModel (show_mujoco_root w) = app_currentMJCFModel w"
  "sm_currentModel (show_mujoco_root w) = sm_currentModel w"
  "sm_dragControls (show_mujoco_root w) = sm_dragControls w"
  "is_visible (show_mujoco_root w) i =
     (if mujocoRoot (mgr w) = Some i then True else is_visible w i)"
  by (simp_all add: show_mujoco_root_def set_visible_obs set_parent_obs split: option.split)

lemma hide_mujoco_root_obs:
  "mgr (hide_mujoco_root w) = mgr w" "live (hide_mujoco_root w) = live w"
  "next_handle (hide_mujoco_root w) = next_handle w"
  "next_obj (hide_mujoco_root w) = next_obj w"
  "app_currentModel (hide_mujoco_root w) = app_currentModel w"
  "app_currentMJCFFile (hide_mujoco_root w) = app_currentMJCFFile w"
  "app_currentMJCFModel (hide_mujoco_root w) = app_currentMJCFModel w"
  "sm_currentModel (hide_mujoco_root w) = sm_currentModel w"
  "sm_dragControls (hide_mujoco_root w) = sm_dragControls w"
  "is_visible (hide_mujoco_root w) i =
     (if mujocoRoot (mgr w) = Some i then False else is_visible w i)"
  by (simp_all add: hide_mujoco_root_def set_visible_obs split: option.split)

lemma hide_original_model_obs:
  "mgr (hide_original_model w) = mgr w" "live (hide_original_model w) = live w"
  "next_handle (hide_original_model w) = next_handle w"
  "next_obj (hide_original_model w) = next_obj w"
  "app_currentModel (hide_original_model w) = app_currentModel w"
  "app_currentMJCFFile (hide_original_model w) = app_currentMJCFFile w"
  "app_currentMJCFModel (hide_original_model w) = app_currentMJCFModel w"
  "sm_currentModel (hide_original_model w) = sm_currentModel w"
  "sm_dragControls (hide_original_model w) = sm_dragControls w"
  "is_visible (hide_original_model w) i =
     (if threeObject_of (sm_currentModel w) = Some i then False else is_visible w i)"
  by (simp_all add: hide_original_model_def set_visible_obs split: option.split)

lemma set_original_visible_obs:
  "mgr (set_original_visible v w) = mgr w" "live (set_original_visible v w) = live w"
  "next_handle (set_original_visible v w) = next_handle w"
  "next_obj (set_original_visible v w) = next_obj w"
  "app_currentModel (set_original_visible v w) = app_currentModel w"
  "app_currentMJCFFile (set_original_visible v w) = app_currentMJCFFile w"
  "app_currentMJCFModel (set_original_visible v w) = app_currentMJCFModel w"
  "sm_currentModel (set_original_visible v w) = sm_currentModel w"
  "sm_dragControls (set_original_visible v w) = sm_dragControls w"
  "is_visible (set_original_visible v w) i =
     (if threeObject_of (app_currentModel w) = Some i then v else is_visible w i)"
  by (simp_all add: set_original_visible_def set_visible_obs split: option.split)

lemma set_drag_enabled_obs:
  "shape (mgr (set_drag_enabled b w)) = shape (mgr w)" "live (set_drag_enabled b w) = live w"
  "next_handle (set_drag_enabled b w) = next_handle w"
  "next_obj (set_drag_enabled b w) = next_obj w"
  "paused (mgr (set_drag_enabled b w)) = paused (mgr w)"
  "isLoaded (mgr (set_drag_enabled b w)) = isLoaded (mgr w)"
  "mujocoRoot (mgr (set_drag_enabled b w)) = mujocoRoot (mgr w)"
  "app_currentModel (set_drag_enabled b w) = app_currentModel w"
  "app_currentMJCFFile (set_drag_enabled b w) = app_currentMJCFFile w"
  "app_currentMJCFModel (set_drag_enabled b w) = app_currentMJCFModel w"
  "sm_currentModel (set_drag_enabled b w) = sm_currentModel w"
  "sm_dragControls (set_drag_enabled b w) = sm_dragControls w"
  "is_visible (set_drag_enabled b w) i = is_visible w i"
  by (simp_all add: set_drag_enabled_def shape_def is_visible_def split: option.split)

lemma set_dragControls_obs:
  "mgr (set_dragControls b w) = mgr w" "live (set_dragControls b w) = live w"
  "next_handle (set_dragControls b w) = next_handle w"
  "next_obj (set_dragControls b w) = next_obj w"
  "app_currentModel (set_dragControls b w) = app_currentModel w"
  "app_currentMJCFFile (set_dragControls b w) = app_currentMJCFFile w"
  "app_currentMJCFModel (set_dragControls b w) = app_currentMJCFModel w"
  "sm_currentModel (set_dragControls b w) = sm_currentModel w"
  "sm_dragControls (set_dragControls b w) = map_option (\<lambda>enabled. b) (sm_dragControls w)"
  "is_visible (set_dragControls b w) i = is_visible w i"
  by (simp_all add: set_dragControls_def is_visible_def split: option.split)

lemmas step_obs =
  set_visible_obs set_running_obs show_mujoco_root_obs hide_mujoco_root_obs
  hide_original_model_obs set_original_visible_obs set_drag_enabled_obs set_dragControls_obs

lemma startSimulation_keeps:
  "shape (mgr (startSimulation w)) = shape (mgr w)"
  "live (startSimulation w) = live w"
  "next_handle (startSimulation w) = next_handle w"
  by (simp_all add: startSimulation_def step_obs)

lemma pauseSimulation_keeps:
  "shape (mgr (pauseSimulation w)) = shape (mgr w)"
  "live (pauseSimulation w) = live w"
  "next_handle (pauseSimulation w) = next_handle w"
  by (simp_all add: pauseSimulation_def step_obs)

lemma toggleSimulation_keeps:
  "shape (mgr (fst (toggleSimulation w))) = shape (mgr w)"
  "live (fst (toggleSimulation w)) = live w"
  "next_handle (fst (toggleSimulation w)) = next_handle w"
  by (simp_all add: toggleSimulation_def Let_def startSimulation_keeps pauseSimulation_keeps)

lemma pause_effects:
  "paused (mgr (pauseSimulation w))"
  "isLoaded (mgr (pauseSimulation w)) = isLoaded (mgr w)"
  "mujocoRoot (mgr (pauseSimulation w)) = mujocoRoot (mgr w)"
  "next_obj (pauseSimulation w) = next_obj w"
  "app_currentModel (pauseSimulation w) = app_currentModel w"
  "app_currentMJCFFile (pauseSimulation w) = app_currentMJCFFile w"
  "app_currentMJCFModel (pauseSimulation w) = app_currentMJCFModel w"
  "sm_currentModel (pauseSimulation w) = sm_currentModel w"
  "sm_dragControls (pauseSimulation w) = map_option (\<lambda>enabled. True) (sm_dragControls w)"
  "is_visible (pauseSimulation w) i =
     (if mujocoRoot (mgr w) = Some i then False else is_visible w i)"
  by (simp_all add: pauseSimulation_def step_obs)

lemma start_effects:
  "\<not> paused (mgr (startSimulation w))"
  "isLoaded (mgr (startSimulation w)) = isLoaded (mgr w)"
  "mujocoRoot (mgr (startSimulation w)) = mujocoRoot (mgr w)"
  "next_obj (startSimulation w) = next_obj w"
  "app_currentModel (startSimulation w) = app_currentModel w"
  "app_currentMJCFFile (startSimulation w) = app_currentMJCFFile w"
  "app_currentMJCFModel (startSimulation w) = app_currentMJCFModel w"
  "sm_currentModel (startSimulation w) = sm_currentModel w"
  "sm_dragControls (startSimulation w) = map_option (\<lambda>enabled. False) (sm_dragControls w)"
  "is_visible (startSimulation w) i =
     (if threeObject_of (sm_currentModel w) = Some i then False
      else if mujocoRoot (mgr w) = Some i then True else is_visible w i)"
  by (simp_all add: startSimulation_def step_obs)

lemma sync_bodies_shape: "sync_bodies m = Inr m' \<Longrightarrow> shape m' = shape m"
  by (auto simp: sync_bodies_def shape_def split: option.splits prod.splits)

lemma clear_applied_forces_shape: "clear_applied_forces m = Inr m' \<Longrightarrow> shape m' = shape m"
  by (auto simp: clear_applied_forces_def shape_def split: if_splits option.splits)

lemma apply_drag_force_shape:
  assumes "apply_drag_force ops papi m = Inr m'"
  shows "shape m' = shape m"
proof (cases "dragging m")
  case None
  with assms show ?thesis by (simp add: apply_drag_force_def)
next
  case (Some b)
  from assms Some obtain m1 dsm h mdl where
    s: "sync_bodies m = Inr m1" "dragStateManager m = Some dsm" "model m = Some (h, mdl)"
    by (auto simp: apply_drag_force_def split: sum.splits option.splits)
  note sh = sync_bodies_shape [OF s(1)]
  let ?m2 = "m1\<lparr>dragStateManager := Some (drag_update papi dsm)\<rparr>"
  have sh2: "shape ?m2 = shape m" using sh by (simp add: shape_def)
  show ?thesis
  proof (cases "isOldAPI m")
    case True
    with assms Some s obtain hdl d q where
      "data ?m2 = Some (hdl, d)" "m' = ?m2\<lparr>data := Some (hdl, d\<lparr>qfrc_applied := q\<rparr>)\<rparr>"
      by (auto simp: apply_drag_force_def Let_def split: option.splits)
    with sh2 show ?thesis by (auto simp: shape_def)
  next
    case False
    with assms Some s have "m' = ?m2"
      by (auto simp: apply_drag_force_def Let_def)
    with sh2 show ?thesis by simp
  qed
qed

lemma physics_step_shape: "physics_step papi m = Inr m' \<Longrightarrow> shape m' = shape m"
  by (auto simp: physics_step_def shape_def split: if_splits option.splits)

lemma loop_body_shape:
  assumes "loop_body ops papi timestep m = Inr m'"
  shows "shape m' = shape m"
proof -
  from assms obtain m1 m2 m3 where
    s: "clear_applied_forces m = Inr m1" "apply_drag_force ops papi m1 = Inr m2"
       "physics_step papi m2 = Inr m3" "m' = advance_time ops timestep m3"
    by (auto simp: loop_body_def before_step_def split: sum.splits)
  have "shape m' = shape m3" using s(4) by (simp add: advance_time_def shape_def)
  with clear_applied_forces_shape [OF s(1)] apply_drag_force_shape [OF s(2)]
    physics_step_shape [OF s(3)]
  show ?thesis by simp
qed

lemma stepping_loop_shape:
  "stepping_loop fuel ops papi timestep timeMS m = Some (Inr m') \<Longrightarrow> shape m' = shape m"
proof (induction fuel arbitrary: m)
  case 0
  then show ?case by (auto split: if_splits)
next
  case (Suc fuel)
  show ?case
  proof (cases "mujoco_time m < timeMS")
    case True
    with Suc.prems obtain m1 where
      b: "loop_body ops papi timestep m = Inr m1"
         "stepping_loop fuel ops papi timestep timeMS m1 = Some (Inr m')"
      by (auto split: sum.splits)
    from Suc.IH [OF b(2)] loop_body_shape [OF b(1)] show ?thesis by simp
  next
    case False
    with Suc.prems show ?thesis by simp
  qed
qed

lemma update_shape:
  assumes "update fuel ops papi timeMS m = Some (Inr m')"
  shows "shape m' = shape m"
proof (cases "\<not> isLoaded m \<or> model m = None")
  case True
  with assms show ?thesis by (auto simp: update_def)
next
  case False
  then obtain h mdl where mdl: "model m = Some (h, mdl)" and l: "isLoaded m" by auto
  show ?thesis
  proof (cases "paused m")
    case True
    with assms l mdl have "sync_bodies m = Inr m'" by (simp add: update_def)
    then show ?thesis by (rule sync_bodies_shape)
  next
    case False
    let ?m1 = "if 35 < fsub ops timeMS (mujoco_time m) then m\<lparr>mujoco_time := timeMS\<rparr> else m"
    from assms l mdl False obtain m2 where
      s: "stepping_loop fuel ops papi (opt_timestep mdl) timeMS ?m1 = Some (Inr m2)"
         "sync_bodies m2 = Inr m'"
      by (auto simp: update_def Let_def split: option.splits sum.splits if_splits)
    have "shape ?m1 = shape m" by (simp add: shape_def)
    with stepping_loop_shape [OF s(1)] sync_bodies_shape [OF s(2)] show ?thesis by simp
  qed
qed

lemma reset_data_shape: "reset_data papi m = Inr m' \<Longrightarrow> shape m' = shape m"
  by (auto simp: reset_data_def shape_def split: if_splits option.splits)

lemma reset_shape: "reset papi m = Inr m' \<Longrightarrow> shape m' = shape m"
  by (auto simp: reset_def shape_def split: if_splits sum.splits dest!: reset_data_shape)


lemma step_valid_then:
  assumes "step_valid E P f Q" "step_valid E Q g R"
  shows "step_valid E P (\<lambda>w. then_do (f w) g) R"
  using assms
  by (auto simp: step_valid_def then_do_def split: sum.splits prod.splits)

lemma step_validI:
  assumes "\<And>w w'. P w \<Longrightarrow> f w = Inr w' \<Longrightarrow> Q w'"
    and "\<And>w e w'. P w \<Longrightarrow> f w = Inl (e, w') \<Longrightarrow> E w'"
  shows "step_valid E P f Q"
  using assms by (auto simp: step_valid_def split: sum.splits prod.splits)

lemma init_module_valid: "step_valid inv inv (init_module env) inv"
proof (rule step_validI)
  fix w w' assume i: "inv w" and r: "init_module env w = Inr w'"
  show "inv w'"
  proof (cases "mujoco (mgr w)")
    case None
    with i have "\<not> isOldAPI (mgr w)" "simulation (mgr w) = None"
      by (auto simp: inv_def shape_def)
    with i None r show ?thesis
      by (auto simp: init_module_def inv_def shape_def split: option.splits)
  next
    case (Some md)
    with i r show ?thesis by (simp add: init_module_def)
  qed
next
  fix w e w' assume "inv w" and "init_module env w = Inl (e, w')"
  then show "inv w'" by (auto simp: init_module_def split: option.splits)
qed

lemma clearScene_valid: "step_valid inv inv clearScene (\<lambda>w. inv w \<and> unloaded w)"
proof (rule step_validI)
  fix w w' assume "inv w" and r: "clearScene w = Inr w'"
  with clearScene_ok [of w] show "inv w' \<and> unloaded w'" by auto
next
  fix w e w' assume "inv w" and r: "clearScene w = Inl (e, w')"
  with clearScene_ok [of w] show "inv w'" by auto
qed

lemma stage_files_valid:
  "step_valid inv (\<lambda>w. inv w \<and> unloaded w) (stage_files env original) engine_empty"
proof (rule step_validI)
  fix w w' assume p: "inv w \<and> unloaded w" and r: "stage_files env original w = Inr w'"
  then show "engine_empty w'"
    by (auto simp: stage_files_def Let_def engine_empty_def inv_def shape_def unloaded_def
        split: if_splits option.splits)
next
  fix w e w' assume p: "inv w \<and> unloaded w" and r: "stage_files env original w = Inl (e, w')"
  then show "inv w'"
    by (auto simp: stage_files_def Let_def inv_def shape_def
        split: if_splits option.splits)
qed

lemma load_model_inv:
  assumes i: "inv w" and e: "model (mgr w) = None" "data (mgr w) = None" "simulation (mgr w) = None"
  shows "(load_model env w = Inr w' \<longrightarrow> inv w') \<and> (load_model env w = Inl (er, w') \<longrightarrow> inv w')"
proof -
  have b: "live w \<subseteq> {..<next_handle w}" using i by (simp add: inv_def shape_def)
  have b1: "insert (next_handle w) (live w) \<subseteq> {..<Suc (next_handle w)}"
    using b by auto
  have b2: "insert (Suc (next_handle w)) (insert (next_handle w) (live w))
            \<subseteq> {..<Suc (Suc (next_handle w))}"
    using b by auto
  have b3: "insert (Suc (Suc (next_handle w)))
              (insert (Suc (next_handle w)) (insert (next_handle w) (live w)))
            \<subseteq> {..<Suc (Suc (Suc (next_handle w)))}"
    using b by auto
  have old: "isOldAPI (mgr w) \<Longrightarrow> map_option api (mujoco (mgr w)) = Some HasMjModel"
    using i by (simp add: inv_def shape_def)
  show ?thesis
  proof (cases "map_option api (mujoco (mgr w))")
    case None
    with i show ?thesis by (auto simp: load_model_def)
  next
    case (Some k)
    show ?thesis
    proof (cases k)
      case HasModel
      with Some old have no: "\<not> isOldAPI (mgr w)" by auto
      have k: "map_option api (mujoco (mgr w)) = Some HasModel" using Some HasModel by simp
      have u: "load_model env w =
          (if env_throws env = Some AtCompile then Inl (EngineError, w)
           else if env_throws env = Some AtState then
             Inl (EngineError, w\<lparr>live := insert (next_handle w) (live w),
                    next_handle := Suc (next_handle w),
                    mgr := (mgr w)\<lparr>model := Some (next_handle w, env_compiled env)\<rparr>\<rparr>)
           else if env_throws env = Some AtSimulation then
             Inl (EngineError, w\<lparr>live := insert (Suc (next_handle w)) (insert (next_handle w) (live w)),
                    next_handle := Suc (Suc (next_handle w)),
                    mgr := (mgr w)\<lparr>model := Some (next_handle w, env_compiled env),
                                   state := Some (Suc (next_handle w))\<rparr>\<rparr>)
           else
             Inr (w\<lparr>live := insert (Suc (Suc (next_handle w)))
                      (insert (Suc (next_handle w)) (insert (next_handle w) (live w))),
                    next_handle := Suc (Suc (Suc (next_handle w))),
                    mgr := (mgr w)\<lparr>model := Some (next_handle w, env_compiled env),
                                   state := Some (Suc (next_handle w)),
                                   simulation := Some (Suc (Suc (next_handle w)), env_data env)\<rparr>\<rparr>))"
        unfolding load_model_def k by (simp add: new_native_def Let_def)
      show ?thesis
        unfolding u using no e k b b1 b2 b3
        by (auto simp: inv_def shape_def)
    next
      case HasMjModel
      have k: "map_option api (mujoco (mgr w)) = Some HasMjModel" using Some HasMjModel by simp
      have u: "load_model env w =
          (if env_throws env = Some AtCompile then Inl (EngineError, w)
           else if env_throws env = Some AtData then
             Inl (EngineError, w\<lparr>live := insert (next_handle w) (live w),
                    next_handle := Suc (next_handle w),
                    mgr := (mgr w)\<lparr>model := Some (next_handle w, env_compiled env)\<rparr>\<rparr>)
           else
             Inr (w\<lparr>live := insert (Suc (next_handle w)) (insert (next_handle w) (live w)),
                    next_handle := Suc (Suc (next_handle w)),
                    mgr := (mgr w)\<lparr>model := Some (next_handle w, env_compiled env),
                                   data := Some (Suc (next_handle w), env_data env),
                                   isOldAPI := True\<rparr>\<rparr>))"
        unfolding load_model_def k by (simp add: new_native_def Let_def)
      show ?thesis
        unfolding u using e k b b1 b2 old
        by (auto simp: inv_def shape_def)
    next
      case HasNeither
      with Some i show ?thesis by (auto simp: load_model_def)
    qed
  qed
qed

lemma load_model_valid: "step_valid inv engine_empty (load_model env) inv"
proof (rule step_validI)
  fix w w' assume "engine_empty w" and "load_model env w = Inr w'"
  with load_model_inv [of w env w'] show "inv w'" by (auto simp: engine_empty_def)
next
  fix w e w' assume "engine_empty w" and "load_model env w = Inl (e, w')"
  with load_model_inv [of w env w' e] show "inv w'" by (auto simp: engine_empty_def)
qed


lemma new_root_keeps:
  "shape (mgr (new_root w)) = shape (mgr w)" "live (new_root w) = live w"
  "next_handle (new_root w) = next_handle w"
  by (simp_all add: new_root_def new_Group_def set_visible_def shape_def)

lemma createThreeScene_keeps:
  assumes "createThreeScene env w = Inr w' \<or> createThreeScene env w = Inl (er, w')"
  shows "shape (mgr w') = shape (mgr w) \<and> live w' = live w \<and> next_handle w' = next_handle w"
proof (cases "env_throws env = Some AtCreateScene")
  case True
  then have "createThreeScene env w = Inl (EngineError, new_root w)"
    by (simp add: createThreeScene_def Let_def)
  with assms have "w' = new_root w" by simp
  then show ?thesis using new_root_keeps [of w] by simp
next
  case False
  show ?thesis
  proof (cases "model (mgr (new_root w))")
    case None
    with False have "createThreeScene env w = Inl (TypeError, new_root w)"
      by (simp add: createThreeScene_def Let_def)
    with assms have "w' = new_root w" by simp
    then show ?thesis using new_root_keeps [of w] by simp
  next
    case (Some hm)
    obtain h mdl where hm: "hm = (h, mdl)" by (cases hm)
    let ?w3 = "(new_root w)\<lparr>mgr := (mgr (new_root w))\<lparr>bodies := body_groups mdl\<rparr>\<rparr>"
    from False Some hm have "createThreeScene env w = Inr ?w3"
      by (simp add: createThreeScene_def Let_def)
    with assms have w': "w' = ?w3" by simp
    have "shape (mgr ?w3) = shape (mgr (new_root w))" by (simp add: shape_def)
    with w' new_root_keeps [of w] show ?thesis by simp
  qed
qed

lemma createThreeScene_valid: "step_valid inv inv (createThreeScene env) inv"
proof (rule step_validI)
  fix w w' assume "inv w" and "createThreeScene env w = Inr w'"
  with createThreeScene_keeps [of env w w'] show "inv w'" by (simp add: inv_def)
next
  fix w e w' assume "inv w" and "createThreeScene env w = Inl (e, w')"
  with createThreeScene_keeps [of env w w' e] show "inv w'" by (simp add: inv_def)
qed


lemma finish_load_keeps:
  assumes "finish_load papi env w = Inr w' \<or> finish_load papi env w = Inl (er, w')"
  shows "shape (mgr w') = shape (mgr w) \<and> live w' = live w \<and> next_handle w' = next_handle w"
proof (cases "env_throws env = Some AtReset")
  case True
  then have "finish_load papi env w = Inl (EngineError, w)" by (simp add: finish_load_def)
  with assms show ?thesis by simp
next
  case False
  show ?thesis
  proof (cases "reset_data papi (mgr w)")
    case (Inl e)
    with False have "finish_load papi env w = Inl (e, w)" by (simp add: finish_load_def)
    with assms show ?thesis by simp
  next
    case (Inr m1)
    from reset_data_shape [OF Inr] have sh: "shape m1 = shape (mgr w)" .
    let ?w2 = "w\<lparr>mgr := m1\<lparr>isLoaded := True, paused := True\<rparr>\<rparr>"
    have k2: "shape (mgr ?w2) = shape (mgr w)" "live ?w2 = live w" "next_handle ?w2 = next_handle w"
      using sh by (simp_all add: shape_def)
    let ?w3 = "?w2\<lparr>mgr := (mgr ?w2)\<lparr>dragStateManager := Some (env_drag env)\<rparr>\<rparr>"
    have k3: "shape (mgr ?w3) = shape (mgr w)" "live ?w3 = live w" "next_handle ?w3 = next_handle w"
      using sh by (simp_all add: shape_def)
    have u: "finish_load papi env w =
        (case dragStateManager (mgr ?w2) of
           Some dsm \<Rightarrow> Inr ?w2
         | None \<Rightarrow> if env_throws env = Some AtDragManager then Inl (EngineError, ?w2)
                   else Inr ?w3)"
      using False Inr by (simp add: finish_load_def Let_def)
    have "w' = ?w2 \<or> w' = ?w3"
    proof (cases "dragStateManager (mgr ?w2)")
      case None
      with u assms show ?thesis by (cases "env_throws env = Some AtDragManager") auto
    next
      case (Some dsm)
      with u assms show ?thesis by auto
    qed
    with k2 k3 show ?thesis by auto
  qed
qed


lemma finish_load_valid: "step_valid inv inv (finish_load papi env) inv"
proof (rule step_validI)
  fix w w' assume "inv w" and "finish_load papi env w = Inr w'"
  with finish_load_keeps [of papi env w w'] show "inv w'" by (simp add: inv_def)
next
  fix w e w' assume "inv w" and "finish_load papi env w = Inl (e, w')"
  with finish_load_keeps [of papi env w w' e] show "inv w'" by (simp add: inv_def)
qed

lemma loadScene_valid: "step_valid inv inv (loadScene papi env original) inv"
proof -
  have s5: "step_valid inv inv (\<lambda>w3. then_do (createThreeScene env w3) (finish_load papi env)) inv"
    by (rule step_valid_then [OF createThreeScene_valid finish_load_valid])
  have s4: "step_valid inv engine_empty (\<lambda>w2. then_do (load_model env w2)
      (\<lambda>w3. then_do (createThreeScene env w3) (finish_load papi env))) inv"
    by (rule step_valid_then [OF load_model_valid s5])
  have s3: "step_valid inv (\<lambda>w. inv w \<and> unloaded w) (\<lambda>w1. then_do (stage_files env original w1)
      (\<lambda>w2. then_do (load_model env w2)
      (\<lambda>w3. then_do (createThreeScene env w3) (finish_load papi env)))) inv"
    by (rule step_valid_then [OF stage_files_valid s4])
  have s2: "step_valid inv inv (\<lambda>w0. then_do (clearScene w0)
      (\<lambda>w1. then_do (stage_files env original w1)
      (\<lambda>w2. then_do (load_model env w2)
      (\<lambda>w3. then_do (createThreeScene env w3) (finish_load papi env))))) inv"
    by (rule step_valid_then [OF clearScene_valid s3])
  have s1: "step_valid inv inv (\<lambda>w. then_do (init_module env w)
      (\<lambda>w0. then_do (clearScene w0)
      (\<lambda>w1. then_do (stage_files env original w1)
      (\<lambda>w2. then_do (load_model env w2)
      (\<lambda>w3. then_do (createThreeScene env w3) (finish_load papi env)))))) inv"
    by (rule step_valid_then [OF init_module_valid s2])
  have "loadScene papi env original = (\<lambda>w. then_do (init_module env w)
      (\<lambda>w0. then_do (clearScene w0)
      (\<lambda>w1. then_do (stage_files env original w1)
      (\<lambda>w2. then_do (load_model env w2)
      (\<lambda>w3. then_do (createThreeScene env w3) (finish_load papi env))))))"
    by (rule ext) (simp add: loadScene_def)
  with s1 show ?thesis by simp
qed


lemma loadScene_inv:
  assumes "inv w"
  shows "loadScene papi env original w = Inr w' \<Longrightarrow> inv w'"
    and "loadScene papi env original w = Inl (er, w') \<Longrightarrow> inv w'"
proof -
  from loadScene_valid [of papi env original] assms
  have c: "case loadScene papi env original w of Inr w' \<Rightarrow> inv w' | Inl (e, w') \<Rightarrow> inv w'"
    unfolding step_valid_def by blast
  show "loadScene papi env original w = Inr w' \<Longrightarrow> inv w'" using c by simp
  show "loadScene papi env original w = Inl (er, w') \<Longrightarrow> inv w'" using c by simp
qed

lemma inv_at_start: "world_ok_at_start w \<Longrightarrow> inv w"
  by (simp add: world_ok_at_start_def inv_def shape_def new_manager_def)

lemma handler_inv:
  assumes "inv w"
  shows "inv (fst (handleMujocoToggleSimulate papi env w))"
proof -
  have keep: "inv (set_original_visible v w1)" if "inv w1" for v w1
    using that by (simp add: inv_def step_obs)
  have tog: "inv (fst (case toggleSimulation w of
             (w1, isSim) \<Rightarrow> (set_original_visible (\<not> isSim) w1, isSim)))"
  proof -
    obtain w1 isSim where t: "toggleSimulation w = (w1, isSim)" by (cases "toggleSimulation w")
    then have "w1 = fst (toggleSimulation w)" by simp
    with toggleSimulation_keeps [of w] assms have i1: "inv w1" by (simp add: inv_def)
    from keep [OF i1] t show ?thesis by simp
  qed
  show ?thesis
  proof (cases "\<not> isLoaded (mgr w) \<and> app_currentMJCFFile w \<noteq> None \<and> app_currentMJCFModel w \<noteq> None")
    case False
    then have "handleMujocoToggleSimulate papi env w = (case toggleSimulation w of
             (w1, isSim) \<Rightarrow> (set_original_visible (\<not> isSim) w1, isSim))"
      by (auto simp: handleMujocoToggleSimulate_def split: option.splits bool.splits)
    with tog show ?thesis by simp
  next
    case True
    then obtain fl mjcf where f: "app_currentMJCFFile w = Some fl"
      "app_currentMJCFModel w = Some mjcf" "\<not> isLoaded (mgr w)" by auto
    show ?thesis
    proof (cases "loadScene papi env mjcf w")
      case (Inl ew)
      obtain e w' where ew: "ew = (e, w')" by (cases ew)
      with Inl loadScene_inv(2) [OF assms] have "inv w'" by simp
      with Inl ew f show ?thesis by (simp add: handleMujocoToggleSimulate_def)
    next
      case (Inr w1)
      with loadScene_inv(1) [OF assms] have i1: "inv w1" by simp
      have "inv (startSimulation (set_original_visible False w1))"
        using keep [OF i1, of False] startSimulation_keeps [of "set_original_visible False w1"]
        by (simp add: inv_def)
      with Inr f show ?thesis by (simp add: handleMujocoToggleSimulate_def)
    qed
  qed
qed

lemma operation_inv:
  assumes "operation w w'" and i: "inv w"
  shows "inv w'"
  using assms(1)
proof cases
  case (op_load papi env original)
  with i show ?thesis by (auto dest: loadScene_inv(1))
next
  case (op_load_failed papi env original e)
  with i show ?thesis by (auto dest: loadScene_inv(2))
next
  case op_clear
  with clearScene_ok [OF i] show ?thesis by auto
next
  case op_start
  with startSimulation_keeps [of w] i show ?thesis by (simp add: inv_def)
next
  case op_pause
  with pauseSimulation_keeps [of w] i show ?thesis by (simp add: inv_def)
next
  case op_toggle
  with toggleSimulation_keeps [of w] i show ?thesis by (simp add: inv_def)
next
  case (op_update fuel ops papi timeMS m')
  from update_shape [OF op_update(2)] i op_update(1) show ?thesis by (simp add: inv_def)
next
  case (op_reset papi m')
  from reset_shape [OF op_reset(2)] i op_reset(1) show ?thesis by (simp add: inv_def)
next
  case (op_handler papi env)
  with i show ?thesis by (simp add: handler_inv)
qed

lemma operations_inv: "operation\<^sup>*\<^sup>* w w' \<Longrightarrow> inv w \<Longrightarrow> inv w'"
  by (induction rule: rtranclp_induct) (auto intro: operation_inv)

lemma reachable_inv: "reachable w \<Longrightarrow> inv w"
  by (auto simp: reachable_def intro: operations_inv inv_at_start)

text \<open>
  C4. From every state the program can be in (the start, and what loads, failed loads,
  unloads, start, pause, toggle, frame updates, resets and the toggle handler make of
  it), \<open>clearScene\<close> returns without throwing and leaves the unloaded state: no model,
  data, simulation object, root or drag manager, an empty \<open>/working\<close>, \<open>isLoaded\<close> and
  \<open>isSimulating\<close> false, \<open>paused\<close> true. A second \<open>clearScene\<close> right after does the
  same, and so does a \<open>clearScene\<close> in the state a failed load has left.
\<close>

theorem clearScene_from_any_state:
  "reachable w \<Longrightarrow>
   (\<exists>w'. clearScene w = Inr w' \<and> unloaded w' \<and>
      (\<exists>w''. clearScene w' = Inr w'' \<and> unloaded w'')) \<and>
   (loadScene papi env original w = Inl (e, wfl) \<longrightarrow>
      (\<exists>w'. clearScene wfl = Inr w' \<and> unloaded w'))"
proof -
  assume "reachable w"
  then have i: "inv w" by (rule reachable_inv)
  from clearScene_ok [OF i] obtain w' where
    1: "clearScene w = Inr w'" "unloaded w'" "inv w'" by blast
  from clearScene_ok [OF 1(3)] obtain w'' where
    2: "clearScene w' = Inr w''" "unloaded w''" by blast
  have 3: "\<exists>w'. clearScene wfl = Inr w' \<and> unloaded w'"
    if "loadScene papi env original w = Inl (e, wfl)"
  proof -
    from loadScene_inv(2) [OF i that] have "inv wfl" .
    from clearScene_ok [OF this] show ?thesis by blast
  qed
  from 1 2 3 show ?thesis by blast
qed

lemma start_world_reachable: "reachable start_world"
  unfolding reachable_def
  by (intro exI [of _ start_world]) (simp add: world_ok_at_start_def start_world_def)

lemma failed_load_example:
  "\<exists>wfl. loadScene example_api (example_env\<lparr>env_throws := Some AtData\<rparr>) new_UnifiedRobotModel
          start_world = Inl (EngineError, wfl) \<and>
        model (mgr wfl) = Some (0, example_model) \<and> \<not> isOldAPI (mgr wfl)"
  by (simp add: loadScene_def then_do_def init_module_def clearScene_def release_engine_def
      clear_vfs_def clear_three_def clear_drag_def stage_files_def load_model_def
      new_native_def start_world_def example_env_def new_manager_def Let_def)

theorem clearScene_from_any_state_witness:
  "(\<exists>w'. clearScene start_world = Inr w' \<and> unloaded w') \<and>
   (\<exists>wfl. loadScene example_api (example_env\<lparr>env_throws := Some AtData\<rparr>) new_UnifiedRobotModel
          start_world = Inl (EngineError, wfl) \<and>
        model (mgr wfl) = Some (0, example_model) \<and>
        (\<exists>w'. clearScene wfl = Inr w' \<and> unloaded w'))"
proof -
  from failed_load_example obtain wfl where
    f: "loadScene example_api (example_env\<lparr>env_throws := Some AtData\<rparr>) new_UnifiedRobotModel
          start_world = Inl (EngineError, wfl)"
       "model (mgr wfl) = Some (0, example_model)"
    by blast
  from clearScene_from_any_state [OF start_world_reachable,
      of example_api "example_env\<lparr>env_throws := Some AtData\<rparr>" new_UnifiedRobotModel
        EngineError wfl] f
  show ?thesis by blast
qed

end
